theory Spec2Isabelle
  imports Main "HOL-Library.Signed_Division" "HOL-Library.Monad_Syntax"
begin

section \<open>Win32 and D3D DDI data used by D3dDdi::Resource\<close>

text \<open>
  \<^verbatim>\<open>HRESULT\<close> is a signed 32-bit code; the source only compares codes and tests their
  sign (\<^verbatim>\<open>FAILED\<close>, \<^verbatim>\<open>SUCCEEDED\<close>), so a code is modelled by its signed value.
  \<^verbatim>\<open>LONG\<close> and \<^verbatim>\<open>int\<close> are 32 bits wide. Their values are modelled as integers, and
  where the source multiplies, doubles, increments or offsets sizes (\<^verbatim>\<open>calculateScaledRect\<close>,
  \<^verbatim>\<open>OffsetRect\<close>, \<^verbatim>\<open>downscale\<close>) the result is reduced to the signed 32-bit range by \<open>int32\<close>,
  which is what the compiled code computes. \<^verbatim>\<open>UINT\<close> values are modelled as naturals. C++
  division truncates towards zero, which is \<open>sdiv\<close>; a division by zero, and the division
  of the least 32-bit value by \<open>-1\<close>, stop the program.
\<close>

type_synonym hresult = int

abbreviation (input) S_OK :: hresult where "S_OK \<equiv> 0"
abbreviation (input) S_FALSE :: hresult where "S_FALSE \<equiv> 1"
abbreviation (input) E_FAIL :: hresult where "E_FAIL \<equiv> - 2147467259"
abbreviation (input) E_ABORT :: hresult where "E_ABORT \<equiv> - 2147467260"
abbreviation (input) E_OUTOFMEMORY :: hresult where "E_OUTOFMEMORY \<equiv> - 2147024882"

definition FAILED :: "hresult \<Rightarrow> bool" where
  "FAILED hr = (hr < 0)"

definition SUCCEEDED :: "hresult \<Rightarrow> bool" where
  "SUCCEEDED hr = (0 \<le> hr)"

text \<open>The value of a 32-bit signed result: the integer reduced modulo \<open>2^32\<close> to \<open>[-2^31, 2^31)\<close>.\<close>

definition int32 :: "int \<Rightarrow> int" where
  "int32 x = (x + 2147483648) mod 4294967296 - 2147483648"

text \<open>The 32-bit signed division of the processor; \<open>None\<close> is the divide error.\<close>

definition div32 :: "int \<Rightarrow> int \<Rightarrow> int option" where
  "div32 a b = (if b = 0 \<or> (a = - 2147483648 \<and> b = - 1) then None else Some (a sdiv b))"

record rect =
  r_left :: int
  r_top :: int
  r_right :: int
  r_bottom :: int

record size2 =
  cx :: int
  cy :: int

definition emptyRect :: rect where
  "emptyRect = \<lparr>r_left = 0, r_top = 0, r_right = 0, r_bottom = 0\<rparr>"

text \<open>Win32 \<^verbatim>\<open>OffsetRect\<close>, \<^verbatim>\<open>IsRectEmpty\<close> and \<^verbatim>\<open>EqualRect\<close>, as documented.\<close>

definition OffsetRect :: "rect \<Rightarrow> int \<Rightarrow> int \<Rightarrow> rect" where
  "OffsetRect rc dx dy =
     \<lparr>r_left = int32 (r_left rc + dx), r_top = int32 (r_top rc + dy),
      r_right = int32 (r_right rc + dx), r_bottom = int32 (r_bottom rc + dy)\<rparr>"

definition IsRectEmpty :: "rect \<Rightarrow> bool" where
  "IsRectEmpty rc = (r_right rc \<le> r_left rc \<or> r_bottom rc \<le> r_top rc)"

definition EqualRect :: "rect \<Rightarrow> rect \<Rightarrow> bool" where
  "EqualRect a b = (a = b)"

section \<open>The presentation rectangle\<close>

text \<open>
  \<^verbatim>\<open>calculateScaledRect\<close> (anonymous namespace of Resource.cpp), in 32-bit arithmetic. A
  division that stops the program is the result \<open>None\<close>.
\<close>

definition calculateScaledRect :: "rect \<Rightarrow> rect \<Rightarrow> rect option" where
  "calculateScaledRect srcRect dstRect =
     (let srcWidth = int32 (r_right srcRect - r_left srcRect);
          srcHeight = int32 (r_bottom srcRect - r_top srcRect);
          dstWidth = int32 (r_right dstRect - r_left dstRect);
          dstHeight = int32 (r_bottom dstRect - r_top dstRect);
          rc = \<lparr>r_left = 0, r_top = 0, r_right = dstWidth, r_bottom = dstHeight\<rparr>
      in do { rc1 \<leftarrow>
                (if int32 (dstWidth * srcHeight) > int32 (dstHeight * srcWidth)
                 then do { q \<leftarrow> div32 (int32 (dstHeight * srcWidth)) srcHeight;
                           Some (rc\<lparr>r_right := q\<rparr>) }
                 else do { q \<leftarrow> div32 (int32 (dstWidth * srcHeight)) srcWidth;
                           Some (rc\<lparr>r_bottom := q\<rparr>) });
              Some (OffsetRect rc1 (int32 (dstWidth - r_right rc1) sdiv 2)
                                   (int32 (dstHeight - r_bottom rc1) sdiv 2)) })"

text \<open>A rectangle lies within another one.\<close>

definition rectWithin :: "rect \<Rightarrow> rect \<Rightarrow> bool" where
  "rectWithin a b =
     (r_left b \<le> r_left a \<and> r_top b \<le> r_top a \<and>
      r_right a \<le> r_right b \<and> r_bottom a \<le> r_bottom b)"

text \<open>The extent of a rectangle, moved to the origin.\<close>

definition rectExtent :: "rect \<Rightarrow> rect" where
  "rectExtent rc =
     \<lparr>r_left = 0, r_top = 0, r_right = r_right rc - r_left rc, r_bottom = r_bottom rc - r_top rc\<rparr>"

definition rectWidth :: "rect \<Rightarrow> int" where
  "rectWidth rc = r_right rc - r_left rc"

definition rectHeight :: "rect \<Rightarrow> int" where
  "rectHeight rc = r_bottom rc - r_top rc"


section \<open>Creation data, lock data and auxiliary surfaces\<close>

datatype D3DDDIFORMAT =
    D3DDDIFMT_UNKNOWN
  | D3DDDIFMT_A8R8G8B8
  | D3DDDIFMT_X8R8G8B8
  | D3DDDIFMT_R5G6B5
  | D3DDDIFMT_P8
  | D3DDDIFMT_X8B8G8R8
  | FOURCC_NULL
  | FOURCC_INTZ
  | D3DDDIFMT_OTHER nat

datatype D3DDDI_POOL =
    D3DDDIPOOL_SYSTEMMEM
  | D3DDDIPOOL_VIDEOMEMORY
  | D3DDDIPOOL_LOCALVIDMEM
  | D3DDDIPOOL_NONLOCALVIDMEM

text \<open>\<^verbatim>\<open>D3DDDIMULTISAMPLE_TYPE\<close>: the number of samples, \<^verbatim>\<open>D3DDDIMULTISAMPLE_NONE\<close> being 0.\<close>

type_synonym D3DDDIMULTISAMPLE_TYPE = nat

abbreviation (input) D3DDDIMULTISAMPLE_NONE :: D3DDDIMULTISAMPLE_TYPE where
  "D3DDDIMULTISAMPLE_NONE \<equiv> 0"

text \<open>
  \<^verbatim>\<open>D3DDDI_RESOURCEFLAGS\<close>: the resource type bits that \<^verbatim>\<open>getResourceTypeFlags\<close> lists,
  and \<^verbatim>\<open>MightDrawFromLocked\<close>, which the constructor reads.
\<close>

record D3DDDI_RESOURCEFLAGS =
  RenderTarget :: bool
  ZBuffer :: bool
  DMap :: bool
  Points :: bool
  RtPatches :: bool
  NPatches :: bool
  Video :: bool
  CaptureBuffer :: bool
  MatchGdiPrimary :: bool
  Primary :: bool
  Texture :: bool
  CubeMap :: bool
  VertexBuffer :: bool
  IndexBuffer :: bool
  DecodeRenderTarget :: bool
  DecodeCompressedBuffer :: bool
  VideoProcessRenderTarget :: bool
  Overlay :: bool
  TextApi :: bool
  MightDrawFromLocked :: bool

definition noFlags :: D3DDDI_RESOURCEFLAGS where
  "noFlags = \<lparr>RenderTarget = False, ZBuffer = False, DMap = False, Points = False,
     RtPatches = False, NPatches = False, Video = False, CaptureBuffer = False,
     MatchGdiPrimary = False, Primary = False, Texture = False, CubeMap = False,
     VertexBuffer = False, IndexBuffer = False, DecodeRenderTarget = False,
     DecodeCompressedBuffer = False, VideoProcessRenderTarget = False, Overlay = False,
     TextApi = False, MightDrawFromLocked = False\<rparr>"

text \<open>
  \<^verbatim>\<open>0 != (m_fixedData.Flags.Value & flags.Value)\<close> in \<^verbatim>\<open>createLockResource\<close>, where
  \<^verbatim>\<open>flags\<close> is \<^verbatim>\<open>g_resourceTypeFlags\<close> with \<^verbatim>\<open>RenderTarget\<close> cleared.
\<close>

definition hasTypeFlagBesidesRenderTarget :: "D3DDDI_RESOURCEFLAGS \<Rightarrow> bool" where
  "hasTypeFlagBesidesRenderTarget f =
     (ZBuffer f \<or> DMap f \<or> Points f \<or> RtPatches f \<or> NPatches f \<or> Video f \<or>
      CaptureBuffer f \<or> MatchGdiPrimary f \<or> Primary f \<or> Texture f \<or> CubeMap f \<or>
      VertexBuffer f \<or> IndexBuffer f \<or> DecodeRenderTarget f \<or> DecodeCompressedBuffer f \<or>
      VideoProcessRenderTarget f \<or> Overlay f \<or> TextApi f)"

record D3DDDI_SURFACEINFO =
  Width :: nat
  Height :: nat
  Depth :: nat
  pSysMem :: nat
  SysMemPitch :: nat

text \<open>
  \<^verbatim>\<open>Resource::Data\<close>, a \<^verbatim>\<open>D3DDDIARG_CREATERESOURCE2\<close> owning its surface list:
  \<^verbatim>\<open>pSurfList\<close> is \<open>surfaceData\<close> and \<^verbatim>\<open>SurfCount\<close> its length.
\<close>

record Resource_Data =
  Format :: D3DDDIFORMAT
  Pool :: D3DDDI_POOL
  MultisampleType :: D3DDDIMULTISAMPLE_TYPE
  MultisampleQuality :: nat
  surfaceData :: "D3DDDI_SURFACEINFO list"
  Flags :: D3DDDI_RESOURCEFLAGS
  hResource :: nat

definition SurfCount :: "Resource_Data \<Rightarrow> nat" where
  "SurfCount dat = length (surfaceData dat)"

text \<open>\<^verbatim>\<open>pSurfList[i]\<close>: reading past the list has no defined result.\<close>

definition pSurfList :: "Resource_Data \<Rightarrow> nat \<Rightarrow> D3DDDI_SURFACEINFO option" where
  "pSurfList dat i = (if i < length (surfaceData dat) then Some (surfaceData dat ! i) else None)"

record FormatInfo =
  bytesPerPixel :: nat

record LockData =
  data :: nat
  pitch :: nat
  isSysMemUpToDate :: bool
  isVidMemUpToDate :: bool
  isMsaaUpToDate :: bool
  isMsaaResolvedUpToDate :: bool
  isRefLocked :: bool

text \<open>A value-initialised \<^verbatim>\<open>LockData\<close>, as \<^verbatim>\<open>std::vector::resize\<close> appends.\<close>

definition newLockData :: LockData where
  "newLockData = \<lparr>data = 0, pitch = 0, isSysMemUpToDate = False, isVidMemUpToDate = False,
     isMsaaUpToDate = False, isMsaaResolvedUpToDate = False, isRefLocked = False\<rparr>"

definition resize :: "nat \<Rightarrow> LockData list \<Rightarrow> LockData list" where
  "resize n xs = take n xs @ replicate (n - length xs) newLockData"

text \<open>
  What this code reads of another \<^verbatim>\<open>Resource\<close> object that it uses as a blit operand
  (a surface of the surface repository, or the other side of a blit): its handle, its
  creation data, its format information and its lock resource. The code never writes to
  such an operand.
\<close>

record ResourceRef =
  ref_handle :: nat
  ref_origData :: Resource_Data
  ref_fixedData :: Resource_Data
  ref_formatInfo :: FormatInfo
  ref_lockResource :: "nat option"

text \<open>
  \<^verbatim>\<open>SurfaceRepository::Surface\<close>: \<open>resource = None\<close> is the null pointer, so a dereference
  of a missing surface has no result in the option monad.
\<close>

record Surface =
  resource :: "ResourceRef option"
  width :: nat
  height :: nat

definition noSurface :: Surface where
  "noSurface = \<lparr>resource = None, width = 0, height = 0\<rparr>"

record Resource =
  m_handle :: nat
  m_origData :: Resource_Data
  m_fixedData :: Resource_Data
  m_formatInfo :: FormatInfo
  m_lockBuffer :: bool
  m_lockResource :: "nat option"
  m_lockData :: "LockData list"
  m_lockRefSurface :: Surface
  m_msaaSurface :: Surface
  m_msaaResolvedSurface :: Surface
  m_nullSurface :: Surface
  m_formatConfig :: D3DDDIFORMAT
  m_multiSampleConfig :: "D3DDDIMULTISAMPLE_TYPE \<times> nat"
  m_scaledSize :: size2
  m_isOversized :: bool
  m_isSurfaceRepoResource :: bool
  m_isClampable :: bool
  m_isPrimary :: bool
  m_isPalettizedTextureUpToDate :: bool

definition refOf :: "Resource \<Rightarrow> ResourceRef" where
  "refOf r = \<lparr>ref_handle = m_handle r, ref_origData = m_origData r,
     ref_fixedData = m_fixedData r, ref_formatInfo = m_formatInfo r,
     ref_lockResource = m_lockResource r\<rparr>"

text \<open>\<^verbatim>\<open>m_lockData[i]\<close>, read and written: an index past the vector has no defined result.\<close>

definition lockDataAt :: "Resource \<Rightarrow> nat \<Rightarrow> LockData option" where
  "lockDataAt r i = (if i < length (m_lockData r) then Some (m_lockData r ! i) else None)"

definition setLockData :: "nat \<Rightarrow> (LockData \<Rightarrow> LockData) \<Rightarrow> Resource \<Rightarrow> Resource option" where
  "setLockData i f r =
     (if i < length (m_lockData r)
      then Some (r\<lparr>m_lockData := (m_lockData r)[i := f (m_lockData r ! i)]\<rparr>)
      else None)"

section \<open>Driver, shader blitter and surface repository\<close>

record D3DDDI_BLTFLAGS =
  Point :: bool
  Linear :: bool
  SrcColorKey :: bool
  DstColorKey :: bool
  MirrorLeftRight :: bool
  MirrorUpDown :: bool

record D3DDDIARG_BLT =
  hSrcResource :: nat
  SrcSubResourceIndex :: nat
  SrcRect :: rect
  hDstResource :: nat
  DstSubResourceIndex :: nat
  DstRect :: rect
  ColorKey :: nat
  BltFlags :: D3DDDI_BLTFLAGS

definition noBltFlags :: D3DDDI_BLTFLAGS where
  "noBltFlags = \<lparr>Point = False, Linear = False, SrcColorKey = False, DstColorKey = False,
     MirrorLeftRight = False, MirrorUpDown = False\<rparr>"

definition newBlt :: D3DDDIARG_BLT where
  "newBlt = \<lparr>hSrcResource = 0, SrcSubResourceIndex = 0, SrcRect = emptyRect,
     hDstResource = 0, DstSubResourceIndex = 0, DstRect = emptyRect, ColorKey = 0,
     BltFlags = noBltFlags\<rparr>"

record D3DDDIARG_LOCK =
  l_hResource :: nat
  l_SubResourceIndex :: nat
  l_ReadOnly :: bool
  l_NotifyOnly :: bool
  l_AreaValid :: bool
  l_Area :: rect
  pSurfData :: int
  Pitch :: nat

definition newLock :: D3DDDIARG_LOCK where
  "newLock = \<lparr>l_hResource = 0, l_SubResourceIndex = 0, l_ReadOnly = False,
     l_NotifyOnly = False, l_AreaValid = False, l_Area = emptyRect, pSurfData = 0, Pitch = 0\<rparr>"

record D3DDDIARG_UNLOCK =
  u_hResource :: nat
  u_SubResourceIndex :: nat
  u_NotifyOnly :: bool

record D3DDDIARG_COLORFILL =
  cf_hResource :: nat
  cf_SubResourceIndex :: nat
  cf_DstRect :: rect
  Color :: nat

text \<open>
  Requests to the surface repository (an external collaborator). \<^verbatim>\<open>getSurface\<close> is
  given the surface to fill, the size, the format, the capability bits and the surface
  count; the request also records the global format and multisample overrides in force,
  which the repository's own resource creation reads.
\<close>

abbreviation (input) DDSCAPS_TEXTURE :: nat where "DDSCAPS_TEXTURE \<equiv> 4096"
abbreviation (input) DDSCAPS_3DDEVICE :: nat where "DDSCAPS_3DDEVICE \<equiv> 8192"
abbreviation (input) DDSCAPS_VIDEOMEMORY :: nat where "DDSCAPS_VIDEOMEMORY \<equiv> 16384"
abbreviation (input) DDSCAPS_ZBUFFER :: nat where "DDSCAPS_ZBUFFER \<equiv> 131072"

datatype repo_request =
    GetTempRenderTarget int int nat
  | GetTempTexture int int D3DDDIFORMAT
  | GetTempSysMemSurface int int
  | GetSurface Surface int int D3DDDIFORMAT nat nat D3DDDIFORMAT "D3DDDIMULTISAMPLE_TYPE \<times> nat"
  | GetGammaRampTexture

text \<open>
  Everything the resource asks of its collaborators, in the order asked: the original
  driver functions, the shader blitter, the device state, the CPU blitter, the surface
  repository and the GDI/DirectDraw layers.
\<close>

datatype call =
    PfnCreateResource Resource_Data
  | PfnBlt D3DDDIARG_BLT
  | PfnLock D3DDDIARG_LOCK
  | PfnUnlock D3DDDIARG_UNLOCK
  | PfnColorFill D3DDDIARG_COLORFILL
  | TextureBlt nat nat rect nat nat rect bool bool
  | DepthBlt nat rect nat rect nat
  | LockRefBlt nat nat rect nat nat rect nat
  | PalettizedBlt nat nat rect nat nat rect
  | CursorBlt nat nat rect
  | GammaBlt nat nat rect nat rect
  | GenBilinearBlt nat nat rect nat rect
  | SetTempDepthStencil nat
  | SetTempTexture nat nat
  | SetTempRenderState nat nat
  | BlitterBlt int nat int int int nat int int nat bool bool
  | BlitterColorFill int nat int int nat nat
  | Repo repo_request
  | EnableSurfaceCheck bool
  | UpdatePalette
  | CursorSetMonitorClipRect rect
  | CursorSetEmulated bool
  | VirtualScreenSetFullscreenMode bool
  | CaptureLayeredWindow nat

datatype log_site = Site_UnsupportedMsaaDepthBufferResolve | Site_CopySubResourceRegionFailed

datatype log_msg = Msg_UnsupportedMsaaDepthBufferResolve | Msg_CopySubResourceRegionFailed hresult

text \<open>
  The state the resources of a device share: the calls issued so far, the log with the
  static flag of each \<^verbatim>\<open>LOG_ONCE\<close> site, and the globals of Resource.cpp.
\<close>

record dev =
  calls :: "call list"
  logMessages :: "log_msg list"
  logOnceFlags :: "log_site set"
  g_presentationRect :: rect
  g_formatOverride :: D3DDDIFORMAT
  g_msaaOverride :: "D3DDDIMULTISAMPLE_TYPE \<times> nat"

record layered_window =
  lw_hwnd :: nat
  lw_rect :: rect
  lw_colorKey :: bool

text \<open>
  What the collaborators answer, as parameters of the model: the adapter's capabilities,
  the configuration, the monitor rectangles, the \<^verbatim>\<open>HRESULT\<close> the driver returns for a
  call after a history of calls (and the handle it gives a created resource), the
  surface the repository returns for a request, what \<^verbatim>\<open>DDraw::setBltSrc\<close> writes into
  a blit, the emulated cursor, the visible layered windows, \<^verbatim>\<open>Rect::transform\<close>, and the
  alignment and address of a lock buffer.
\<close>

record env =
  isMsaaDepthResolveSupported :: bool
  dwMaxTextureWidth :: nat
  dwMaxTextureHeight :: nat
  getFormatInfo :: "D3DDDIFORMAT \<Rightarrow> FormatInfo"
  adapterMultisampleConfig :: "D3DDDIFORMAT \<Rightarrow> D3DDDIMULTISAMPLE_TYPE \<times> nat"
  adapterScaledSize :: "size2 \<Rightarrow> size2"
  formatOpsSrgbWrite :: "D3DDDIFORMAT \<Rightarrow> bool option"
  renderColorDepth :: nat
  bltFilterBilinear :: bool
  resolutionScaleFilterPoint :: bool
  displayFilterBilinear :: bool
  driver :: "call list \<Rightarrow> call \<Rightarrow> hresult"
  repo :: "call list \<Rightarrow> repo_request \<Rightarrow> Surface"
  inCreateSurface :: bool
  primaryMonitorRect :: rect
  realMonitorRect :: rect
  setBltSrc :: "D3DDDIARG_BLT \<Rightarrow> D3DDDIARG_BLT"
  newHandle :: "call list \<Rightarrow> Resource_Data \<Rightarrow> nat"
  ALIGNMENT :: nat
  lockBufferStart :: "call list \<Rightarrow> nat"
  cursorEmulated :: "nat option"
  gammaRampDefault :: bool
  rectTransform :: "rect \<Rightarrow> rect \<Rightarrow> rect \<Rightarrow> rect"
  visibleLayeredWindows :: "layered_window list"

definition callDriver :: "env \<Rightarrow> call \<Rightarrow> dev \<Rightarrow> hresult \<times> dev" where
  "callDriver e c d = (driver e (calls d) c, d\<lparr>calls := calls d @ [c]\<rparr>)"

definition emit :: "call \<Rightarrow> dev \<Rightarrow> dev" where
  "emit c d = d\<lparr>calls := calls d @ [c]\<rparr>"

definition askRepo :: "env \<Rightarrow> repo_request \<Rightarrow> dev \<Rightarrow> Surface \<times> dev" where
  "askRepo e q d = (repo e (calls d) q, d\<lparr>calls := calls d @ [Repo q]\<rparr>)"

text \<open>
  Modelled from the spec: the \<^verbatim>\<open>LOG_ONCE\<close> macro of Common/Log.h is not among the
  sources; the spec calls it a warning "reported once". Each site has a static flag, and
  the message is written only while the flag is clear.
\<close>

definition LOG_ONCE :: "log_site \<Rightarrow> log_msg \<Rightarrow> dev \<Rightarrow> dev" where
  "LOG_ONCE site msg d =
     (if site \<in> logOnceFlags d then d
      else d\<lparr>logMessages := logMessages d @ [msg], logOnceFlags := insert site (logOnceFlags d)\<rparr>)"

definition logUnsupportedMsaaDepthBufferResolve :: "dev \<Rightarrow> dev" where
  "logUnsupportedMsaaDepthBufferResolve d =
     LOG_ONCE Site_UnsupportedMsaaDepthBufferResolve Msg_UnsupportedMsaaDepthBufferResolve d"

section \<open>Copies, render targets and shader blits\<close>

text \<open>
  A result \<open>None\<close> means that the call does not return normally: an index past a vector,
  a null pointer dereferenced, an integer division by zero, an exception that is not an
  \<^verbatim>\<open>HResultException\<close>, or a loop that never ends.
\<close>

definition getRect :: "Resource_Data \<Rightarrow> nat \<Rightarrow> rect option" where
  "getRect fixedData subResourceIndex =
     do { si \<leftarrow> pSurfList fixedData subResourceIndex;
          Some \<lparr>r_left = 0, r_top = 0, r_right = int (Width si), r_bottom = int (Height si)\<rparr> }"

definition copySubResourceRegion ::
  "env \<Rightarrow> nat \<Rightarrow> nat \<Rightarrow> rect \<Rightarrow> nat \<Rightarrow> nat \<Rightarrow> rect \<Rightarrow> dev \<Rightarrow> hresult \<times> dev" where
  "copySubResourceRegion e dst dstIndex dstRect src srcIndex srcRect d =
     (let dat = newBlt\<lparr>hDstResource := dst, DstSubResourceIndex := dstIndex, DstRect := dstRect,
                       hSrcResource := src, SrcSubResourceIndex := srcIndex, SrcRect := srcRect,
                       BltFlags := noBltFlags\<lparr>Point := True\<rparr>\<rparr>;
          (result, d1) = callDriver e (PfnBlt dat) d
      in (result,
          if FAILED result
          then LOG_ONCE Site_CopySubResourceRegionFailed (Msg_CopySubResourceRegionFailed result) d1
          else d1))"

text \<open>\<^verbatim>\<open>copySubResource(Resource& dstResource, Resource& srcResource, UINT)\<close>.\<close>

definition copySubResourceR ::
  "env \<Rightarrow> ResourceRef \<Rightarrow> ResourceRef \<Rightarrow> nat \<Rightarrow> dev \<Rightarrow> (hresult \<times> dev) option" where
  "copySubResourceR e dstResource srcResource subResourceIndex d =
     do { dstRect \<leftarrow> getRect (ref_fixedData dstResource) subResourceIndex;
          srcRect \<leftarrow> getRect (ref_fixedData srcResource) subResourceIndex;
          Some (copySubResourceRegion e (ref_handle dstResource) subResourceIndex dstRect
                  (ref_handle srcResource) subResourceIndex srcRect d) }"

text \<open>
  \<^verbatim>\<open>copySubResource(HANDLE dstResource, HANDLE srcResource, UINT)\<close>, the overload chosen
  when an argument is a handle: both rectangles are this resource's.
\<close>

definition copySubResourceH ::
  "env \<Rightarrow> Resource \<Rightarrow> nat \<Rightarrow> nat \<Rightarrow> nat \<Rightarrow> dev \<Rightarrow> (hresult \<times> dev) option" where
  "copySubResourceH e r dstResource srcResource subResourceIndex d =
     do { rc \<leftarrow> getRect (m_fixedData r) subResourceIndex;
          Some (copySubResourceRegion e dstResource subResourceIndex rc
                  srcResource subResourceIndex rc d) }"

text \<open>The handle of a lock resource pointer; the null pointer is the handle 0.\<close>

definition handleOf :: "nat option \<Rightarrow> nat" where
  "handleOf p = (case p of None \<Rightarrow> 0 | Some h \<Rightarrow> h)"

definition notifyLock :: "env \<Rightarrow> ResourceRef \<Rightarrow> nat \<Rightarrow> dev \<Rightarrow> dev" where
  "notifyLock e r subResourceIndex d =
     (let lck = newLock\<lparr>
            l_hResource := (if Pool (ref_fixedData r) = D3DDDIPOOL_SYSTEMMEM
                            then ref_handle r else handleOf (ref_lockResource r)),
            l_SubResourceIndex := subResourceIndex, l_NotifyOnly := True\<rparr>;
          (_, d1) = callDriver e (PfnLock lck) d;
          unlck = \<lparr>u_hResource = l_hResource lck, u_SubResourceIndex = l_SubResourceIndex lck,
                    u_NotifyOnly = True\<rparr>;
          (_, d2) = callDriver e (PfnUnlock unlck) d1
      in d2)"

definition getNextRenderTarget :: "env \<Rightarrow> ResourceRef \<Rightarrow> int \<Rightarrow> int \<Rightarrow> dev \<Rightarrow> Surface \<times> dev" where
  "getNextRenderTarget e currentRt w h d =
     (let (nextRt, d1) = askRepo e (GetTempRenderTarget w h 0) d
      in if map_option ref_handle (resource nextRt) = Some (ref_handle currentRt)
         then askRepo e (GetTempRenderTarget w h 1) d1
         else (nextRt, d1))"

text \<open>
  \<^verbatim>\<open>Resource::downscale\<close>. The arguments passed by reference (\<^verbatim>\<open>rt\<close>, \<^verbatim>\<open>srcWidth\<close>,
  \<^verbatim>\<open>srcHeight\<close>) are returned; the sizes are \<^verbatim>\<open>LONG\<close>, so \<open>2 * dstWidth\<close> and
  \<open>srcWidth + 1\<close> are 32-bit results. The loop has no bound of its own, so the function
  is partial: \<open>None\<close> is a loop that never ends.
\<close>

partial_function (option) downscale ::
  "env \<Rightarrow> ResourceRef \<Rightarrow> int \<Rightarrow> int \<Rightarrow> int \<Rightarrow> int \<Rightarrow> bool \<Rightarrow> dev
     \<Rightarrow> ((ResourceRef \<times> int \<times> int) \<times> dev) option" where
  "downscale e rt srcWidth srcHeight dstWidth dstHeight dryRun d =
     (if srcWidth > int32 (2 * dstWidth) \<or> srcHeight > int32 (2 * dstHeight) then
        (let newSrcWidth = max dstWidth (int32 (srcWidth + 1) sdiv 2);
             newSrcHeight = max dstHeight (int32 (srcHeight + 1) sdiv 2);
             (nextRt, d1) = getNextRenderTarget e rt newSrcWidth newSrcHeight d
         in case resource nextRt of
              None \<Rightarrow> Some ((rt, srcWidth, srcHeight), d1)
            | Some nextRes \<Rightarrow>
                downscale e nextRes newSrcWidth newSrcHeight dstWidth dstHeight dryRun
                  (if \<not> dryRun
                   then emit (TextureBlt (ref_handle nextRes) 0
                                \<lparr>r_left = 0, r_top = 0, r_right = newSrcWidth, r_bottom = newSrcHeight\<rparr>
                                (ref_handle rt) 0
                                \<lparr>r_left = 0, r_top = 0, r_right = srcWidth, r_bottom = srcHeight\<rparr>
                                True False) d1
                   else d1))
      else Some ((rt, srcWidth, srcHeight), d))"

declare downscale.simps [code]

text \<open>
  Whether every request for a render target that \<^verbatim>\<open>downscale\<close> makes on its run is
  answered with a surface: the loop of \<^verbatim>\<open>downscale\<close> once more, returning \<open>False\<close> where
  \<^verbatim>\<open>downscale\<close> gives up for want of a render target and \<open>True\<close> where it leaves the loop
  by its test.
\<close>

partial_function (option) everyRequestSucceeds ::
  "env \<Rightarrow> ResourceRef \<Rightarrow> int \<Rightarrow> int \<Rightarrow> int \<Rightarrow> int \<Rightarrow> bool \<Rightarrow> dev \<Rightarrow> bool option" where
  "everyRequestSucceeds e rt srcWidth srcHeight dstWidth dstHeight dryRun d =
     (if srcWidth > int32 (2 * dstWidth) \<or> srcHeight > int32 (2 * dstHeight) then
        (let newSrcWidth = max dstWidth (int32 (srcWidth + 1) sdiv 2);
             newSrcHeight = max dstHeight (int32 (srcHeight + 1) sdiv 2);
             (nextRt, d1) = getNextRenderTarget e rt newSrcWidth newSrcHeight d
         in case resource nextRt of
              None \<Rightarrow> Some False
            | Some nextRes \<Rightarrow>
                everyRequestSucceeds e nextRes newSrcWidth newSrcHeight dstWidth dstHeight dryRun
                  (if \<not> dryRun
                   then emit (TextureBlt (ref_handle nextRes) 0
                                \<lparr>r_left = 0, r_top = 0, r_right = newSrcWidth, r_bottom = newSrcHeight\<rparr>
                                (ref_handle rt) 0
                                \<lparr>r_left = 0, r_top = 0, r_right = srcWidth, r_bottom = srcHeight\<rparr>
                                True False) d1
                   else d1))
      else Some True)"

declare everyRequestSucceeds.simps [code]

lemma int32_id: "- 2147483648 \<le> x \<Longrightarrow> x < 2147483648 \<Longrightarrow> int32 x = x"
  by (simp add: int32_def)

definition downscaleMeasure :: "int \<Rightarrow> int \<Rightarrow> int \<Rightarrow> int \<Rightarrow> nat" where
  "downscaleMeasure srcWidth srcHeight dstWidth dstHeight =
     (if srcWidth > 2 * dstWidth then nat srcWidth else 0) +
     (if srcHeight > 2 * dstHeight then nat srcHeight else 0)"

lemma half_step:
  assumes "0 < (dst::int)"
  shows "src > 2 * dst \<Longrightarrow> dst \<le> max dst ((src + 1) sdiv 2) \<and> max dst ((src + 1) sdiv 2) < src"
    and "src \<le> 2 * dst \<Longrightarrow> max dst ((src + 1) sdiv 2) = dst"
proof -
  have e: "0 \<le> src + 1 \<Longrightarrow> (src + 1) sdiv 2 = (src + 1) div 2"
    by (simp add: signed_divide_int_def sgn_if)
  have n: "src + 1 < 0 \<Longrightarrow> (src + 1) sdiv 2 \<le> 0"
    by (simp add: signed_divide_int_def sgn_if)
  show "src > 2 * dst \<Longrightarrow> dst \<le> max dst ((src + 1) sdiv 2) \<and> max dst ((src + 1) sdiv 2) < src"
    using assms e by (simp add: max_def) presburger
  show "src \<le> 2 * dst \<Longrightarrow> max dst ((src + 1) sdiv 2) = dst"
  proof (cases "0 \<le> src + 1")
    case True
    assume "src \<le> 2 * dst"
    then show ?thesis using assms e[OF True] by (simp add: max_def) presburger
  next
    case False
    then show ?thesis using assms n by (simp add: max_def)
  qed
qed

lemma downscaleMeasure_step:
  assumes "0 < dstWidth" "0 < dstHeight"
      and "srcWidth > 2 * dstWidth \<or> srcHeight > 2 * dstHeight"
  shows "downscaleMeasure (max dstWidth ((srcWidth + 1) sdiv 2)) (max dstHeight ((srcHeight + 1) sdiv 2))
           dstWidth dstHeight < downscaleMeasure srcWidth srcHeight dstWidth dstHeight"
proof -
  have w: "(if max dstWidth ((srcWidth + 1) sdiv 2) > 2 * dstWidth then nat (max dstWidth ((srcWidth + 1) sdiv 2)) else 0)
         \<le> (if srcWidth > 2 * dstWidth then nat srcWidth else 0)"
    using half_step[OF assms(1), of srcWidth] assms(1) by (cases "srcWidth > 2 * dstWidth") auto
  have h: "(if max dstHeight ((srcHeight + 1) sdiv 2) > 2 * dstHeight then nat (max dstHeight ((srcHeight + 1) sdiv 2)) else 0)
         \<le> (if srcHeight > 2 * dstHeight then nat srcHeight else 0)"
    using half_step[OF assms(2), of srcHeight] assms(2) by (cases "srcHeight > 2 * dstHeight") auto
  have w': "srcWidth > 2 * dstWidth \<Longrightarrow>
      (if max dstWidth ((srcWidth + 1) sdiv 2) > 2 * dstWidth then nat (max dstWidth ((srcWidth + 1) sdiv 2)) else 0)
         < (if srcWidth > 2 * dstWidth then nat srcWidth else 0)"
    using half_step(1)[OF assms(1), of srcWidth] assms(1) by auto
  have h': "srcHeight > 2 * dstHeight \<Longrightarrow>
      (if max dstHeight ((srcHeight + 1) sdiv 2) > 2 * dstHeight then nat (max dstHeight ((srcHeight + 1) sdiv 2)) else 0)
         < (if srcHeight > 2 * dstHeight then nat srcHeight else 0)"
    using half_step(1)[OF assms(2), of srcHeight] assms(2) by auto
  show ?thesis unfolding downscaleMeasure_def using assms(3) w h w' h' by linarith
qed

text \<open>Sizes for which \<open>2 * dstWidth\<close> and \<open>srcWidth + 1\<close> do not overflow.\<close>

definition dstSizeFits :: "int \<Rightarrow> bool" where
  "dstSizeFits dst = (0 < dst \<and> dst < 1073741824)"

definition srcSizeFits :: "int \<Rightarrow> bool" where
  "srcSizeFits src = (- 2147483648 \<le> src \<and> src < 2147483647)"

lemma half_fits:
  assumes "dstSizeFits dst" "srcSizeFits src"
  shows "srcSizeFits (max dst ((src + 1) sdiv 2))"
proof -
  have e: "0 \<le> src + 1 \<Longrightarrow> (src + 1) sdiv 2 = (src + 1) div 2"
    by (simp add: signed_divide_int_def sgn_if)
  have n: "src + 1 < 0 \<Longrightarrow> (src + 1) sdiv 2 \<le> 0"
    by (simp add: signed_divide_int_def sgn_if)
  show ?thesis
  proof (cases "0 \<le> src + 1")
    case True
    then show ?thesis using assms e[OF True]
      by (simp add: srcSizeFits_def dstSizeFits_def max_def) presburger
  next
    case False
    then show ?thesis using assms n
      by (simp add: srcSizeFits_def dstSizeFits_def max_def)
  qed
qed

lemma downscale_total:
  assumes "dstSizeFits dstWidth" "dstSizeFits dstHeight"
      and "srcSizeFits srcWidth" "srcSizeFits srcHeight"
  shows "\<exists>rt' w' h' d' ok.
           downscale e rt srcWidth srcHeight dstWidth dstHeight dryRun d = Some ((rt', w', h'), d') \<and>
           everyRequestSucceeds e rt srcWidth srcHeight dstWidth dstHeight dryRun d = Some ok \<and>
           (ok \<longrightarrow> w' \<le> 2 * dstWidth \<and> h' \<le> 2 * dstHeight)"
  using assms(3,4)
proof (induction "downscaleMeasure srcWidth srcHeight dstWidth dstHeight"
        arbitrary: rt srcWidth srcHeight d rule: less_induct)
  case less
  have pos: "0 < dstWidth" "0 < dstHeight"
    using assms(1,2) by (simp_all add: dstSizeFits_def)
  have u: "int32 (2 * dstWidth) = 2 * dstWidth" "int32 (2 * dstHeight) = 2 * dstHeight"
          "int32 (srcWidth + 1) = srcWidth + 1" "int32 (srcHeight + 1) = srcHeight + 1"
    using assms(1,2) less.prems by (simp_all add: dstSizeFits_def srcSizeFits_def int32_id)
  show ?case
  proof (cases "srcWidth > 2 * dstWidth \<or> srcHeight > 2 * dstHeight")
    case False
    then show ?thesis
      by (subst downscale.simps, subst everyRequestSucceeds.simps) (auto simp: u)
  next
    case True
    define nw where "nw = max dstWidth ((srcWidth + 1) sdiv 2)"
    define nh where "nh = max dstHeight ((srcHeight + 1) sdiv 2)"
    obtain nextRt d1 where g: "getNextRenderTarget e rt nw nh d = (nextRt, d1)" by force
    show ?thesis
    proof (cases "resource nextRt")
      case None
      then show ?thesis using True g
        by (subst downscale.simps, subst everyRequestSucceeds.simps)
           (auto simp: u Let_def nw_def[symmetric] nh_def[symmetric])
    next
      case (Some nextRes)
      have m: "downscaleMeasure nw nh dstWidth dstHeight < downscaleMeasure srcWidth srcHeight dstWidth dstHeight"
        unfolding nw_def nh_def using pos True by (rule downscaleMeasure_step)
      have f: "srcSizeFits nw" "srcSizeFits nh"
        unfolding nw_def nh_def using assms(1,2) less.prems by (simp_all add: half_fits)
      from less.hyps[OF m f] show ?thesis using True g Some
        by (subst downscale.simps, subst everyRequestSucceeds.simps)
           (auto simp: u Let_def nw_def[symmetric] nh_def[symmetric])
    qed
  qed
qed

text \<open>\<^verbatim>\<open>Resource::resolveMsaaDepthBuffer\<close>: the RESZ resolve of the device state.\<close>

definition resolveMsaaDepthBuffer :: "Resource \<Rightarrow> dev \<Rightarrow> dev option" where
  "resolveMsaaDepthBuffer r d =
     do { msaa \<leftarrow> resource (m_msaaSurface r);
          resolved \<leftarrow> resource (m_msaaResolvedSurface r);
          Some (emit (SetTempRenderState 154 2141212672)
                 (emit (SetTempTexture 0 (ref_handle resolved))
                   (emit (SetTempDepthStencil (ref_handle msaa)) d))) }"

text \<open>
  \<^verbatim>\<open>Resource::shaderBlt\<close>, in its three stages: the source is staged through a texture,
  the destination through a render target, then the blit and the copy back. A stage
  that returns early gives \<open>Inl\<close> of the \<^verbatim>\<open>HRESULT\<close>.
\<close>

definition shaderBlt_src ::
  "env \<Rightarrow> Resource \<Rightarrow> D3DDDIARG_BLT \<Rightarrow> ResourceRef \<Rightarrow> dev
     \<Rightarrow> (hresult + (ResourceRef \<times> nat \<times> rect)) \<times> dev" where
  "shaderBlt_src e r dat srcResource d =
     (if \<not> Texture (Flags (ref_fixedData srcResource)) \<or>
         Pool (ref_fixedData srcResource) = D3DDDIPOOL_SYSTEMMEM
      then
        (let w = r_right (SrcRect dat) - r_left (SrcRect dat);
             h = r_bottom (SrcRect dat) - r_top (SrcRect dat);
             (texture, d1) =
               (if ZBuffer (Flags (m_fixedData r)) then (resource (m_msaaResolvedSurface r), d)
                else (let (s, d') = askRepo e (GetTempTexture w h (Format (ref_fixedData srcResource))) d
                      in (resource s, d')))
         in case texture of
              None \<Rightarrow> (Inl E_OUTOFMEMORY, d1)
            | Some srcRes \<Rightarrow>
                (let srcRect = \<lparr>r_left = 0, r_top = 0, r_right = w, r_bottom = h\<rparr>;
                     (result, d2) = copySubResourceRegion e (ref_handle srcRes) 0 srcRect
                                      (hSrcResource dat) (SrcSubResourceIndex dat) (SrcRect dat) d1
                 in if FAILED result then (Inl result, d2)
                    else (Inr (srcRes, 0, srcRect),
                          if Pool (ref_fixedData srcResource) = D3DDDIPOOL_SYSTEMMEM
                          then notifyLock e srcResource (SrcSubResourceIndex dat) d2
                          else d2)))
      else (Inr (srcResource, SrcSubResourceIndex dat, SrcRect dat), d))"

definition shaderBlt_dst ::
  "env \<Rightarrow> Resource \<Rightarrow> D3DDDIARG_BLT \<Rightarrow> ResourceRef \<Rightarrow> dev
     \<Rightarrow> (hresult + (ResourceRef \<times> nat \<times> rect)) \<times> dev" where
  "shaderBlt_dst e r dat dstResource d =
     (if \<not> RenderTarget (Flags (m_fixedData r)) then
        (let w = r_right (DstRect dat) - r_left (DstRect dat);
             h = r_bottom (DstRect dat) - r_top (DstRect dat);
             (rt, d1) = askRepo e (GetTempRenderTarget w h 0) d
         in case resource rt of
              None \<Rightarrow> (Inl E_OUTOFMEMORY, d1)
            | Some dstRes \<Rightarrow>
                (let dstRect = \<lparr>r_left = 0, r_top = 0, r_right = w, r_bottom = h\<rparr>
                 in if SrcColorKey (BltFlags dat) then
                      (let (result, d2) = copySubResourceRegion e (ref_handle dstRes) 0 dstRect
                                            (hDstResource dat) (DstSubResourceIndex dat) (DstRect dat) d1
                       in if FAILED result then (Inl result, d2)
                          else (Inr (dstRes, 0, dstRect), d2))
                    else (Inr (dstRes, 0, dstRect), d1)))
      else (Inr (dstResource, DstSubResourceIndex dat, DstRect dat), d))"

definition mirrorRect :: "D3DDDI_BLTFLAGS \<Rightarrow> rect \<Rightarrow> rect" where
  "mirrorRect f rc =
     (let rc1 = (if MirrorLeftRight f then rc\<lparr>r_left := r_right rc, r_right := r_left rc\<rparr> else rc)
      in if MirrorUpDown f then rc1\<lparr>r_top := r_bottom rc1, r_bottom := r_top rc1\<rparr> else rc1)"

definition shaderBlt ::
  "env \<Rightarrow> Resource \<Rightarrow> D3DDDIARG_BLT \<Rightarrow> ResourceRef \<Rightarrow> ResourceRef \<Rightarrow> dev
     \<Rightarrow> (hresult \<times> dev) option" where
  "shaderBlt e r dat dstResource srcResource d =
     (case shaderBlt_src e r dat srcResource d of
        (Inl result, d1) \<Rightarrow> Some (result, d1)
      | (Inr (srcRes, srcIndex, srcRect0), d1) \<Rightarrow>
        (case shaderBlt_dst e r dat dstResource d1 of
           (Inl result, d2) \<Rightarrow> Some (result, d2)
         | (Inr (dstRes, dstIndex, dstRect), d2) \<Rightarrow>
           do { let srcRect = mirrorRect (BltFlags dat) srcRect0;
                d3 \<leftarrow> (if ZBuffer (Flags (m_fixedData r))
                       then do { nullRes \<leftarrow> resource (m_nullSurface r);
                                 Some (emit (DepthBlt (ref_handle dstRes) dstRect
                                               (ref_handle srcRes) srcRect (ref_handle nullRes)) d2) }
                       else Some (emit (TextureBlt (ref_handle dstRes) dstIndex dstRect
                                          (ref_handle srcRes) srcIndex srcRect
                                          (Linear (BltFlags dat)) (SrcColorKey (BltFlags dat))) d2));
                if \<not> RenderTarget (Flags (m_fixedData r)) then
                  (let (result, d4) = copySubResourceRegion e (hDstResource dat) (DstSubResourceIndex dat)
                                        (DstRect dat) (ref_handle dstRes) dstIndex dstRect d3
                   in if FAILED result then Some (result, d4) else Some (S_OK, d4))
                else Some (S_OK, d3) }))"

section \<open>Materialising the representations\<close>

definition isScaled :: "Resource \<Rightarrow> bool option" where
  "isScaled r =
     do { si \<leftarrow> pSurfList (m_fixedData r) 0;
          Some (int (Width si) \<noteq> cx (m_scaledSize r) \<or> int (Height si) \<noteq> cy (m_scaledSize r)) }"

text \<open>
  The part of \<^verbatim>\<open>loadFromLockRefResource\<close> after its call of \<^verbatim>\<open>loadVidMemResource\<close>.
\<close>

definition loadFromLockRefResource_blt ::
  "env \<Rightarrow> nat \<Rightarrow> Resource \<times> dev \<Rightarrow> (Resource \<times> dev) option" where
  "loadFromLockRefResource_blt e subResourceIndex s =
     (case s of (r, d) \<Rightarrow>
      do { si \<leftarrow> pSurfList (m_fixedData r) subResourceIndex;
           let srcRect = \<lparr>r_left = 0, r_top = 0, r_right = int (Width si), r_bottom = int (Height si)\<rparr>;
           let dstRect = \<lparr>r_left = 0, r_top = 0, r_right = int (width (m_msaaResolvedSurface r)),
                            r_bottom = int (height (m_msaaResolvedSurface r))\<rparr>;
           let finish = (\<lambda>(srcResource, srcIndex) d1.
                 do { resolved \<leftarrow> resource (m_msaaResolvedSurface r);
                      lockRef \<leftarrow> resource (m_lockRefSurface r);
                      r1 \<leftarrow> setLockData subResourceIndex (\<lambda>l. l\<lparr>isMsaaResolvedUpToDate := True\<rparr>) r;
                      Some (r1, emit (LockRefBlt (ref_handle resolved) subResourceIndex dstRect
                                        srcResource srcIndex srcRect (ref_handle lockRef)) d1) });
           if \<not> Texture (Flags (m_fixedData r)) then
             (let (texture, d1) = askRepo e (GetTempTexture (int (Width si)) (int (Height si))
                                               (Format (m_fixedData r))) d
              in case resource texture of
                   None \<Rightarrow> Some (r, d1)
                 | Some t \<Rightarrow>
                     (let (_, d2) = copySubResourceRegion e (ref_handle t) 0 srcRect
                                      (m_handle r) subResourceIndex srcRect d1
                      in finish (ref_handle t, 0) d2))
           else finish (m_handle r, subResourceIndex) d })"

text \<open>
  \<^verbatim>\<open>loadVidMemResource\<close> after \<^verbatim>\<open>loadMsaaResolvedResource\<close>: the copy, shader blit or
  downscale chain from the resolved surface into video memory.
\<close>

definition loadVidMemResource_fromResolved ::
  "env \<Rightarrow> nat \<Rightarrow> Resource \<Rightarrow> dev \<Rightarrow> dev option" where
  "loadVidMemResource_fromResolved e subResourceIndex r d =
     (if \<not> RenderTarget (Flags (m_fixedData r)) \<or> resolutionScaleFilterPoint e then
        do { scaled \<leftarrow> isScaled r;
             resolved \<leftarrow> resource (m_msaaResolvedSurface r);
             if ZBuffer (Flags (m_fixedData r)) \<or> \<not> scaled then
               do { (_, d1) \<leftarrow> copySubResourceR e (refOf r) resolved subResourceIndex d;
                    Some d1 }
             else
               do { srcRect \<leftarrow> getRect (ref_fixedData resolved) subResourceIndex;
                    dstRect \<leftarrow> getRect (m_fixedData r) subResourceIndex;
                    let blt = newBlt\<lparr>hSrcResource := ref_handle resolved,
                                     SrcSubResourceIndex := subResourceIndex, SrcRect := srcRect,
                                     hDstResource := m_handle r,
                                     DstSubResourceIndex := subResourceIndex, DstRect := dstRect\<rparr>;
                    (_, d1) \<leftarrow> shaderBlt e r blt (refOf r) resolved d;
                    Some d1 } }
      else
        do { resolved \<leftarrow> resource (m_msaaResolvedSurface r);
             srcRect0 \<leftarrow> getRect (ref_fixedData resolved) subResourceIndex;
             dstRect \<leftarrow> getRect (m_fixedData r) subResourceIndex;
             let d1 = emit (EnableSurfaceCheck False) d;
             ((src1, w, h), d2) \<leftarrow> downscale e resolved (r_right srcRect0) (r_bottom srcRect0)
                                     (r_right dstRect) (r_bottom dstRect) False d1;
             let srcRect1 = srcRect0\<lparr>r_right := w, r_bottom := h\<rparr>;
             let srcIndex1 = (if ref_handle src1 = ref_handle resolved then subResourceIndex else 0);
             ((src2, srcIndex2, srcRect2), d3) \<leftarrow>
               (if dstRect \<noteq> srcRect1 then
                  do { srgb \<leftarrow> formatOpsSrgbWrite e (Format (m_fixedData r));
                       if \<not> srgb then
                         (let (nextRt, d') = getNextRenderTarget e src1 (r_right dstRect) (r_bottom dstRect) d2
                          in case resource nextRt of
                               None \<Rightarrow> Some ((src1, srcIndex1, srcRect1), d')
                             | Some n \<Rightarrow>
                                 Some ((n, 0, dstRect),
                                       emit (TextureBlt (ref_handle n) 0 dstRect (ref_handle src1)
                                               srcIndex1 srcRect1 True False) d'))
                       else Some ((src1, srcIndex1, srcRect1), d2) }
                else Some ((src1, srcIndex1, srcRect1), d2));
             let d4 = emit (EnableSurfaceCheck True) d3;
             if dstRect = srcRect2 then
               (let (_, d5) = copySubResourceRegion e (m_handle r) subResourceIndex dstRect
                                (ref_handle src2) srcIndex2 srcRect2 d4
                in Some d5)
             else Some (emit (TextureBlt (m_handle r) subResourceIndex dstRect
                                   (ref_handle src2) srcIndex2 srcRect2 True False) d4) })"

text \<open>\<^verbatim>\<open>loadVidMemResource\<close> from the system-memory copy of the lock resource.\<close>

definition loadVidMemResource_fromSysMem ::
  "env \<Rightarrow> nat \<Rightarrow> Resource \<times> dev \<Rightarrow> (Resource \<times> dev) option" where
  "loadVidMemResource_fromSysMem e subResourceIndex s =
     (case s of (r, d) \<Rightarrow>
      do { (_, d1) \<leftarrow> copySubResourceH e r (m_handle r) (handleOf (m_lockResource r)) subResourceIndex d;
           let d2 = notifyLock e (refOf r) subResourceIndex d1;
           r1 \<leftarrow> setLockData subResourceIndex (\<lambda>l. l\<lparr>isRefLocked := False\<rparr>) r;
           Some (r1, d2) })"

text \<open>
  \<^verbatim>\<open>loadMsaaResolvedResource\<close>, the resolve from a valid multisampled surface: a depth
  buffer is resolved by the device state when the adapter supports it, and otherwise the
  resolve is skipped with a warning logged once.
\<close>

definition loadMsaaResolvedResource_fromMsaa ::
  "env \<Rightarrow> nat \<Rightarrow> Resource \<Rightarrow> dev \<Rightarrow> dev option" where
  "loadMsaaResolvedResource_fromMsaa e subResourceIndex r d =
     (if ZBuffer (Flags (m_fixedData r)) then
        (if isMsaaDepthResolveSupported e
         then do { d1 \<leftarrow> resolveMsaaDepthBuffer r d; Some d1 }
         else Some (logUnsupportedMsaaDepthBufferResolve d))
      else
        do { resolved \<leftarrow> resource (m_msaaResolvedSurface r);
             msaa \<leftarrow> resource (m_msaaSurface r);
             (_, d1) \<leftarrow> copySubResourceR e resolved msaa subResourceIndex d;
             Some d1 })"

text \<open>\<^verbatim>\<open>loadMsaaResolvedResource\<close> from video memory, after \<^verbatim>\<open>loadVidMemResource\<close>.\<close>

definition loadMsaaResolvedResource_fromVidMem ::
  "env \<Rightarrow> nat \<Rightarrow> Resource \<Rightarrow> dev \<Rightarrow> dev option" where
  "loadMsaaResolvedResource_fromVidMem e subResourceIndex r d =
     (do { scaled \<leftarrow> isScaled r;
           resolved \<leftarrow> resource (m_msaaResolvedSurface r);
           if ZBuffer (Flags (m_fixedData r)) \<or> \<not> scaled then
             do { (_, d1) \<leftarrow> copySubResourceR e resolved (refOf r) subResourceIndex d;
                  Some d1 }
           else
             do { srcRect \<leftarrow> getRect (m_fixedData r) subResourceIndex;
                  dstRect \<leftarrow> getRect (ref_fixedData resolved) subResourceIndex;
                  let blt = newBlt\<lparr>hSrcResource := m_handle r,
                                   SrcSubResourceIndex := subResourceIndex, SrcRect := srcRect,
                                   hDstResource := ref_handle resolved,
                                   DstSubResourceIndex := subResourceIndex, DstRect := dstRect\<rparr>;
                  (_, d1) \<leftarrow> shaderBlt e r blt resolved (refOf r) d;
                  Some d1 } })"

definition markMsaaResolvedUpToDate :: "nat \<Rightarrow> Resource \<times> dev \<Rightarrow> (Resource \<times> dev) option" where
  "markMsaaResolvedUpToDate subResourceIndex s =
     (case s of (r, d) \<Rightarrow>
      do { r1 \<leftarrow> setLockData subResourceIndex (\<lambda>l. l\<lparr>isMsaaResolvedUpToDate := True\<rparr>) r;
           Some (r1, d) })"

function loadFromLockRefResource :: "env \<Rightarrow> nat \<Rightarrow> Resource \<times> dev \<Rightarrow> (Resource \<times> dev) option"
  and loadVidMemResource :: "env \<Rightarrow> nat \<Rightarrow> Resource \<times> dev \<Rightarrow> (Resource \<times> dev) option"
  and loadMsaaResolvedResource :: "env \<Rightarrow> nat \<Rightarrow> Resource \<times> dev \<Rightarrow> (Resource \<times> dev) option"
where
  "loadFromLockRefResource e subResourceIndex (r, d) =
     (case lockDataAt r subResourceIndex of
        None \<Rightarrow> None
      | Some l \<Rightarrow>
          if isRefLocked l then
            (case setLockData subResourceIndex (\<lambda>l. l\<lparr>isRefLocked := False\<rparr>) r of
               None \<Rightarrow> None
             | Some r1 \<Rightarrow>
                 (case loadVidMemResource e subResourceIndex (r1, d) of
                    None \<Rightarrow> None
                  | Some s \<Rightarrow> loadFromLockRefResource_blt e subResourceIndex s))
          else Some (r, d))"
| "loadVidMemResource e subResourceIndex (r, d) =
     (case lockDataAt r subResourceIndex of
        None \<Rightarrow> None
      | Some l \<Rightarrow>
          if isVidMemUpToDate l then Some (r, d)
          else
            (case setLockData subResourceIndex (\<lambda>l. l\<lparr>isVidMemUpToDate := True\<rparr>) r of
               None \<Rightarrow> None
             | Some r1 \<Rightarrow>
                 if isMsaaUpToDate l \<or> isMsaaResolvedUpToDate l then
                   (case loadMsaaResolvedResource e subResourceIndex (r1, d) of
                      None \<Rightarrow> None
                    | Some (r2, d2) \<Rightarrow>
                        (case loadVidMemResource_fromResolved e subResourceIndex r2 d2 of
                           None \<Rightarrow> None
                         | Some d3 \<Rightarrow> Some (r2, d3)))
                 else loadVidMemResource_fromSysMem e subResourceIndex (r1, d)))"
| "loadMsaaResolvedResource e subResourceIndex (r, d) =
     (case loadFromLockRefResource e subResourceIndex (r, d) of
        None \<Rightarrow> None
      | Some (r1, d1) \<Rightarrow>
          (case lockDataAt r1 subResourceIndex of
             None \<Rightarrow> None
           | Some l \<Rightarrow>
               if isMsaaResolvedUpToDate l then Some (r1, d1)
               else if isMsaaUpToDate l then
                 (case loadMsaaResolvedResource_fromMsaa e subResourceIndex r1 d1 of
                    None \<Rightarrow> None
                  | Some d2 \<Rightarrow> markMsaaResolvedUpToDate subResourceIndex (r1, d2))
               else
                 (case loadVidMemResource e subResourceIndex (r1, d1) of
                    None \<Rightarrow> None
                  | Some (r2, d2) \<Rightarrow>
                      (case loadMsaaResolvedResource_fromVidMem e subResourceIndex r2 d2 of
                         None \<Rightarrow> None
                       | Some d3 \<Rightarrow> markMsaaResolvedUpToDate subResourceIndex (r2, d3)))))"
  by pat_completeness auto


text \<open>
  What the loaders do to a resource: only the lock data of the subresource changes, its
  validity flags are only ever set and its reference lock only ever cleared.
\<close>

definition flagsGrow :: "LockData \<Rightarrow> LockData \<Rightarrow> bool" where
  "flagsGrow l l' =
     (data l' = data l \<and> pitch l' = pitch l \<and>
      (isSysMemUpToDate l \<longrightarrow> isSysMemUpToDate l') \<and>
      (isVidMemUpToDate l \<longrightarrow> isVidMemUpToDate l') \<and>
      (isMsaaUpToDate l \<longrightarrow> isMsaaUpToDate l') \<and>
      (isMsaaResolvedUpToDate l \<longrightarrow> isMsaaResolvedUpToDate l') \<and>
      (isRefLocked l' \<longrightarrow> isRefLocked l))"

definition loaded :: "nat \<Rightarrow> Resource \<Rightarrow> Resource \<Rightarrow> bool" where
  "loaded i r r' =
     (i < length (m_lockData r) \<and>
      (\<exists>l'. r' = r\<lparr>m_lockData := (m_lockData r)[i := l']\<rparr> \<and> flagsGrow (m_lockData r ! i) l'))"

lemma lockDataAt_Some:
  "lockDataAt r i = Some l \<longleftrightarrow> i < length (m_lockData r) \<and> l = m_lockData r ! i"
  by (auto simp: lockDataAt_def)

lemma setLockData_Some:
  "setLockData i f r = Some r' \<longleftrightarrow>
     i < length (m_lockData r) \<and> r' = r\<lparr>m_lockData := (m_lockData r)[i := f (m_lockData r ! i)]\<rparr>"
  by (auto simp: setLockData_def)

lemma flagsGrow_refl: "flagsGrow l l"
  by (simp add: flagsGrow_def)

lemma flagsGrow_trans: "flagsGrow a b \<Longrightarrow> flagsGrow b c \<Longrightarrow> flagsGrow a c"
  by (simp add: flagsGrow_def)

lemma loaded_refl: "i < length (m_lockData r) \<Longrightarrow> loaded i r r"
proof -
  assume "i < length (m_lockData r)"
  moreover have "r = r\<lparr>m_lockData := (m_lockData r)[i := m_lockData r ! i]\<rparr>" by simp
  ultimately show ?thesis unfolding loaded_def using flagsGrow_refl by blast
qed

lemma loaded_trans:
  assumes "loaded i a b" "loaded i b c"
  shows "loaded i a c"
proof -
  from assms(1) obtain l1 where
    a: "i < length (m_lockData a)" "b = a\<lparr>m_lockData := (m_lockData a)[i := l1]\<rparr>"
       "flagsGrow (m_lockData a ! i) l1"
    unfolding loaded_def by blast
  from assms(2) obtain l2 where
    b: "c = b\<lparr>m_lockData := (m_lockData b)[i := l2]\<rparr>" "flagsGrow (m_lockData b ! i) l2"
    unfolding loaded_def by blast
  have "c = a\<lparr>m_lockData := (m_lockData a)[i := l2]\<rparr>" using a b by simp
  moreover have "flagsGrow (m_lockData a ! i) l2"
    using a b flagsGrow_trans[of "m_lockData a ! i" l1 l2] by simp
  ultimately show ?thesis unfolding loaded_def using a(1) by blast
qed

lemma loaded_setLockData:
  assumes "setLockData i f r = Some r'" "flagsGrow (m_lockData r ! i) (f (m_lockData r ! i))"
  shows "loaded i r r'"
  using assms unfolding loaded_def setLockData_Some by blast

lemma loaded_length: "loaded i r r' \<Longrightarrow> i < length (m_lockData r')"
  by (auto simp: loaded_def)

lemma loadFromLockRefResource_blt_loaded:
  assumes "loadFromLockRefResource_blt e i (r, d) = Some (r', d')" "i < length (m_lockData r)"
  shows "loaded i r r'"
proof -
  have s: "\<And>r1. setLockData i (\<lambda>l. l\<lparr>isMsaaResolvedUpToDate := True\<rparr>) r = Some r1 \<Longrightarrow> loaded i r r1"
    by (erule loaded_setLockData) (simp add: flagsGrow_def)
  show ?thesis
    using assms s loaded_refl[OF assms(2)]
    by (auto simp: loadFromLockRefResource_blt_def Let_def bind_eq_Some_conv
             split: if_splits prod.splits option.splits)
qed

lemma loadVidMemResource_fromSysMem_loaded:
  assumes "loadVidMemResource_fromSysMem e i (r, d) = Some (r', d')"
  shows "loaded i r r'"
proof -
  have s: "\<And>r1. setLockData i (\<lambda>l. l\<lparr>isRefLocked := False\<rparr>) r = Some r1 \<Longrightarrow> loaded i r r1"
    by (erule loaded_setLockData) (simp add: flagsGrow_def)
  show ?thesis
    using assms s
    by (auto simp: loadVidMemResource_fromSysMem_def Let_def bind_eq_Some_conv
             split: if_splits prod.splits option.splits)
qed

lemma markMsaaResolvedUpToDate_loaded:
  assumes "markMsaaResolvedUpToDate i (r, d) = Some (r', d')"
  shows "loaded i r r'"
proof -
  have s: "\<And>r1. setLockData i (\<lambda>l. l\<lparr>isMsaaResolvedUpToDate := True\<rparr>) r = Some r1 \<Longrightarrow> loaded i r r1"
    by (erule loaded_setLockData) (simp add: flagsGrow_def)
  show ?thesis
    using assms s by (auto simp: markMsaaResolvedUpToDate_def bind_eq_Some_conv)
qed

lemma loaded_setFlag:
  "setLockData i (\<lambda>l. l\<lparr>isRefLocked := False\<rparr>) r = Some r' \<Longrightarrow> loaded i r r'"
  "setLockData i (\<lambda>l. l\<lparr>isVidMemUpToDate := True\<rparr>) r = Some r' \<Longrightarrow> loaded i r r'"
  "setLockData i (\<lambda>l. l\<lparr>isMsaaResolvedUpToDate := True\<rparr>) r = Some r' \<Longrightarrow> loaded i r r'"
  "setLockData i (\<lambda>l. l\<lparr>isMsaaUpToDate := True\<rparr>) r = Some r' \<Longrightarrow> loaded i r r'"
  "setLockData i (\<lambda>l. l\<lparr>isSysMemUpToDate := True\<rparr>) r = Some r' \<Longrightarrow> loaded i r r'"
  by (erule loaded_setLockData, simp add: flagsGrow_def)+

lemma loaders_loaded_partial:
  "loadFromLockRefResource_loadVidMemResource_loadMsaaResolvedResource_dom (Inl (e, i, s)) \<Longrightarrow>
     loadFromLockRefResource e i s = Some s' \<Longrightarrow> loaded i (fst s) (fst s')"
  "loadFromLockRefResource_loadVidMemResource_loadMsaaResolvedResource_dom (Inr (Inl (e, i, s))) \<Longrightarrow>
     loadVidMemResource e i s = Some s' \<Longrightarrow> loaded i (fst s) (fst s')"
  "loadFromLockRefResource_loadVidMemResource_loadMsaaResolvedResource_dom (Inr (Inr (e, i, s))) \<Longrightarrow>
     loadMsaaResolvedResource e i s = Some s' \<Longrightarrow> loaded i (fst s) (fst s')"
proof (induct e i s and e i s and e i s arbitrary: s' and s' and s'
       rule: loadFromLockRefResource_loadVidMemResource_loadMsaaResolvedResource.pinduct)
  case (1 e i r d)
  from "1.prems" obtain l where l: "lockDataAt r i = Some l"
    by (auto simp: loadFromLockRefResource.psimps[OF "1.hyps"(1)] split: option.splits)
  then have len: "i < length (m_lockData r)" by (simp add: lockDataAt_Some)
  show ?case
  proof (cases "isRefLocked l")
    case False
    then show ?thesis using "1.prems" l len
      by (auto simp: loadFromLockRefResource.psimps[OF "1.hyps"(1)] loaded_refl)
  next
    case True
    from "1.prems" l True obtain r1 s1 where
      r1: "setLockData i (\<lambda>l. l\<lparr>isRefLocked := False\<rparr>) r = Some r1" and
      s1: "loadVidMemResource e i (r1, d) = Some s1" and
      s': "loadFromLockRefResource_blt e i s1 = Some s'"
      by (auto simp: loadFromLockRefResource.psimps[OF "1.hyps"(1)] split: option.splits)
    have a: "loaded i r r1" using r1 by (rule loaded_setFlag)
    have b: "loaded i r1 (fst s1)" using "1.hyps"(2)[OF l True r1 s1] by simp
    have c: "loaded i (fst s1) (fst s')"
      using s' loaded_length[OF b]
      by (cases s1; cases s') (auto intro: loadFromLockRefResource_blt_loaded)
    show ?thesis using a b c by (auto intro: loaded_trans)
  qed
next
  case (2 e i r d)
  from "2.prems" obtain l where l: "lockDataAt r i = Some l"
    by (auto simp: loadVidMemResource.psimps[OF "2.hyps"(1)] split: option.splits)
  then have len: "i < length (m_lockData r)" by (simp add: lockDataAt_Some)
  show ?case
  proof (cases "isVidMemUpToDate l")
    case True
    then show ?thesis using "2.prems" l len
      by (auto simp: loadVidMemResource.psimps[OF "2.hyps"(1)] loaded_refl)
  next
    case False
    from "2.prems" l False obtain r1 where
      r1: "setLockData i (\<lambda>l. l\<lparr>isVidMemUpToDate := True\<rparr>) r = Some r1"
      by (auto simp: loadVidMemResource.psimps[OF "2.hyps"(1)] split: option.splits)
    have a: "loaded i r r1" using r1 by (rule loaded_setFlag)
    show ?thesis
    proof (cases "isMsaaUpToDate l \<or> isMsaaResolvedUpToDate l")
      case True
      from "2.prems" l False r1 True obtain r2 d2 d3 where
        s2: "loadMsaaResolvedResource e i (r1, d) = Some (r2, d2)" and
        s': "s' = (r2, d3)"
        by (auto simp: loadVidMemResource.psimps[OF "2.hyps"(1)] split: option.splits)
      have "loaded i r1 r2" using "2.hyps"(2)[OF l False r1 True s2] by simp
      then show ?thesis using a s' by (auto intro: loaded_trans)
    next
      case F2: False
      from "2.prems" l False r1 F2 have
        "loadVidMemResource_fromSysMem e i (r1, d) = Some s'"
        by (auto simp: loadVidMemResource.psimps[OF "2.hyps"(1)] split: option.splits)
      then have "loaded i r1 (fst s')"
        by (cases s') (auto intro: loadVidMemResource_fromSysMem_loaded)
      then show ?thesis using a by (auto intro: loaded_trans)
    qed
  qed
next
  case (3 e i r d)
  from "3.prems" obtain r1 d1 l where
    s1: "loadFromLockRefResource e i (r, d) = Some (r1, d1)" and
    l: "lockDataAt r1 i = Some l"
    by (auto simp: loadMsaaResolvedResource.psimps[OF "3.hyps"(1)] split: option.splits)
  have a: "loaded i r r1" using "3.hyps"(2)[OF s1] by simp
  show ?case
  proof (cases "isMsaaResolvedUpToDate l")
    case True
    then show ?thesis using "3.prems" s1 l a
      by (auto simp: loadMsaaResolvedResource.psimps[OF "3.hyps"(1)])
  next
    case False
    show ?thesis
    proof (cases "isMsaaUpToDate l")
      case True
      from "3.prems" s1 l False True obtain d2 where
        "markMsaaResolvedUpToDate i (r1, d2) = Some s'"
        by (auto simp: loadMsaaResolvedResource.psimps[OF "3.hyps"(1)] split: option.splits)
      then have "loaded i r1 (fst s')"
        by (cases s') (auto intro: markMsaaResolvedUpToDate_loaded)
      then show ?thesis using a by (auto intro: loaded_trans)
    next
      case F2: False
      from "3.prems" s1 l False F2 obtain r2 d2 d3 where
        s2: "loadVidMemResource e i (r1, d1) = Some (r2, d2)" and
        m: "markMsaaResolvedUpToDate i (r2, d3) = Some s'"
        by (auto simp: loadMsaaResolvedResource.psimps[OF "3.hyps"(1)] split: option.splits)
      have b: "loaded i r1 r2" using "3.hyps"(3)[OF s1 refl l False F2 s2] by simp
      have c: "loaded i r2 (fst s')" using m
        by (cases s') (auto intro: markMsaaResolvedUpToDate_loaded)
      show ?thesis using a b c by (auto intro: loaded_trans)
    qed
  qed
qed

definition loadMeasure :: "nat \<Rightarrow> Resource \<Rightarrow> nat" where
  "loadMeasure i r =
     (if i < length (m_lockData r) \<and> \<not> isVidMemUpToDate (m_lockData r ! i) then 2 else 0) +
     (if i < length (m_lockData r) \<and> isRefLocked (m_lockData r ! i) then 1 else 0)"

lemma loaded_loadMeasure: "loaded i r r' \<Longrightarrow> loadMeasure i r' \<le> loadMeasure i r"
  by (auto simp: loaded_def loadMeasure_def flagsGrow_def)

lemma loaders_total:
  "All loadFromLockRefResource_loadVidMemResource_loadMsaaResolvedResource_dom"
proof (rule "loadFromLockRefResource_loadVidMemResource_loadMsaaResolvedResource.termination"
         [where R = "measure (\<lambda>x. case x of
            Inl (e, i, r, d) \<Rightarrow> 2 * loadMeasure i r
          | Inr (Inl (e, i, r, d)) \<Rightarrow> 2 * loadMeasure i r
          | Inr (Inr (e, i, r, d)) \<Rightarrow> 2 * loadMeasure i r + 1)"], goal_cases)
  case 1
  show ?case by simp
next
  case (2 e i r d l r1)
  then show ?case
    by (auto simp: lockDataAt_Some setLockData_Some loadMeasure_def)
next
  case (3 e i r d l r1)
  then show ?case
    by (auto simp: lockDataAt_Some setLockData_Some loadMeasure_def)
next
  case (4 e i r d)
  show ?case by simp
next
  case (5 e i r d s1 r1 d1 l)
  then have "loaded i r r1" using loaders_loaded_partial(1)[of e i "(r, d)" "(r1, d1)"] by auto
  from loaded_loadMeasure[OF this] show ?case by simp
qed

termination loadFromLockRefResource
  by (rule loaders_total)

declare loadFromLockRefResource.simps [simp del]
declare loadVidMemResource.simps [simp del]
declare loadMsaaResolvedResource.simps [simp del]


lemma loadVidMemResource_loaded:
  "loadVidMemResource e i (r, d) = Some (r', d') \<Longrightarrow> loaded i r r'"
  using loaders_loaded_partial(2)[OF loaders_total[THEN spec], of e i "(r, d)" "(r', d')"] by simp

lemma loadMsaaResolvedResource_loaded:
  "loadMsaaResolvedResource e i (r, d) = Some (r', d') \<Longrightarrow> loaded i r r'"
  using loaders_loaded_partial(3)[OF loaders_total[THEN spec], of e i "(r, d)" "(r', d')"] by simp

text \<open>\<^verbatim>\<open>loadMsaaResource\<close>, \<^verbatim>\<open>loadSysMemResource\<close> and \<^verbatim>\<open>clearUpToDateFlags\<close>.\<close>

definition loadMsaaResource :: "env \<Rightarrow> nat \<Rightarrow> Resource \<times> dev \<Rightarrow> (Resource \<times> dev) option" where
  "loadMsaaResource e subResourceIndex s =
     (case s of (r, d) \<Rightarrow>
      do { l \<leftarrow> lockDataAt r subResourceIndex;
           if \<not> isMsaaUpToDate l then
             do { (r2, d2) \<leftarrow>
                    (case resource (m_msaaResolvedSurface r) of
                       Some _ \<Rightarrow>
                         do { (r1, d1) \<leftarrow> loadMsaaResolvedResource e subResourceIndex (r, d);
                              if ZBuffer (Flags (m_fixedData r1)) then
                                (case resource (m_nullSurface r1) of
                                   Some nullRes \<Rightarrow>
                                     do { resolved \<leftarrow> resource (m_msaaResolvedSurface r1);
                                          rc \<leftarrow> getRect (ref_fixedData resolved) 0;
                                          msaa \<leftarrow> resource (m_msaaSurface r1);
                                          Some (r1, emit (DepthBlt (ref_handle msaa) rc
                                                  (ref_handle resolved) rc (ref_handle nullRes)) d1) }
                                 | None \<Rightarrow> Some (r1, d1))
                              else
                                do { msaa \<leftarrow> resource (m_msaaSurface r1);
                                     resolved \<leftarrow> resource (m_msaaResolvedSurface r1);
                                     (_, d') \<leftarrow> copySubResourceR e msaa resolved subResourceIndex d1;
                                     Some (r1, d') } }
                     | None \<Rightarrow>
                         do { (r1, d1) \<leftarrow> loadVidMemResource e subResourceIndex (r, d);
                              msaa \<leftarrow> resource (m_msaaSurface r1);
                              (_, d') \<leftarrow> copySubResourceR e msaa (refOf r1) subResourceIndex d1;
                              Some (r1, d') });
                  r3 \<leftarrow> setLockData subResourceIndex (\<lambda>l. l\<lparr>isMsaaUpToDate := True\<rparr>) r2;
                  Some (r3, d2) }
           else Some (r, d) })"

definition loadSysMemResource :: "env \<Rightarrow> nat \<Rightarrow> Resource \<times> dev \<Rightarrow> (Resource \<times> dev) option" where
  "loadSysMemResource e subResourceIndex s =
     (case s of (r, d) \<Rightarrow>
      do { l \<leftarrow> lockDataAt r subResourceIndex;
           if \<not> isSysMemUpToDate l then
             do { (r1, d1) \<leftarrow> loadVidMemResource e subResourceIndex (r, d);
                  (_, d2) \<leftarrow> copySubResourceH e r1 (handleOf (m_lockResource r1)) (m_handle r1)
                               subResourceIndex d1;
                  let d3 = notifyLock e (refOf r1) subResourceIndex d2;
                  r2 \<leftarrow> setLockData subResourceIndex (\<lambda>l. l\<lparr>isSysMemUpToDate := True\<rparr>) r1;
                  Some (r2, d3) }
           else Some (r, d) })"

definition clearUpToDateFlags :: "nat \<Rightarrow> Resource \<Rightarrow> Resource option" where
  "clearUpToDateFlags subResourceIndex r =
     setLockData subResourceIndex
       (\<lambda>l. l\<lparr>isMsaaUpToDate := False, isMsaaResolvedUpToDate := False,
                isVidMemUpToDate := False, isSysMemUpToDate := False\<rparr>) r"

text \<open>
  \<^verbatim>\<open>scaleRect\<close> maps a rectangle of the resource to its scaled size, dividing by the
  width and height of the first surface.
\<close>

definition scaleRect :: "Resource \<Rightarrow> rect \<Rightarrow> rect option" where
  "scaleRect r rc =
     do { si \<leftarrow> pSurfList (m_fixedData r) 0;
          let origWidth = int (Width si);
          let origHeight = int (Height si);
          if origWidth = 0 \<or> origHeight = 0 then None
          else Some \<lparr>r_left = (r_left rc * cx (m_scaledSize r)) sdiv origWidth,
                     r_top = (r_top rc * cy (m_scaledSize r)) sdiv origHeight,
                     r_right = (r_right rc * cx (m_scaledSize r)) sdiv origWidth,
                     r_bottom = (r_bottom rc * cy (m_scaledSize r)) sdiv origHeight\<rparr> }"

section \<open>Preparing a resource for reading and writing\<close>

definition prepareForBltSrc :: "env \<Rightarrow> D3DDDIARG_BLT \<Rightarrow> Resource \<times> dev \<Rightarrow> (Resource \<times> dev) option" where
  "prepareForBltSrc e dat s =
     (case s of (r, d) \<Rightarrow>
      if m_lockResource r \<noteq> None \<or> resource (m_msaaResolvedSurface r) \<noteq> None
      then loadVidMemResource e (SrcSubResourceIndex dat) (r, d)
      else Some (r, d))"

text \<open>
  \<^verbatim>\<open>prepareForBltDst(HANDLE& resource, UINT subResourceIndex, RECT& rect)\<close>: the result holds
  the resource written to, with the handle and the rectangle passed by reference. The
  choice of the surface that the write is redirected to, by the lock data \<open>l\<close> read after
  \<^verbatim>\<open>loadFromLockRefResource\<close>, is \<open>prepareForBltDst_redirect\<close>.
\<close>

definition prepareForBltDst_redirect ::
  "env \<Rightarrow> nat \<Rightarrow> nat \<Rightarrow> rect \<Rightarrow> LockData \<Rightarrow> Resource \<times> dev
     \<Rightarrow> ((ResourceRef \<times> nat \<times> rect) \<times> Resource \<times> dev) option" where
  "prepareForBltDst_redirect e hres subResourceIndex rc l s =
     (case s of (r1, d1) \<Rightarrow>
      if isMsaaUpToDate l then
        do { msaa \<leftarrow> resource (m_msaaSurface r1);
             r2 \<leftarrow> clearUpToDateFlags subResourceIndex r1;
             r3 \<leftarrow> setLockData subResourceIndex (\<lambda>l. l\<lparr>isMsaaUpToDate := True\<rparr>) r2;
             rc' \<leftarrow> scaleRect r3 rc;
             Some ((msaa, ref_handle msaa, rc'), r3, d1) }
      else if isMsaaResolvedUpToDate l then
        do { resolved \<leftarrow> resource (m_msaaResolvedSurface r1);
             r2 \<leftarrow> clearUpToDateFlags subResourceIndex r1;
             r3 \<leftarrow> setLockData subResourceIndex (\<lambda>l. l\<lparr>isMsaaResolvedUpToDate := True\<rparr>) r2;
             rc' \<leftarrow> scaleRect r3 rc;
             Some ((resolved, ref_handle resolved, rc'), r3, d1) }
      else
        do { (r2, d2) \<leftarrow> loadVidMemResource e subResourceIndex (r1, d1);
             r3 \<leftarrow> clearUpToDateFlags subResourceIndex r2;
             r4 \<leftarrow> setLockData subResourceIndex (\<lambda>l. l\<lparr>isVidMemUpToDate := True\<rparr>) r3;
             Some ((refOf r4, hres, rc), r4, d2) })"

definition prepareForBltDst ::
  "env \<Rightarrow> nat \<Rightarrow> nat \<Rightarrow> rect \<Rightarrow> Resource \<times> dev
     \<Rightarrow> ((ResourceRef \<times> nat \<times> rect) \<times> Resource \<times> dev) option" where
  "prepareForBltDst e hres subResourceIndex rc s =
     (case s of (r0, d0) \<Rightarrow>
      (let r = r0\<lparr>m_isPalettizedTextureUpToDate := False\<rparr> in
       if m_lockResource r \<noteq> None \<or> resource (m_msaaResolvedSurface r) \<noteq> None then
         do { (r1, d1) \<leftarrow> loadFromLockRefResource e subResourceIndex (r, d0);
              l \<leftarrow> lockDataAt r1 subResourceIndex;
              prepareForBltDst_redirect e hres subResourceIndex rc l (r1, d1) }
       else Some ((refOf r, hres, rc), r, d0)))"

definition prepareForCpuRead :: "env \<Rightarrow> nat \<Rightarrow> Resource \<times> dev \<Rightarrow> (Resource \<times> dev) option" where
  "prepareForCpuRead e subResourceIndex s =
     (case s of (r, d) \<Rightarrow>
      if m_lockResource r \<noteq> None then loadSysMemResource e subResourceIndex (r, d)
      else Some (r, d))"

definition prepareForCpuWrite :: "env \<Rightarrow> nat \<Rightarrow> Resource \<times> dev \<Rightarrow> (Resource \<times> dev) option" where
  "prepareForCpuWrite e subResourceIndex s =
     (case s of (r, d) \<Rightarrow>
      if m_lockResource r \<noteq> None then
        do { (r2, d2) \<leftarrow>
               (case resource (m_lockRefSurface r) of
                  Some lockRef \<Rightarrow>
                    do { l \<leftarrow> lockDataAt r subResourceIndex;
                         if isMsaaResolvedUpToDate l \<or> isMsaaUpToDate l then
                           do { (r1, d1) \<leftarrow> loadVidMemResource e subResourceIndex (r, d);
                                (_, d') \<leftarrow> copySubResourceH e r1 (ref_handle lockRef) (m_handle r1)
                                            subResourceIndex d1;
                                r' \<leftarrow> setLockData subResourceIndex (\<lambda>l. l\<lparr>isRefLocked := True\<rparr>) r1;
                                Some (r', d') }
                         else Some (r, d) }
                | None \<Rightarrow> Some (r, d));
             (r3, d3) \<leftarrow> loadSysMemResource e subResourceIndex (r2, d2);
             r4 \<leftarrow> clearUpToDateFlags subResourceIndex r3;
             r5 \<leftarrow> setLockData subResourceIndex (\<lambda>l. l\<lparr>isSysMemUpToDate := True\<rparr>) r4;
             Some (r5, d3) }
      else Some (r, d))"

text \<open>\<^verbatim>\<open>prepareForGpuRead\<close> returns the resource to read from.\<close>

definition prepareForGpuRead ::
  "env \<Rightarrow> nat \<Rightarrow> Resource \<times> dev \<Rightarrow> (ResourceRef \<times> Resource \<times> dev) option" where
  "prepareForGpuRead e subResourceIndex s =
     (case s of (r, d) \<Rightarrow>
      if m_lockResource r \<noteq> None then
        do { (r1, d1) \<leftarrow> loadFromLockRefResource e subResourceIndex (r, d);
             case resource (m_msaaResolvedSurface r1) of
               Some _ \<Rightarrow>
                 do { (r2, d2) \<leftarrow> loadMsaaResolvedResource e subResourceIndex (r1, d1);
                      resolved \<leftarrow> resource (m_msaaResolvedSurface r2);
                      Some (resolved, r2, d2) }
             | None \<Rightarrow>
                 do { (r2, d2) \<leftarrow> loadVidMemResource e subResourceIndex (r1, d1);
                      Some (refOf r2, r2, d2) } }
      else Some (refOf r, r, d))"

definition prepareForGpuWrite :: "env \<Rightarrow> nat \<Rightarrow> Resource \<times> dev \<Rightarrow> (Resource \<times> dev) option" where
  "prepareForGpuWrite e subResourceIndex s =
     (case s of (r, d) \<Rightarrow>
      if m_lockResource r \<noteq> None \<or> resource (m_msaaResolvedSurface r) \<noteq> None then
        (if resource (m_msaaSurface r) \<noteq> None then
           do { (r1, d1) \<leftarrow> loadMsaaResource e subResourceIndex (r, d);
                r2 \<leftarrow> clearUpToDateFlags subResourceIndex r1;
                r3 \<leftarrow> setLockData subResourceIndex (\<lambda>l. l\<lparr>isMsaaUpToDate := True\<rparr>) r2;
                Some (r3, d1) }
         else if resource (m_msaaResolvedSurface r) \<noteq> None then
           do { (r1, d1) \<leftarrow> loadMsaaResolvedResource e subResourceIndex (r, d);
                r2 \<leftarrow> clearUpToDateFlags subResourceIndex r1;
                r3 \<leftarrow> setLockData subResourceIndex (\<lambda>l. l\<lparr>isMsaaResolvedUpToDate := True\<rparr>) r2;
                Some (r3, d1) }
         else
           do { (r1, d1) \<leftarrow> loadVidMemResource e subResourceIndex (r, d);
                r2 \<leftarrow> clearUpToDateFlags subResourceIndex r1;
                r3 \<leftarrow> setLockData subResourceIndex (\<lambda>l. l\<lparr>isVidMemUpToDate := True\<rparr>) r2;
                Some (r3, d1) })
      else Some (r, d))"

section \<open>Lock, unlock and colour fill\<close>

text \<open>
  \<^verbatim>\<open>Resource::bltLock\<close> and \<^verbatim>\<open>Resource::lock\<close>. The lock argument is passed by reference
  and returned; what the driver's own \<^verbatim>\<open>pfnLock\<close> writes into it is not modelled.
\<close>

definition bltLock ::
  "env \<Rightarrow> D3DDDIARG_LOCK \<Rightarrow> Resource \<times> dev \<Rightarrow> (hresult \<times> D3DDDIARG_LOCK \<times> Resource \<times> dev) option" where
  "bltLock e dat s =
     (case s of (r, d) \<Rightarrow>
      do { (r1, d1) \<leftarrow>
             (if m_lockResource r \<noteq> None then
                (if l_ReadOnly dat then prepareForCpuRead e (l_SubResourceIndex dat) (r, d)
                 else prepareForCpuWrite e (l_SubResourceIndex dat) (r, d))
              else Some (r, d));
           lockData \<leftarrow> lockDataAt r1 (l_SubResourceIndex dat);
           let ptr = int (data lockData) +
                 (if l_AreaValid dat
                  then r_top (l_Area dat) * int (pitch lockData) +
                       r_left (l_Area dat) * int (bytesPerPixel (m_formatInfo r1))
                  else 0);
           Some (S_OK, dat\<lparr>pSurfData := ptr, Pitch := pitch lockData\<rparr>, r1, d1) })"

definition lock ::
  "env \<Rightarrow> D3DDDIARG_LOCK \<Rightarrow> Resource \<times> dev \<Rightarrow> (hresult \<times> D3DDDIARG_LOCK \<times> Resource \<times> dev) option" where
  "lock e dat s =
     (case s of (r, d) \<Rightarrow>
      if MultisampleType (m_fixedData r) \<noteq> D3DDDIMULTISAMPLE_NONE then Some (E_FAIL, dat, r, d)
      else if hSrcResource (setBltSrc e newBlt) \<noteq> 0 then Some (E_ABORT, dat, r, d)
      else if m_lockResource r \<noteq> None \<or> m_isOversized r then bltLock e dat (r, d)
      else
        do { let r1 = (if \<not> l_ReadOnly dat then r\<lparr>m_isPalettizedTextureUpToDate := False\<rparr> else r);
             (r2, d2) \<leftarrow>
               (if ZBuffer (Flags (m_fixedData r1)) \<and> resource (m_msaaResolvedSurface r1) \<noteq> None then
                  do { (r', d') \<leftarrow> loadVidMemResource e 0 (r1, d);
                       if \<not> l_ReadOnly dat then
                         do { r'' \<leftarrow> setLockData 0 (\<lambda>l. l\<lparr>isMsaaUpToDate := False\<rparr>) r';
                              r''' \<leftarrow> setLockData 0 (\<lambda>l. l\<lparr>isMsaaResolvedUpToDate := False\<rparr>) r'';
                              Some (r''', d') }
                       else Some (r', d') }
                else Some (r1, d));
             let (result, d3) = callDriver e (PfnLock dat) d2;
             Some (result, dat, r2, d3) })"

definition unlock :: "env \<Rightarrow> D3DDDIARG_UNLOCK \<Rightarrow> Resource \<times> dev \<Rightarrow> hresult \<times> dev" where
  "unlock e dat s =
     (case s of (r, d) \<Rightarrow>
      if m_lockResource r \<noteq> None \<or> m_isOversized r then (S_OK, d)
      else callDriver e (PfnUnlock dat) d)"


definition isValidRect :: "Resource \<Rightarrow> nat \<Rightarrow> rect \<Rightarrow> bool option" where
  "isValidRect r subResourceIndex rc =
     (if r_left rc \<ge> 0 \<and> r_top rc \<ge> 0 \<and> r_left rc < r_right rc \<and> r_top rc < r_bottom rc then
        do { si \<leftarrow> pSurfList (m_fixedData r) subResourceIndex;
             Some (r_right rc \<le> int (Width si) \<and> r_bottom rc \<le> int (Height si)) }
      else Some False)"


section \<open>Blits between two resources of a device\<close>

text \<open>
  A blit reads and writes two \<^verbatim>\<open>Resource\<close> objects of the device, which may be one and
  the same object. The device's resources are therefore kept in a store, keyed by handle
  (\<^verbatim>\<open>Device::getResource\<close>), and a member function runs on the object the store holds at
  that moment and writes it back.
\<close>

record world =
  resources :: "nat \<Rightarrow> Resource option"
  wdev :: dev

definition onResource ::
  "nat \<Rightarrow> (Resource \<times> dev \<Rightarrow> (Resource \<times> dev) option) \<Rightarrow> world \<Rightarrow> world option" where
  "onResource h m w =
     do { r \<leftarrow> resources w h;
          (r', d') \<leftarrow> m (r, wdev w);
          Some (w\<lparr>resources := (resources w)(h \<mapsto> r'), wdev := d'\<rparr>) }"

definition onResourceR ::
  "nat \<Rightarrow> (Resource \<times> dev \<Rightarrow> ('a \<times> Resource \<times> dev) option) \<Rightarrow> world \<Rightarrow> ('a \<times> world) option" where
  "onResourceR h m w =
     do { r \<leftarrow> resources w h;
          (x, r', d') \<leftarrow> m (r, wdev w);
          Some (x, w\<lparr>resources := (resources w)(h \<mapsto> r'), wdev := d'\<rparr>) }"

text \<open>\<^verbatim>\<open>Resource::bltViaCpu\<close>, with \<open>this\<close> and \<open>src\<close> the handles of the two resources.\<close>

definition bltViaCpu :: "env \<Rightarrow> nat \<Rightarrow> D3DDDIARG_BLT \<Rightarrow> nat \<Rightarrow> world \<Rightarrow> (hresult \<times> world) option" where
  "bltViaCpu e this dat src w =
     do { dstR \<leftarrow> resources w this;
          srcR \<leftarrow> resources w src;
          if Format (m_fixedData dstR) \<noteq> Format (m_fixedData srcR) \<or>
             bytesPerPixel (m_formatInfo dstR) = 0 \<or>
             (D3DDDIFMT_P8 \<noteq> Format (m_fixedData dstR) \<and> \<not> m_isOversized dstR \<and> \<not> m_isOversized srcR)
          then Some (S_FALSE, w)
          else
            do { let srcLock0 = newLock\<lparr>l_hResource := hSrcResource dat,
                                         l_SubResourceIndex := SrcSubResourceIndex dat\<rparr>;
                 let srcLock = (if Pool (m_fixedData srcR) = D3DDDIPOOL_SYSTEMMEM
                                then srcLock0\<lparr>l_NotifyOnly := True\<rparr>
                                else srcLock0\<lparr>l_Area := SrcRect dat, l_AreaValid := True,
                                              l_ReadOnly := True\<rparr>);
                 ((result, srcLock1), w1) \<leftarrow>
                   onResourceR src (\<lambda>s. map_option (\<lambda>(hr, l, r, d). ((hr, l), r, d)) (lock e srcLock s)) w;
                 if FAILED result then Some (result, w1)
                 else
                   do { let dstLock0 = newLock\<lparr>l_hResource := hDstResource dat,
                                                l_SubResourceIndex := DstSubResourceIndex dat\<rparr>;
                        let dstLock = (if Pool (m_fixedData dstR) = D3DDDIPOOL_SYSTEMMEM
                                       then dstLock0\<lparr>l_NotifyOnly := True\<rparr>
                                       else dstLock0\<lparr>l_Area := DstRect dat, l_AreaValid := True\<rparr>);
                        ((result2, dstLock1), w2) \<leftarrow>
                          onResourceR this (\<lambda>s. map_option (\<lambda>(hr, l, r, d). ((hr, l), r, d)) (lock e dstLock s)) w1;
                        w3 \<leftarrow>
                          (if SUCCEEDED result2 then
                             do { srcR2 \<leftarrow> resources w2 src;
                                  dstR2 \<leftarrow> resources w2 this;
                                  let bpp = bytesPerPixel (m_formatInfo dstR2);
                                  srcLock2 \<leftarrow>
                                    (if Pool (m_fixedData srcR2) = D3DDDIPOOL_SYSTEMMEM then
                                       do { lockData \<leftarrow> lockDataAt srcR2 (SrcSubResourceIndex dat);
                                            Some (srcLock1\<lparr>
                                              pSurfData := int (data lockData) +
                                                r_top (SrcRect dat) * int (pitch lockData) +
                                                r_left (SrcRect dat) * int bpp,
                                              Pitch := pitch lockData\<rparr>) }
                                     else Some srcLock1);
                                  dstLock2 \<leftarrow>
                                    (if Pool (m_fixedData dstR2) = D3DDDIPOOL_SYSTEMMEM then
                                       do { lockData \<leftarrow> lockDataAt dstR2 (DstSubResourceIndex dat);
                                            Some (dstLock1\<lparr>
                                              pSurfData := int (data lockData) +
                                                r_top (DstRect dat) * int (pitch lockData) +
                                                r_left (DstRect dat) * int bpp,
                                              Pitch := pitch lockData\<rparr>) }
                                     else Some dstLock1);
                                  let d3 = emit (BlitterBlt
                                             (pSurfData dstLock2) (Pitch dstLock2)
                                             (r_right (DstRect dat) - r_left (DstRect dat))
                                             (r_bottom (DstRect dat) - r_top (DstRect dat))
                                             (pSurfData srcLock2) (Pitch srcLock2)
                                             ((1 - 2 * (if MirrorLeftRight (BltFlags dat) then 1 else 0)) *
                                                (r_right (SrcRect dat) - r_left (SrcRect dat)))
                                             ((1 - 2 * (if MirrorUpDown (BltFlags dat) then 1 else 0)) *
                                                (r_bottom (SrcRect dat) - r_top (SrcRect dat)))
                                             bpp (DstColorKey (BltFlags dat)) (SrcColorKey (BltFlags dat)))
                                           (wdev w2);
                                  let (_, d4) = unlock e \<lparr>u_hResource = l_hResource dstLock2,
                                                   u_SubResourceIndex = l_SubResourceIndex dstLock2,
                                                   u_NotifyOnly = l_NotifyOnly dstLock2\<rparr> (dstR2, d3);
                                  Some (w2\<lparr>wdev := d4\<rparr>) }
                           else Some w2);
                        srcR3 \<leftarrow> resources w3 src;
                        let (_, d5) = unlock e \<lparr>u_hResource = l_hResource srcLock1,
                                         u_SubResourceIndex = l_SubResourceIndex srcLock1,
                                         u_NotifyOnly = l_NotifyOnly srcLock1\<rparr> (srcR3, wdev w3);
                        Some (result2, w3\<lparr>wdev := d5\<rparr>) } } }"

text \<open>\<^verbatim>\<open>Resource::bltViaGpu\<close>.\<close>

definition bltViaGpu :: "env \<Rightarrow> nat \<Rightarrow> D3DDDIARG_BLT \<Rightarrow> nat \<Rightarrow> world \<Rightarrow> (hresult \<times> world) option" where
  "bltViaGpu e this dat0 src w0 =
     do { srcR0 \<leftarrow> resources w0 src;
          w1 \<leftarrow> (if m_lockResource srcR0 \<noteq> None
                 then onResource src (loadFromLockRefResource e (SrcSubResourceIndex dat0)) w0
                 else Some w0);
          dstR1 \<leftarrow> resources w1 this;
          srcR1 \<leftarrow> resources w1 src;
          viaResolved \<leftarrow>
            (if resource (m_msaaResolvedSurface dstR1) \<noteq> None \<and>
                resource (m_msaaResolvedSurface srcR1) \<noteq> None
             then do { l \<leftarrow> lockDataAt srcR1 (SrcSubResourceIndex dat0);
                       Some (isMsaaResolvedUpToDate l \<or> isMsaaUpToDate l) }
             else Some False);
          (srcRes, dat1, w2) \<leftarrow>
            (if viaResolved then
               do { wa \<leftarrow> onResource src (loadMsaaResolvedResource e (SrcSubResourceIndex dat0)) w1;
                    srcRa \<leftarrow> resources wa src;
                    resolved \<leftarrow> resource (m_msaaResolvedSurface srcRa);
                    rc \<leftarrow> scaleRect srcRa (SrcRect dat0);
                    dstRa \<leftarrow> resources wa this;
                    l \<leftarrow> lockDataAt dstRa (DstSubResourceIndex dat0);
                    wb \<leftarrow> (if \<not> isMsaaUpToDate l
                           then onResource this (loadMsaaResolvedResource e (DstSubResourceIndex dat0)) wa
                           else Some wa);
                    Some (resolved, dat0\<lparr>hSrcResource := ref_handle resolved, SrcRect := rc\<rparr>, wb) }
             else
               do { wa \<leftarrow> onResource src (prepareForBltSrc e dat0) w1;
                    srcRa \<leftarrow> resources wa src;
                    Some (refOf srcRa, dat0, wa) });
          ((dstRes, hDst, rcDst), w3) \<leftarrow>
            onResourceR this (prepareForBltDst e (hDstResource dat1) (DstSubResourceIndex dat1) (DstRect dat1)) w2;
          dstR \<leftarrow> resources w3 this;
          srcR \<leftarrow> resources w3 src;
          let f = Flags (m_fixedData dstR);
          let dat2 = dat1\<lparr>hDstResource := hDst, DstRect := rcDst\<rparr>;
          let dat3 =
            (if \<not> ZBuffer f then
               (if Pool (m_fixedData dstR) \<noteq> D3DDDIPOOL_SYSTEMMEM \<and>
                   Pool (m_fixedData srcR) \<noteq> D3DDDIPOOL_SYSTEMMEM \<and> bltFilterBilinear e
                then dat2\<lparr>BltFlags := (BltFlags dat2)\<lparr>Linear := True\<rparr>\<rparr>
                else dat2\<lparr>BltFlags := (BltFlags dat2)\<lparr>Point := True\<rparr>\<rparr>)
             else dat2);
          let viaShader =
            (Pool (m_fixedData dstR) \<noteq> D3DDDIPOOL_SYSTEMMEM \<and>
             (ZBuffer f \<and> map_option ref_handle (resource (m_msaaSurface dstR)) = Some (ref_handle dstRes) \<and>
                resource (m_nullSurface dstR) \<noteq> None \<or>
              RenderTarget f \<or>
              \<not> ZBuffer f \<and>
                (SrcColorKey (BltFlags dat3) \<or> MirrorLeftRight (BltFlags dat3) \<or>
                 MirrorUpDown (BltFlags dat3) \<or>
                 r_right (DstRect dat3) - r_left (DstRect dat3) \<noteq> r_right (SrcRect dat3) - r_left (SrcRect dat3) \<or>
                 r_bottom (DstRect dat3) - r_top (DstRect dat3) \<noteq> r_bottom (SrcRect dat3) - r_top (SrcRect dat3))));
          (shaded, d4) \<leftarrow>
            (if viaShader then
               do { (hr, d') \<leftarrow> shaderBlt e dstR dat3 dstRes srcRes (wdev w3);
                    Some (SUCCEEDED hr, d') }
             else Some (False, wdev w3));
          if shaded then Some (S_OK, w3\<lparr>wdev := d4\<rparr>)
          else
            do { let (dat4, d5) =
                   (if ref_handle dstRes \<noteq> m_handle dstR \<and>
                       Pool (ref_fixedData srcRes) = D3DDDIPOOL_SYSTEMMEM
                    then
                      (let rc = \<lparr>r_left = 0, r_top = 0,
                                 r_right = r_right (SrcRect dat3) - r_left (SrcRect dat3),
                                 r_bottom = r_bottom (SrcRect dat3) - r_top (SrcRect dat3)\<rparr>;
                           (_, d') = copySubResourceRegion e (m_handle dstR) (DstSubResourceIndex dat3) rc
                                       (ref_handle srcRes) (SrcSubResourceIndex dat3) (SrcRect dat3) d4
                       in (dat3\<lparr>hSrcResource := m_handle dstR,
                                 SrcSubResourceIndex := DstSubResourceIndex dat3, SrcRect := rc\<rparr>, d'))
                    else (dat3, d4));
                 let (result, d6) = callDriver e (PfnBlt dat4) d5;
                 let d7 = (if Pool (m_fixedData dstR) = D3DDDIPOOL_SYSTEMMEM
                           then notifyLock e (refOf dstR) (DstSubResourceIndex dat4) d6
                           else if Pool (m_fixedData srcR) = D3DDDIPOOL_SYSTEMMEM
                           then notifyLock e (refOf srcR) (SrcSubResourceIndex dat4) d6
                           else d6);
                 Some (result, w3\<lparr>wdev := d7\<rparr>) } }"

section \<open>Presentation\<close>

text \<open>Win32 \<^verbatim>\<open>IntersectRect\<close>: the intersection, or the empty rectangle.\<close>

definition IntersectRect :: "rect \<Rightarrow> rect \<Rightarrow> rect" where
  "IntersectRect a b =
     (let rc = \<lparr>r_left = max (r_left a) (r_left b), r_top = max (r_top a) (r_top b),
                r_right = min (r_right a) (r_right b), r_bottom = min (r_bottom a) (r_bottom b)\<rparr>
      in if IsRectEmpty a \<or> IsRectEmpty b \<or> IsRectEmpty rc then emptyRect else rc)"

definition clearRectInterior :: "env \<Rightarrow> Resource \<Rightarrow> nat \<Rightarrow> rect \<Rightarrow> dev \<Rightarrow> dev" where
  "clearRectInterior e r subResourceIndex rc d =
     snd (callDriver e (PfnColorFill \<lparr>cf_hResource = m_handle r, cf_SubResourceIndex = subResourceIndex,
                                      cf_DstRect = rc, Color = 0\<rparr>) d)"

definition clearRectExterior :: "env \<Rightarrow> Resource \<Rightarrow> nat \<Rightarrow> rect \<Rightarrow> dev \<Rightarrow> dev option" where
  "clearRectExterior e r subResourceIndex rc d =
     do { si \<leftarrow> pSurfList (m_fixedData r) subResourceIndex;
          let w = int (Width si);
          let h = int (Height si);
          let d1 = (if r_left rc > 0
                    then clearRectInterior e r subResourceIndex
                           \<lparr>r_left = 0, r_top = 0, r_right = r_left rc, r_bottom = h\<rparr> d else d);
          let d2 = (if r_right rc < w
                    then clearRectInterior e r subResourceIndex
                           \<lparr>r_left = r_right rc, r_top = 0, r_right = w, r_bottom = h\<rparr> d1 else d1);
          let d3 = (if r_top rc > 0
                    then clearRectInterior e r subResourceIndex
                           \<lparr>r_left = r_left rc, r_top = 0, r_right = r_right rc, r_bottom = r_top rc\<rparr> d2
                    else d2);
          let d4 = (if r_bottom rc < h
                    then clearRectInterior e r subResourceIndex
                           \<lparr>r_left = r_left rc, r_top = r_bottom rc, r_right = r_right rc, r_bottom = h\<rparr> d3
                    else d3);
          Some d4 }"

text \<open>
  \<^verbatim>\<open>Resource::presentLayeredWindows\<close>: one pass over the visible layered windows. Capturing
  a window through GDI is one recorded call.
\<close>

fun presentLayeredWindows ::
  "env \<Rightarrow> layered_window list \<Rightarrow> nat \<Rightarrow> nat \<Rightarrow> rect \<Rightarrow> dev \<Rightarrow> dev" where
  "presentLayeredWindows e [] dst dstSubResourceIndex dstRect d = d"
| "presentLayeredWindows e (layeredWindow # rest) dst dstSubResourceIndex dstRect d =
     (let monitorRect = primaryMonitorRect e;
          visibleRect = IntersectRect (lw_rect layeredWindow) monitorRect
      in if IsRectEmpty visibleRect then presentLayeredWindows e rest dst dstSubResourceIndex dstRect d
         else
           (let srcRect = \<lparr>r_left = 0, r_top = 0, r_right = r_right visibleRect - r_left visibleRect,
                           r_bottom = r_bottom visibleRect - r_top visibleRect\<rparr>;
                (windowSurface, d1) = askRepo e (GetTempSysMemSurface (r_right srcRect) (r_bottom srcRect)) d;
                (texture, d2) = askRepo e (GetTempTexture (r_right srcRect) (r_bottom srcRect)
                                             D3DDDIFMT_A8R8G8B8) d1
            in case (resource windowSurface, resource texture) of
                 (Some ws, Some tx) \<Rightarrow>
                   (let d3 = emit (CaptureLayeredWindow (lw_hwnd layeredWindow)) d2;
                        (_, d4) = copySubResourceRegion e (ref_handle tx) 0 srcRect (ref_handle ws) 0 srcRect d3;
                        d5 = notifyLock e tx 0 d4;
                        d6 = emit (TextureBlt dst dstSubResourceIndex
                                     (rectTransform e visibleRect monitorRect dstRect)
                                     (ref_handle tx) 0 srcRect False (lw_colorKey layeredWindow)) d5
                    in presentLayeredWindows e rest dst dstSubResourceIndex dstRect d6)
               | _ \<Rightarrow> presentLayeredWindows e rest dst dstSubResourceIndex dstRect d2))"

text \<open>
  \<^verbatim>\<open>Resource::presentationBlt\<close>. The source resource is prepared for reading by the GPU;
  everything after that only issues calls.
\<close>

definition presentationBlt_source ::
  "env \<Rightarrow> nat \<Rightarrow> Resource \<times> dev \<Rightarrow> (ResourceRef \<times> Resource \<times> dev) option" where
  "presentationBlt_source e subResourceIndex s =
     (case s of (r, d) \<Rightarrow>
      if m_lockResource r \<noteq> None then
        do { l \<leftarrow> lockDataAt r subResourceIndex;
             r1 \<leftarrow> (if isSysMemUpToDate l \<and> \<not> RenderTarget (Flags (m_fixedData r)) then
                      do { r' \<leftarrow> setLockData subResourceIndex (\<lambda>l. l\<lparr>isVidMemUpToDate := False\<rparr>) r;
                           setLockData subResourceIndex (\<lambda>l. l\<lparr>isMsaaResolvedUpToDate := False\<rparr>) r' }
                    else Some r);
             prepareForGpuRead e subResourceIndex (r1, d) }
      else Some (refOf r, r, d))"

definition presentationBlt_draw ::
  "env \<Rightarrow> Resource \<Rightarrow> D3DDDIARG_BLT \<Rightarrow> ResourceRef \<Rightarrow> dev \<Rightarrow> (hresult \<times> dev) option" where
  "presentationBlt_draw e r dat0 srcResource0 d0 =
     do { si \<leftarrow> pSurfList (ref_fixedData srcResource0) (SrcSubResourceIndex dat0);
          let srcWidth = int (Width si);
          let srcHeight = int (Height si);
          let srcRect = \<lparr>r_left = 0, r_top = 0, r_right = srcWidth, r_bottom = srcHeight\<rparr>;
          let dstRect = (if \<not> IsRectEmpty (g_presentationRect d0) then g_presentationRect d0 else DstRect dat0);
          let dat = dat0\<lparr>SrcRect := srcRect, DstRect := dstRect\<rparr>;
          let (rtSurface, d1) = askRepo e (GetTempRenderTarget srcWidth srcHeight 0) d0;
          let rt = (case resource rtSurface of Some x \<Rightarrow> x | None \<Rightarrow> refOf r);
          let rtIndex = (case resource rtSurface of Some _ \<Rightarrow> 0 | None \<Rightarrow> DstSubResourceIndex dat);
          let rtRect = (case resource rtSurface of Some _ \<Rightarrow> SrcRect dat | None \<Rightarrow> DstRect dat);
          staged \<leftarrow> Some
            (if Pool (ref_fixedData srcResource0) = D3DDDIPOOL_SYSTEMMEM then
               (let (texture, d') = askRepo e (GetTempTexture srcWidth srcHeight
                                                 (Format (ref_fixedData srcResource0))) d1
                in case resource texture of
                     None \<Rightarrow> (None, d')
                   | Some t \<Rightarrow>
                       (Some t, snd (copySubResourceRegion e (ref_handle t) 0 (SrcRect dat)
                                       (hSrcResource dat) (SrcSubResourceIndex dat) (SrcRect dat) d')))
             else (Some srcResource0, d1));
          case staged of
            (None, d2) \<Rightarrow> Some (E_OUTOFMEMORY, d2)
          | (Some srcResource, d2) \<Rightarrow>
              do { let d3 = (if Format (ref_origData srcResource) = D3DDDIFMT_P8
                             then emit (PalettizedBlt (ref_handle rt) rtIndex rtRect (ref_handle srcResource)
                                          (SrcSubResourceIndex dat) (SrcRect dat)) d2
                             else snd (copySubResourceRegion e (ref_handle rt) rtIndex rtRect
                                         (ref_handle srcResource) (SrcSubResourceIndex dat) (SrcRect dat) d2));
                   let d4 = (if \<not> IsRectEmpty (g_presentationRect d3)
                             then presentLayeredWindows e (visibleLayeredWindows e) (ref_handle rt) rtIndex rtRect d3
                             else d3);
                   let d5 = (case cursorEmulated e of
                               Some hCursor \<Rightarrow> emit (CursorBlt (ref_handle rt) rtIndex rtRect) d4
                             | None \<Rightarrow> d4);
                   case resource rtSurface of
                     None \<Rightarrow> Some (S_OK, d5)
                   | Some _ \<Rightarrow>
                       do { let dstWidth = r_right (DstRect dat) - r_left (DstRect dat);
                            let dstHeight = r_bottom (DstRect dat) - r_top (DstRect dat);
                            ((rt1, w, h), d6) \<leftarrow> downscale e rt (r_right (SrcRect dat)) (r_bottom (SrcRect dat))
                                                    dstWidth dstHeight False d5;
                            let srcRect1 = (SrcRect dat)\<lparr>r_right := w, r_bottom := h\<rparr>;
                            let (rtGamma, d7) =
                              (if \<not> gammaRampDefault e then
                                 (let (g, d') = askRepo e GetGammaRampTexture d6
                                  in if resource g \<noteq> None
                                     then (let (n, d'') = getNextRenderTarget e rt1 dstWidth dstHeight d'
                                           in (resource n, d''))
                                     else (None, d'))
                               else (None, d6));
                            let rtNext = (case rtGamma of Some g \<Rightarrow> ref_handle g | None \<Rightarrow> m_handle r);
                            let rtNextIndex = (case rtGamma of Some _ \<Rightarrow> 0 | None \<Rightarrow> DstSubResourceIndex dat);
                            let rtNextRect = (case rtGamma of
                                                Some _ \<Rightarrow> \<lparr>r_left = 0, r_top = 0, r_right = dstWidth,
                                                            r_bottom = dstHeight\<rparr>
                                              | None \<Rightarrow> DstRect dat);
                            let d8 = (if displayFilterBilinear e
                                      then emit (GenBilinearBlt rtNext rtNextIndex rtNextRect (ref_handle rt1) srcRect1) d7
                                      else snd (callDriver e
                                             (PfnBlt (newBlt\<lparr>hSrcResource := ref_handle rt1,
                                                SrcSubResourceIndex := 0, SrcRect := srcRect1,
                                                hDstResource := rtNext, DstSubResourceIndex := rtNextIndex,
                                                DstRect := rtNextRect,
                                                BltFlags := noBltFlags\<lparr>Point := True\<rparr>\<rparr>)) d7));
                            let d9 = (case rtGamma of
                                        Some _ \<Rightarrow> emit (GammaBlt (m_handle r) (DstSubResourceIndex dat) (DstRect dat)
                                                          rtNext rtNextRect) d8
                                      | None \<Rightarrow> d8);
                            d10 \<leftarrow> clearRectExterior e r (DstSubResourceIndex dat) (DstRect dat) d9;
                            Some (S_OK, d10) } } }"

definition presentationBlt :: "env \<Rightarrow> nat \<Rightarrow> D3DDDIARG_BLT \<Rightarrow> nat \<Rightarrow> world \<Rightarrow> (hresult \<times> world) option" where
  "presentationBlt e this dat src w =
     do { (srcResource, w1) \<leftarrow> onResourceR src (presentationBlt_source e (SrcSubResourceIndex dat)) w;
          r \<leftarrow> resources w1 this;
          (result, d) \<leftarrow> presentationBlt_draw e r dat srcResource (wdev w1);
          Some (result, w1\<lparr>wdev := d\<rparr>) }"

text \<open>\<^verbatim>\<open>Resource::blt\<close>, the blit router.\<close>

definition blt :: "env \<Rightarrow> nat \<Rightarrow> D3DDDIARG_BLT \<Rightarrow> world \<Rightarrow> (hresult \<times> world) option" where
  "blt e this dat0 w =
     do { r \<leftarrow> resources w this;
          if ZBuffer (Flags (m_fixedData r)) \<and> resource (m_msaaSurface r) \<noteq> None \<and>
             \<not> isMsaaDepthResolveSupported e
          then Some (S_OK, w\<lparr>wdev := logUnsupportedMsaaDepthBufferResolve (wdev w)\<rparr>)
          else
            do { valid \<leftarrow> isValidRect r (DstSubResourceIndex dat0) (DstRect dat0);
                 if \<not> valid then Some (S_OK, w)
                 else
                   (let dat = setBltSrc e dat0 in
                    case resources w (hSrcResource dat) of
                      Some srcResource \<Rightarrow>
                        do { srcValid \<leftarrow> isValidRect srcResource (SrcSubResourceIndex dat) (SrcRect dat);
                             if \<not> srcValid then Some (S_OK, w)
                             else if Pool (m_fixedData r) = D3DDDIPOOL_SYSTEMMEM \<and>
                                     Pool (m_fixedData srcResource) = D3DDDIPOOL_SYSTEMMEM
                             then (let (result, d) = callDriver e (PfnBlt dat) (wdev w)
                                   in Some (result, w\<lparr>wdev := d\<rparr>))
                             else if MatchGdiPrimary (Flags (m_fixedData r))
                             then presentationBlt e this dat (hSrcResource dat) w
                             else
                               do { (result, w1) \<leftarrow> bltViaCpu e this dat (hSrcResource dat) w;
                                    if result \<noteq> S_FALSE then Some (result, w1)
                                    else bltViaGpu e this dat (hSrcResource dat) w1 } }
                    | None \<Rightarrow>
                        do { ((_, h, rc), w1) \<leftarrow>
                               onResourceR this (prepareForBltDst e (hDstResource dat)
                                                   (DstSubResourceIndex dat) (DstRect dat)) w;
                             let (result, d) = callDriver e (PfnBlt (dat\<lparr>hDstResource := h, DstRect := rc\<rparr>)) (wdev w1);
                             Some (result, w1\<lparr>wdev := d\<rparr>) }) } }"

section \<open>Configuration and construction\<close>

definition getMultisampleConfig :: "env \<Rightarrow> Resource \<Rightarrow> D3DDDIMULTISAMPLE_TYPE \<times> nat" where
  "getMultisampleConfig e r =
     (if \<not> Texture (Flags (m_fixedData r)) \<and>
         (\<not> m_isPrimary r \<or> RenderTarget (Flags (m_fixedData r)))
      then adapterMultisampleConfig e (Format (m_fixedData r))
      else (D3DDDIMULTISAMPLE_NONE, 0))"

definition getFormatConfig :: "env \<Rightarrow> Resource \<Rightarrow> D3DDDIFORMAT" where
  "getFormatConfig e r =
     (if Format (m_fixedData r) = D3DDDIFMT_X8R8G8B8 \<or> Format (m_fixedData r) = D3DDDIFMT_R5G6B5 then
        (if renderColorDepth e = 16 then D3DDDIFMT_R5G6B5
         else if renderColorDepth e = 32 then D3DDDIFMT_X8R8G8B8
         else Format (m_fixedData r))
      else Format (m_fixedData r))"

definition getScaledSize :: "env \<Rightarrow> Resource \<Rightarrow> size2 option" where
  "getScaledSize e r =
     do { si \<leftarrow> pSurfList (m_fixedData r) 0;
          let sz = \<lparr>cx = int (Width si), cy = int (Height si)\<rparr>;
          Some (if \<not> Texture (Flags (m_fixedData r)) then adapterScaledSize e sz else sz) }"

text \<open>
  The loop of \<^verbatim>\<open>updateConfig\<close> over the lock data, run before the multisampled and the
  resolved surface are given up: a subresource valid only there is first loaded into
  video memory.
\<close>

fun updateConfig_flush :: "env \<Rightarrow> nat list \<Rightarrow> Resource \<times> dev \<Rightarrow> (Resource \<times> dev) option" where
  "updateConfig_flush e [] s = Some s"
| "updateConfig_flush e (i # rest) s =
     (case s of (r, d) \<Rightarrow>
      do { l \<leftarrow> lockDataAt r i;
           (r1, d1) \<leftarrow> (if isMsaaUpToDate l \<or> isMsaaResolvedUpToDate l
                         then loadVidMemResource e i (r, d) else Some (r, d));
           r2 \<leftarrow> setLockData i (\<lambda>l. l\<lparr>isMsaaUpToDate := False, isMsaaResolvedUpToDate := False,
                                        isRefLocked := False\<rparr>) r1;
           updateConfig_flush e rest (r2, d1) })"

text \<open>The surfaces \<^verbatim>\<open>updateConfig\<close> asks of the repository for the new configuration.\<close>

definition updateConfig_surfaces ::
  "env \<Rightarrow> D3DDDIMULTISAMPLE_TYPE \<times> nat \<Rightarrow> D3DDDIFORMAT \<Rightarrow> size2 \<Rightarrow> bool
     \<Rightarrow> Resource \<times> dev \<Rightarrow> (Resource \<times> dev) option" where
  "updateConfig_surfaces e msaa formatConfig scaledSize scaled s =
     (case s of (r, d) \<Rightarrow>
      do { let zbuffer = ZBuffer (Flags (m_fixedData r));
           let n = SurfCount (m_fixedData r);
           let caps = (if zbuffer then DDSCAPS_ZBUFFER else DDSCAPS_3DDEVICE) + DDSCAPS_VIDEOMEMORY;
           let (r1, d1) =
             (if fst msaa \<noteq> D3DDDIMULTISAMPLE_NONE then
                (let da = d\<lparr>g_msaaOverride := msaa\<rparr>;
                     (sf, db) = askRepo e (GetSurface (m_msaaSurface r) (cx scaledSize) (cy scaledSize)
                                             formatConfig caps n (g_formatOverride da) (g_msaaOverride da)) da
                 in (r\<lparr>m_msaaSurface := sf\<rparr>, db\<lparr>g_msaaOverride := (D3DDDIMULTISAMPLE_NONE, 0)\<rparr>))
              else (r, d));
           let (r2, d2) =
             (if zbuffer \<and> resource (m_msaaSurface r1) \<noteq> None \<and> isMsaaDepthResolveSupported e then
                (let da = d1\<lparr>g_formatOverride := FOURCC_NULL, g_msaaOverride := msaa\<rparr>;
                     (sf, db) = askRepo e (GetSurface (m_nullSurface r1) (cx scaledSize) (cy scaledSize)
                                             D3DDDIFMT_X8R8G8B8 (DDSCAPS_3DDEVICE + DDSCAPS_VIDEOMEMORY) n
                                             (g_formatOverride da) (g_msaaOverride da)) da
                 in (r1\<lparr>m_nullSurface := sf\<rparr>,
                     db\<lparr>g_msaaOverride := (D3DDDIMULTISAMPLE_NONE, 0),
                        g_formatOverride := (if resource sf \<noteq> None then FOURCC_INTZ else D3DDDIFMT_UNKNOWN)\<rparr>))
              else (r1, d1));
           let resolvedCaps = caps + (if zbuffer \<or> \<not> scaled then 0 else DDSCAPS_TEXTURE);
           let resolvedFormat = (if zbuffer \<or> \<not> scaled then formatConfig else D3DDDIFMT_A8R8G8B8);
           let (sf3, d3a) = askRepo e (GetSurface (m_msaaResolvedSurface r2) (cx scaledSize) (cy scaledSize)
                                         resolvedFormat resolvedCaps n
                                         (g_formatOverride d2) (g_msaaOverride d2)) d2;
           let r3 = r2\<lparr>m_msaaResolvedSurface := sf3\<rparr>;
           let d3 = d3a\<lparr>g_formatOverride := D3DDDIFMT_UNKNOWN\<rparr>;
           let (r4, d4) =
             (if resource (m_msaaResolvedSurface r3) = None \<and> resource (m_msaaSurface r3) \<noteq> None then
                (let ra = r3\<lparr>m_msaaSurface := noSurface\<rparr>;
                     (sf, da) = askRepo e (GetSurface (m_msaaResolvedSurface ra) (cx scaledSize) (cy scaledSize)
                                             resolvedFormat resolvedCaps n
                                             (g_formatOverride d3) (g_msaaOverride d3)) d3
                 in (ra\<lparr>m_msaaResolvedSurface := sf\<rparr>, da))
              else (r3, d3));
           if \<not> zbuffer \<and> resource (m_msaaResolvedSurface r4) \<noteq> None then
             do { si \<leftarrow> pSurfList (m_fixedData r4) 0;
                  let (sf, d5) = askRepo e (GetSurface (m_lockRefSurface r4) (int (Width si)) (int (Height si))
                                             (Format (m_fixedData r4)) (DDSCAPS_TEXTURE + DDSCAPS_VIDEOMEMORY) n
                                             (g_formatOverride d4) (g_msaaOverride d4)) d4;
                  let r5 = r4\<lparr>m_lockRefSurface := sf\<rparr>;
                  if scaled then
                    do { rt \<leftarrow> resource (m_msaaResolvedSurface r5);
                         srcRect0 \<leftarrow> getRect (ref_fixedData rt) 0;
                         dstRect \<leftarrow> getRect (m_fixedData r5) 0;
                         ((rt1, w, h), d6) \<leftarrow> downscale e rt (r_right srcRect0) (r_bottom srcRect0)
                                                 (r_right dstRect) (r_bottom dstRect) True d5;
                         let srcRect = srcRect0\<lparr>r_right := w, r_bottom := h\<rparr>;
                         if dstRect \<noteq> srcRect then
                           do { srgb \<leftarrow> formatOpsSrgbWrite e (Format (m_fixedData r5));
                                if \<not> srgb
                                then Some (r5, snd (getNextRenderTarget e rt1 (r_right dstRect) (r_bottom dstRect) d6))
                                else Some (r5, d6) }
                         else Some (r5, d6) }
                  else Some (r5, d5) }
           else Some (r4, d4) })"

text \<open>\<^verbatim>\<open>Resource::updateConfig\<close>.\<close>

definition updateConfig :: "env \<Rightarrow> Resource \<times> dev \<Rightarrow> (Resource \<times> dev) option" where
  "updateConfig e s =
     (case s of (r, d) \<Rightarrow>
      if m_isSurfaceRepoResource r \<or> Pool (m_fixedData r) = D3DDDIPOOL_SYSTEMMEM \<or>
         Format (m_fixedData r) = D3DDDIFMT_P8 \<or> MatchGdiPrimary (Flags (m_fixedData r)) \<or>
         (\<not> m_isPrimary r \<and> \<not> RenderTarget (Flags (m_fixedData r)) \<and> \<not> ZBuffer (Flags (m_fixedData r))) \<or>
         (\<not> ZBuffer (Flags (m_fixedData r)) \<and> m_lockResource r = None)
      then Some (r, d)
      else
        do { let msaa = getMultisampleConfig e r;
             let formatConfig = getFormatConfig e r;
             scaledSize \<leftarrow> getScaledSize e r;
             if m_multiSampleConfig r = msaa \<and> m_formatConfig r = formatConfig \<and> m_scaledSize r = scaledSize
             then Some (r, d)
             else
               do { let r1 = r\<lparr>m_multiSampleConfig := msaa, m_formatConfig := formatConfig,
                               m_scaledSize := scaledSize\<rparr>;
                    (r2, d2) \<leftarrow>
                      (if resource (m_msaaSurface r1) \<noteq> None \<or> resource (m_msaaResolvedSurface r1) \<noteq> None
                       then updateConfig_flush e [0..<length (m_lockData r1)] (r1, d)
                       else Some (r1, d));
                    let r3 = r2\<lparr>m_msaaSurface := noSurface, m_msaaResolvedSurface := noSurface,
                                m_nullSurface := noSurface, m_lockRefSurface := noSurface\<rparr>;
                    scaled \<leftarrow> isScaled r3;
                    if fst msaa \<noteq> D3DDDIMULTISAMPLE_NONE \<or> Format (m_fixedData r3) \<noteq> formatConfig \<or> scaled
                    then updateConfig_surfaces e msaa formatConfig scaledSize scaled (r3, d2)
                    else Some (r3, d2) } })"

text \<open>\<^verbatim>\<open>Resource::setFullscreenMode\<close>; only the shared state changes.\<close>

definition setFullscreenMode :: "env \<Rightarrow> Resource \<Rightarrow> bool \<Rightarrow> dev \<Rightarrow> dev option" where
  "setFullscreenMode e r isFullscreen d =
     (if (\<not> IsRectEmpty (g_presentationRect d)) = isFullscreen then Some d
      else
        (let d1 = emit UpdatePalette d in
         if isFullscreen then
           do { rc \<leftarrow> calculateScaledRect (primaryMonitorRect e) (realMonitorRect e);
                let d2 = d1\<lparr>g_presentationRect := rc\<rparr>;
                si \<leftarrow> pSurfList (m_origData r) 0;
                let primaryRect = \<lparr>r_left = 0, r_top = 0, r_right = int (Width si), r_bottom = int (Height si)\<rparr>;
                let d3 = emit (CursorSetMonitorClipRect (primaryMonitorRect e)) d2;
                let d4 = (if \<not> EqualRect (g_presentationRect d3) primaryRect
                          then emit (CursorSetEmulated True) d3 else d3);
                Some (emit (VirtualScreenSetFullscreenMode (MatchGdiPrimary (Flags (m_origData r)))) d4) }
         else
           Some (emit (CursorSetMonitorClipRect emptyRect)
                  (emit (CursorSetEmulated False)
                    (emit (VirtualScreenSetFullscreenMode False)
                      (d1\<lparr>g_presentationRect := emptyRect\<rparr>))))))"

text \<open>\<^verbatim>\<open>Resource::fixResourceData\<close>.\<close>

definition fixResourceData :: "env \<Rightarrow> dev \<Rightarrow> Resource \<Rightarrow> Resource" where
  "fixResourceData e d r =
     (let fd = m_fixedData r;
          fd1 = (if MatchGdiPrimary (Flags fd) then
                   (let rc = realMonitorRect e;
                        fd' = (if \<not> IsRectEmpty rc
                               then fd\<lparr>surfaceData :=
                                          map (\<lambda>surface. surface\<lparr>Width := nat (r_right rc - r_left rc),
                                                                  Height := nat (r_bottom rc - r_top rc)\<rparr>)
                                              (surfaceData fd)\<rparr>
                               else fd)
                    in fd'\<lparr>Format := D3DDDIFMT_X8R8G8B8\<rparr>)
                 else fd);
          fd2 = (if g_formatOverride d \<noteq> D3DDDIFMT_UNKNOWN then
                   (let fd' = fd1\<lparr>Format := g_formatOverride d\<rparr>
                    in if ZBuffer (Flags fd') then fd'\<lparr>Flags := (Flags fd')\<lparr>Texture := True\<rparr>\<rparr> else fd')
                 else fd1);
          fd3 = (if fst (g_msaaOverride d) \<noteq> D3DDDIMULTISAMPLE_NONE
                 then fd2\<lparr>MultisampleType := fst (g_msaaOverride d),
                           MultisampleQuality := snd (g_msaaOverride d)\<rparr>
                 else fd2);
          r1 = r\<lparr>m_fixedData := fd3\<rparr>
      in case surfaceData fd3 of
           [surfaceInfo] \<Rightarrow>
             if Pool fd3 = D3DDDIPOOL_SYSTEMMEM \<and> Depth surfaceInfo = 0 \<and>
                bytesPerPixel (getFormatInfo e (Format fd3)) \<noteq> 0
             then
               (let (si1, o1) = (if Width surfaceInfo > dwMaxTextureWidth e
                                 then (surfaceInfo\<lparr>Width := dwMaxTextureWidth e\<rparr>, True)
                                 else (surfaceInfo, m_isOversized r1));
                    (si2, o2) = (if Height si1 > dwMaxTextureHeight e
                                 then (si1\<lparr>Height := dwMaxTextureHeight e\<rparr>, True)
                                 else (si1, o1))
                in r1\<lparr>m_fixedData := fd3\<lparr>surfaceData := [si2]\<rparr>, m_isOversized := o2\<rparr>)
             else r1
         | _ \<Rightarrow> r1)"

text \<open>
  \<^verbatim>\<open>Resource::createSysMemResource\<close> and \<^verbatim>\<open>Resource::createLockResource\<close>. The staging buffer
  is one allocation; each surface's address is the aligned end of the previous one.
\<close>

definition createSysMemResource ::
  "env \<Rightarrow> D3DDDI_SURFACEINFO list \<Rightarrow> Resource \<times> dev \<Rightarrow> Resource \<times> dev" where
  "createSysMemResource e surfaceInfo s =
     (case s of (r, d) \<Rightarrow>
      (let dat = \<lparr>Format = Format (m_fixedData r), Pool = D3DDDIPOOL_SYSTEMMEM,
                   MultisampleType = D3DDDIMULTISAMPLE_NONE, MultisampleQuality = 0,
                   surfaceData = surfaceInfo, Flags = noFlags, hResource = 0\<rparr>;
           (result, d1) = callDriver e (PfnCreateResource dat) d
       in if SUCCEEDED result then
            (r\<lparr>m_lockResource := Some (newHandle e (calls d) dat),
               m_lockData :=
                 map (\<lambda>(l, si). l\<lparr>data := pSysMem si, pitch := SysMemPitch si,
                                   isSysMemUpToDate := True, isVidMemUpToDate := True,
                                   isMsaaUpToDate := (resource (m_msaaSurface r) \<noteq> None),
                                   isMsaaResolvedUpToDate := (resource (m_msaaResolvedSurface r) \<noteq> None),
                                   isRefLocked := False\<rparr>)
                     (zip (resize (length surfaceInfo) (m_lockData r)) surfaceInfo)\<rparr>, d1)
          else (r, d1)))"

fun lockSurfaceInfo :: "nat \<Rightarrow> nat \<Rightarrow> nat \<Rightarrow> D3DDDI_SURFACEINFO list \<Rightarrow> D3DDDI_SURFACEINFO list" where
  "lockSurfaceInfo alignment bpp offset [] = []"
| "lockSurfaceInfo alignment bpp offset (si # rest) =
     (let p = (Width si * bpp + 3) div 4 * 4
      in \<lparr>Width = Width si, Height = Height si, Depth = 0, pSysMem = offset, SysMemPitch = p\<rparr> #
         lockSurfaceInfo alignment bpp
           (offset + (p * Height si + alignment - 1) div alignment * alignment) rest)"

definition createLockResource :: "env \<Rightarrow> Resource \<times> dev \<Rightarrow> (Resource \<times> dev) option" where
  "createLockResource e s =
     (case s of (r, d) \<Rightarrow>
      if Pool (m_fixedData r) = D3DDDIPOOL_SYSTEMMEM \<or> m_isSurfaceRepoResource r \<or>
         bytesPerPixel (m_formatInfo r) = 0 \<or> hasTypeFlagBesidesRenderTarget (Flags (m_fixedData r))
      then Some (r, d)
      else if surfaceData (m_fixedData r) = [] then None
      else
        (let offsets = lockSurfaceInfo (ALIGNMENT e) (bytesPerPixel (m_formatInfo r)) 0
                         (surfaceData (m_fixedData r));
             bufferStart = lockBufferStart e (calls d);
             surfaceInfo = map (\<lambda>si. si\<lparr>pSysMem := bufferStart + pSysMem si\<rparr>) offsets;
             (r1, d1) = createSysMemResource e surfaceInfo (r\<lparr>m_lockBuffer := True\<rparr>, d)
         in if m_lockResource r1 = None
            then Some (r1\<lparr>m_lockBuffer := False, m_lockData := []\<rparr>, d1)
            else Some (r1, d1)))"

text \<open>
  The constructor \<^verbatim>\<open>Resource::Resource\<close>. A thrown \<^verbatim>\<open>HResultException\<close> is the result
  \<open>Inl\<close> of its code, and then there is no resource; \<open>Inr\<close> is the constructed resource.
\<close>

definition newResource :: "env \<Rightarrow> Resource_Data \<Rightarrow> Resource" where
  "newResource e dat =
     \<lparr>m_handle = 0, m_origData = dat, m_fixedData = dat, m_formatInfo = \<lparr>bytesPerPixel = 0\<rparr>,
      m_lockBuffer = False, m_lockResource = None, m_lockData = [],
      m_lockRefSurface = noSurface, m_msaaSurface = noSurface, m_msaaResolvedSurface = noSurface,
      m_nullSurface = noSurface, m_formatConfig = D3DDDIFMT_UNKNOWN,
      m_multiSampleConfig = (D3DDDIMULTISAMPLE_NONE, 0), m_scaledSize = \<lparr>cx = 0, cy = 0\<rparr>,
      m_isOversized = False, m_isSurfaceRepoResource = inCreateSurface e, m_isClampable = True,
      m_isPrimary = False, m_isPalettizedTextureUpToDate = False\<rparr>"

definition initLockData :: "env \<Rightarrow> Resource \<times> dev \<Rightarrow> (Resource \<times> dev) option" where
  "initLockData e s =
     (case s of (r, d) \<Rightarrow>
      if Pool (m_fixedData r) \<noteq> D3DDDIPOOL_SYSTEMMEM \<and> ZBuffer (Flags (m_origData r)) then
        Some (r\<lparr>m_lockData :=
                   map (\<lambda>l. l\<lparr>isSysMemUpToDate := True, isVidMemUpToDate := True,
                               isMsaaUpToDate := (resource (m_msaaSurface r) \<noteq> None),
                               isMsaaResolvedUpToDate := (resource (m_msaaResolvedSurface r) \<noteq> None)\<rparr>)
                       (resize (SurfCount (m_origData r)) (m_lockData r))\<rparr>, d)
      else if Pool (m_fixedData r) = D3DDDIPOOL_SYSTEMMEM \<and> bytesPerPixel (m_formatInfo r) \<noteq> 0 then
        Some (r\<lparr>m_lockData :=
                   map (\<lambda>(l, si). l\<lparr>data := pSysMem si, pitch := SysMemPitch si,
                                     isSysMemUpToDate := True\<rparr>)
                       (zip (resize (SurfCount (m_origData r)) (m_lockData r))
                            (surfaceData (m_origData r)))\<rparr>, d)
      else createLockResource e (r, d))"

text \<open>The constructor's body up to the driver's create call.\<close>

definition Resource_ctor_fix :: "env \<Rightarrow> Resource \<Rightarrow> dev \<Rightarrow> (Resource \<times> dev) option" where
  "Resource_ctor_fix e r0 d =
     do { d1 \<leftarrow> (if MatchGdiPrimary (Flags (m_origData r0))
                 then setFullscreenMode e r0 True d else Some d);
          let r1 = fixResourceData e d1 r0;
          let r2 = r1\<lparr>m_formatInfo := getFormatInfo e (Format (m_fixedData r1)),
                      m_formatConfig := Format (m_fixedData r1)\<rparr>;
          si \<leftarrow> pSurfList (m_fixedData r2) 0;
          Some (r2\<lparr>m_scaledSize := \<lparr>cx = int (Width si), cy = int (Height si)\<rparr>\<rparr>, d1) }"

definition Resource_ctor :: "env \<Rightarrow> Resource_Data \<Rightarrow> dev \<Rightarrow> ((hresult + Resource) \<times> dev) option" where
  "Resource_ctor e dat d =
     (let r0 = newResource e dat in
      if VertexBuffer (Flags (m_origData r0)) \<and> MightDrawFromLocked (Flags (m_origData r0)) \<and>
         D3DDDIPOOL_SYSTEMMEM \<noteq> Pool (m_origData r0)
      then Some (Inl E_FAIL, d)
      else
        do { (r3, d1) \<leftarrow> Resource_ctor_fix e r0 d;
             let (result, d2) = callDriver e (PfnCreateResource (m_fixedData r3)) d1;
             if FAILED result then Some (Inl result, d2)
             else
               do { let h = newHandle e (calls d1) (m_fixedData r3);
                    let r4 = r3\<lparr>m_fixedData := (m_fixedData r3)\<lparr>hResource := h\<rparr>, m_handle := h\<rparr>;
                    (r5, d3) \<leftarrow> updateConfig e (r4, d2);
                    (r6, d4) \<leftarrow> initLockData e (r5, d3);
                    Some (Inr r6, d4) } })"

section \<open>A device for the examples\<close>

definition exampleFormatInfo :: "D3DDDIFORMAT \<Rightarrow> FormatInfo" where
  "exampleFormatInfo f =
     \<lparr>bytesPerPixel = (case f of D3DDDIFMT_A8R8G8B8 \<Rightarrow> 4 | D3DDDIFMT_X8R8G8B8 \<Rightarrow> 4
                        | D3DDDIFMT_X8B8G8R8 \<Rightarrow> 4 | D3DDDIFMT_R5G6B5 \<Rightarrow> 2 | D3DDDIFMT_P8 \<Rightarrow> 1
                        | _ \<Rightarrow> 0)\<rparr>"

definition exampleEnv :: env where
  "exampleEnv =
     \<lparr>isMsaaDepthResolveSupported = False, dwMaxTextureWidth = 8192, dwMaxTextureHeight = 8192,
      getFormatInfo = exampleFormatInfo,
      adapterMultisampleConfig = (\<lambda>_. (D3DDDIMULTISAMPLE_NONE, 0)),
      adapterScaledSize = (\<lambda>sz. sz), formatOpsSrgbWrite = (\<lambda>_. Some False),
      renderColorDepth = 0, bltFilterBilinear = False, resolutionScaleFilterPoint = True,
      displayFilterBilinear = False, driver = (\<lambda>_ _. S_OK), repo = (\<lambda>_ _. noSurface),
      inCreateSurface = False,
      primaryMonitorRect = \<lparr>r_left = 0, r_top = 0, r_right = 640, r_bottom = 480\<rparr>,
      realMonitorRect = \<lparr>r_left = 1920, r_top = 0, r_right = 3840, r_bottom = 1080\<rparr>,
      setBltSrc = (\<lambda>b. b), newHandle = (\<lambda>hist _. Suc (length hist)), ALIGNMENT = 32,
      lockBufferStart = (\<lambda>_. 4096), cursorEmulated = None, gammaRampDefault = True,
      rectTransform = (\<lambda>rc _ _. rc), visibleLayeredWindows = []\<rparr>"

definition exampleDev :: dev where
  "exampleDev = \<lparr>calls = [], logMessages = [], logOnceFlags = {}, g_presentationRect = emptyRect,
     g_formatOverride = D3DDDIFMT_UNKNOWN, g_msaaOverride = (D3DDDIMULTISAMPLE_NONE, 0)\<rparr>"

definition exampleData :: Resource_Data where
  "exampleData = \<lparr>Format = D3DDDIFMT_X8R8G8B8, Pool = D3DDDIPOOL_VIDEOMEMORY,
     MultisampleType = D3DDDIMULTISAMPLE_NONE, MultisampleQuality = 0,
     surfaceData = [\<lparr>Width = 64, Height = 64, Depth = 0, pSysMem = 0, SysMemPitch = 0\<rparr>],
     Flags = noFlags, hResource = 0\<rparr>"

section \<open>Locking a multisampled resource\<close>

text \<open>
  C10: \<^verbatim>\<open>lock\<close> on a resource whose fixed creation data has a multisample type other than
  \<^verbatim>\<open>D3DDDIMULTISAMPLE_NONE\<close> returns \<^verbatim>\<open>E_FAIL\<close>; the lock argument, the resource with its
  lock data and validity flags, and the shared state with its list of calls are all
  unchanged, so no driver call is issued.
\<close>

theorem lock_multisampled_fails:
  assumes "MultisampleType (m_fixedData r) \<noteq> D3DDDIMULTISAMPLE_NONE"
  shows "lock e dat (r, d) = Some (E_FAIL, dat, r, d)"
  using assms by (simp add: lock_def)

definition exampleMsaaResource :: Resource where
  "exampleMsaaResource =
     (newResource exampleEnv (exampleData\<lparr>MultisampleType := 4\<rparr>))
       \<lparr>m_lockData := [newLockData\<lparr>isVidMemUpToDate := True\<rparr>]\<rparr>"

theorem lock_multisampled_fails_witness:
  "MultisampleType (m_fixedData exampleMsaaResource) \<noteq> D3DDDIMULTISAMPLE_NONE \<and>
   lock exampleEnv newLock (exampleMsaaResource, exampleDev)
     = Some (E_FAIL, newLock, exampleMsaaResource, exampleDev)"
proof -
  have h: "MultisampleType (m_fixedData exampleMsaaResource) \<noteq> D3DDDIMULTISAMPLE_NONE"
    by (simp add: exampleMsaaResource_def newResource_def exampleData_def)
  show ?thesis using h lock_multisampled_fails[OF h] by simp
qed

section \<open>Idempotence of loading video memory\<close>

lemma loadVidMemResource_upToDate:
  assumes "lockDataAt r i = Some l" "isVidMemUpToDate l"
  shows "loadVidMemResource e i (r, d) = Some (r, d)"
  using assms by (simp add: loadVidMemResource.simps)

lemma loadVidMemResource_marks:
  assumes "loadVidMemResource e i (r, d) = Some (r', d')"
  shows "lockDataAt r' i = Some (m_lockData r' ! i) \<and> isVidMemUpToDate (m_lockData r' ! i)"
proof -
  from assms obtain l where l: "lockDataAt r i = Some l"
    by (auto simp: loadVidMemResource.simps split: option.splits)
  have len: "i < length (m_lockData r')"
    using loadVidMemResource_loaded[OF assms] by (rule loaded_length)
  show ?thesis
  proof (cases "isVidMemUpToDate l")
    case True
    then show ?thesis using assms l by (auto simp: loadVidMemResource.simps lockDataAt_Some)
  next
    case False
    from assms l False obtain r1 where
      r1: "setLockData i (\<lambda>l. l\<lparr>isVidMemUpToDate := True\<rparr>) r = Some r1"
      by (auto simp: loadVidMemResource.simps split: option.splits)
    have v1: "isVidMemUpToDate (m_lockData r1 ! i)" using r1 by (auto simp: setLockData_Some)
    have "loaded i r1 r'"
    proof (cases "isMsaaUpToDate l \<or> isMsaaResolvedUpToDate l")
      case True
      from assms l False r1 True obtain d2 where
        "loadMsaaResolvedResource e i (r1, d) = Some (r', d2)"
        by (auto simp: loadVidMemResource.simps split: option.splits)
      then show ?thesis by (rule loadMsaaResolvedResource_loaded)
    next
      case F2: False
      from assms l False r1 F2 have "loadVidMemResource_fromSysMem e i (r1, d) = Some (r', d')"
        by (auto simp: loadVidMemResource.simps split: option.splits)
      then show ?thesis by (rule loadVidMemResource_fromSysMem_loaded)
    qed
    then have "isVidMemUpToDate (m_lockData r' ! i)"
      using v1 by (auto simp: loaded_def flagsGrow_def)
    then show ?thesis using len by (simp add: lockDataAt_Some)
  qed
qed

text \<open>
  C5: when the video-memory flag of subresource \<open>i\<close> is already set, \<^verbatim>\<open>loadVidMemResource\<close>
  returns the resource and the shared state as they were: no call is issued and no flag
  changes. And after any call that returns, a second call changes nothing, so that two
  calls in a row perform the copy at most once.
\<close>

theorem loadVidMemResource_idempotent:
  "(lockDataAt r i = Some l \<and> isVidMemUpToDate l \<longrightarrow>
      loadVidMemResource e i (r, d) = Some (r, d)) \<and>
   (loadVidMemResource e i (r, d) = Some (r', d') \<longrightarrow>
      loadVidMemResource e i (r', d') = Some (r', d'))"
  using loadVidMemResource_upToDate loadVidMemResource_marks by blast

theorem loadVidMemResource_idempotent_witness:
  "lockDataAt exampleMsaaResource 0 = Some (newLockData\<lparr>isVidMemUpToDate := True\<rparr>) \<and>
   isVidMemUpToDate (newLockData\<lparr>isVidMemUpToDate := True\<rparr>) \<and>
   loadVidMemResource exampleEnv 0 (exampleMsaaResource, exampleDev) =
     Some (exampleMsaaResource, exampleDev)"
proof -
  have h: "lockDataAt exampleMsaaResource 0 = Some (newLockData\<lparr>isVidMemUpToDate := True\<rparr>) \<and>
           isVidMemUpToDate (newLockData\<lparr>isVidMemUpToDate := True\<rparr>)"
    by (simp add: lockDataAt_def exampleMsaaResource_def)
  have one: "loadVidMemResource exampleEnv 0 (exampleMsaaResource, exampleDev) =
               Some (exampleMsaaResource, exampleDev)"
    using loadVidMemResource_idempotent[of exampleMsaaResource 0 _ exampleEnv exampleDev
            exampleMsaaResource exampleDev, THEN conjunct1, THEN mp, OF h] .
  have "loadVidMemResource exampleEnv 0 (exampleMsaaResource, exampleDev) =
               Some (exampleMsaaResource, exampleDev)"
    using loadVidMemResource_idempotent[of exampleMsaaResource 0 _ exampleEnv exampleDev
            exampleMsaaResource exampleDev, THEN conjunct2, THEN mp, OF one] .
  then show ?thesis using h by simp
qed

section \<open>Resolving a multisampled depth buffer without hardware support\<close>

text \<open>Calling a member function \<open>n\<close> times in a row.\<close>

fun repeatCall :: "nat \<Rightarrow> ('a \<Rightarrow> 'a option) \<Rightarrow> 'a \<Rightarrow> 'a option" where
  "repeatCall 0 f x = Some x"
| "repeatCall (Suc n) f x = (case f x of None \<Rightarrow> None | Some y \<Rightarrow> repeatCall n f y)"

lemma loadMsaaResolvedResource_upToDate:
  assumes "lockDataAt r i = Some l" "\<not> isRefLocked l" "isMsaaResolvedUpToDate l"
  shows "loadMsaaResolvedResource e i (r, d) = Some (r, d)"
  using assms by (simp add: loadMsaaResolvedResource.simps loadFromLockRefResource.simps)

lemma repeatCall_fixed: "f x = Some x \<Longrightarrow> repeatCall n f x = Some x"
  by (induction n) simp_all

lemma loadMsaaResolvedResource_depth_unsupported:
  assumes "ZBuffer (Flags (m_fixedData r))" "\<not> isMsaaDepthResolveSupported e"
      and "lockDataAt r i = Some l" "\<not> isRefLocked l" "isMsaaUpToDate l"
      and "\<not> isMsaaResolvedUpToDate l"
  shows "loadMsaaResolvedResource e i (r, d) =
           Some (r\<lparr>m_lockData := (m_lockData r)[i := l\<lparr>isMsaaResolvedUpToDate := True\<rparr>]\<rparr>,
                 logUnsupportedMsaaDepthBufferResolve d)"
proof -
  have lf: "loadFromLockRefResource e i (r, d) = Some (r, d)"
    using assms(3,4) by (simp add: loadFromLockRefResource.simps)
  have fm: "loadMsaaResolvedResource_fromMsaa e i r d = Some (logUnsupportedMsaaDepthBufferResolve d)"
    using assms(1,2) by (simp add: loadMsaaResolvedResource_fromMsaa_def)
  have len: "i < length (m_lockData r)" "m_lockData r ! i = l"
    using assms(3) by (simp_all add: lockDataAt_Some)
  have mk: "markMsaaResolvedUpToDate i (r, logUnsupportedMsaaDepthBufferResolve d) =
              Some (r\<lparr>m_lockData := (m_lockData r)[i := l\<lparr>isMsaaResolvedUpToDate := True\<rparr>]\<rparr>,
                    logUnsupportedMsaaDepthBufferResolve d)"
    using len by (simp add: markMsaaResolvedUpToDate_def setLockData_def)
  show ?thesis
    using assms(3,5,6) by (simp add: loadMsaaResolvedResource.simps lf fm mk)
qed

text \<open>
  C3, as the code has it: for a depth-format (\<^verbatim>\<open>ZBuffer\<close>) resource on an adapter without
  depth resolve, \<^verbatim>\<open>loadMsaaResolvedResource\<close> on a subresource whose multisampled copy is
  valid and whose resolved copy is not (and which is not reference-locked) skips the
  resolve: no call is issued, so the resolved surface is untouched. It nevertheless sets
  \<^verbatim>\<open>isMsaaResolvedUpToDate\<close>. The warning goes through \<^verbatim>\<open>LOG_ONCE\<close>: however many times the
  function is called in a row, the log gains one message if the warning had not been
  logged before, and none otherwise.
\<close>

theorem depth_resolve_unsupported:
  assumes "ZBuffer (Flags (m_fixedData r))" "\<not> isMsaaDepthResolveSupported e"
      and "lockDataAt r i = Some l" "\<not> isRefLocked l" "isMsaaUpToDate l"
      and "\<not> isMsaaResolvedUpToDate l"
  shows "\<exists>r' d'.
           loadMsaaResolvedResource e i (r, d) = Some (r', d') \<and>
           repeatCall (Suc n) (loadMsaaResolvedResource e i) (r, d) = Some (r', d') \<and>
           lockDataAt r' i = Some (l\<lparr>isMsaaResolvedUpToDate := True\<rparr>) \<and>
           calls d' = calls d \<and>
           logMessages d' =
             (if Site_UnsupportedMsaaDepthBufferResolve \<in> logOnceFlags d then logMessages d
              else logMessages d @ [Msg_UnsupportedMsaaDepthBufferResolve])"
proof -
  define r' where "r' = r\<lparr>m_lockData := (m_lockData r)[i := l\<lparr>isMsaaResolvedUpToDate := True\<rparr>]\<rparr>"
  define d' where "d' = logUnsupportedMsaaDepthBufferResolve d"
  have first: "loadMsaaResolvedResource e i (r, d) = Some (r', d')"
    unfolding r'_def d'_def using assms by (rule loadMsaaResolvedResource_depth_unsupported)
  have l': "lockDataAt r' i = Some (l\<lparr>isMsaaResolvedUpToDate := True\<rparr>)"
    using assms(3) by (simp add: r'_def lockDataAt_Some)
  have "loadMsaaResolvedResource e i (r', d') = Some (r', d')"
    using assms(4) by (intro loadMsaaResolvedResource_upToDate[OF l']) simp_all
  then have again: "repeatCall n (loadMsaaResolvedResource e i) (r', d') = Some (r', d')"
    by (rule repeatCall_fixed)
  have c: "calls d' = calls d"
    by (simp add: d'_def logUnsupportedMsaaDepthBufferResolve_def LOG_ONCE_def)
  have m: "logMessages d' =
             (if Site_UnsupportedMsaaDepthBufferResolve \<in> logOnceFlags d then logMessages d
              else logMessages d @ [Msg_UnsupportedMsaaDepthBufferResolve])"
    by (simp add: d'_def logUnsupportedMsaaDepthBufferResolve_def LOG_ONCE_def)
  show ?thesis using first again l' c m by simp
qed

definition exampleSurface :: "nat \<Rightarrow> Surface" where
  "exampleSurface h =
     \<lparr>resource = Some \<lparr>ref_handle = h, ref_origData = exampleData, ref_fixedData = exampleData,
                       ref_formatInfo = \<lparr>bytesPerPixel = 4\<rparr>, ref_lockResource = None\<rparr>,
      width = 64, height = 64\<rparr>"

text \<open>
  A multisampled depth buffer in video memory whose multisampled copy alone is valid, as
  \<^verbatim>\<open>prepareForGpuWrite\<close> leaves it.
\<close>

definition exampleDepthResource :: Resource where
  "exampleDepthResource =
     (newResource exampleEnv
        (exampleData\<lparr>Format := D3DDDIFMT_OTHER 80, Flags := noFlags\<lparr>ZBuffer := True\<rparr>\<rparr>))
       \<lparr>m_handle := 1,
        m_msaaSurface := exampleSurface 2,
        m_msaaResolvedSurface := exampleSurface 3,
        m_multiSampleConfig := (4, 0),
        m_scaledSize := \<lparr>cx = 64, cy = 64\<rparr>,
        m_lockData := [newLockData\<lparr>isMsaaUpToDate := True\<rparr>]\<rparr>"

theorem depth_resolve_unsupported_witness:
  "ZBuffer (Flags (m_fixedData exampleDepthResource)) \<and> \<not> isMsaaDepthResolveSupported exampleEnv \<and>
   lockDataAt exampleDepthResource 0 = Some (newLockData\<lparr>isMsaaUpToDate := True\<rparr>) \<and>
   (\<exists>r' d'.
      loadMsaaResolvedResource exampleEnv 0 (exampleDepthResource, exampleDev) = Some (r', d') \<and>
      repeatCall 3 (loadMsaaResolvedResource exampleEnv 0) (exampleDepthResource, exampleDev) = Some (r', d') \<and>
      lockDataAt r' 0 = Some (newLockData\<lparr>isMsaaUpToDate := True, isMsaaResolvedUpToDate := True\<rparr>) \<and>
      calls d' = [] \<and>
      logMessages d' = [Msg_UnsupportedMsaaDepthBufferResolve])"
proof -
  have h: "ZBuffer (Flags (m_fixedData exampleDepthResource))"
          "\<not> isMsaaDepthResolveSupported exampleEnv"
          "lockDataAt exampleDepthResource 0 = Some (newLockData\<lparr>isMsaaUpToDate := True\<rparr>)"
          "\<not> isRefLocked (newLockData\<lparr>isMsaaUpToDate := True\<rparr>)"
          "isMsaaUpToDate (newLockData\<lparr>isMsaaUpToDate := True\<rparr>)"
          "\<not> isMsaaResolvedUpToDate (newLockData\<lparr>isMsaaUpToDate := True\<rparr>)"
    by (simp_all add: exampleDepthResource_def newResource_def exampleData_def noFlags_def
          exampleEnv_def lockDataAt_def newLockData_def)
  show ?thesis
    using h(1,2,3) depth_resolve_unsupported[OF h, of exampleDev 2]
    by (simp add: exampleDev_def numeral_3_eq_3)
qed

text \<open>
  The claim's "leaves the validity flag false" fails: on that depth buffer the flag is
  set by the call.
\<close>

theorem depth_resolve_flag_counterexample:
  "loadMsaaResolvedResource exampleEnv 0 (exampleDepthResource, exampleDev) =
     Some (exampleDepthResource
             \<lparr>m_lockData := [newLockData\<lparr>isMsaaUpToDate := True, isMsaaResolvedUpToDate := True\<rparr>]\<rparr>,
           exampleDev\<lparr>logMessages := [Msg_UnsupportedMsaaDepthBufferResolve],
                      logOnceFlags := {Site_UnsupportedMsaaDepthBufferResolve}\<rparr>) \<and>
   isMsaaResolvedUpToDate
     (m_lockData (fst (the (loadMsaaResolvedResource exampleEnv 0 (exampleDepthResource, exampleDev)))) ! 0)"
  by (simp add: loadMsaaResolvedResource.simps loadFromLockRefResource.simps
        loadMsaaResolvedResource_fromMsaa_def markMsaaResolvedUpToDate_def
        setLockData_def lockDataAt_def exampleDepthResource_def newResource_def exampleData_def
        noFlags_def exampleEnv_def newLockData_def logUnsupportedMsaaDepthBufferResolve_def
        LOG_ONCE_def exampleDev_def)

section \<open>When the CPU blit path is taken\<close>

text \<open>
  C4, as the code has it: \<^verbatim>\<open>bltViaCpu\<close> declines with \<^verbatim>\<open>S_FALSE\<close>, leaving both resources and
  the shared state as they were (nothing is locked, no call is issued), whenever the
  formats differ, or the destination's format has zero bytes per pixel, or the format is
  not \<^verbatim>\<open>D3DDDIFMT_P8\<close> and neither resource is oversized. So the CPU path is taken only
  when the formats match, the bytes per pixel are known, and the format is the
  palettized \<^verbatim>\<open>P8\<close> or at least one resource is oversized.
\<close>

theorem bltViaCpu_declines:
  assumes "resources w this = Some dstR" "resources w src = Some srcR"
      and "\<not> (Format (m_fixedData dstR) = Format (m_fixedData srcR) \<and>
               bytesPerPixel (m_formatInfo dstR) \<noteq> 0 \<and>
               (Format (m_fixedData dstR) = D3DDDIFMT_P8 \<or> m_isOversized dstR \<or> m_isOversized srcR))"
  shows "bltViaCpu e this dat src w = Some (S_FALSE, w)"
  using assms by (auto simp: bltViaCpu_def)

text \<open>
  Two palettized resources, neither oversized: a texture in video memory and a surface
  in system memory.
\<close>

definition examplePaletteData :: Resource_Data where
  "examplePaletteData = exampleData\<lparr>Format := D3DDDIFMT_P8\<rparr>"

definition examplePaletteTexture :: Resource where
  "examplePaletteTexture =
     (newResource exampleEnv (examplePaletteData\<lparr>Flags := noFlags\<lparr>Texture := True\<rparr>\<rparr>))
       \<lparr>m_handle := 1, m_formatInfo := \<lparr>bytesPerPixel = 1\<rparr>, m_formatConfig := D3DDDIFMT_P8,
        m_scaledSize := \<lparr>cx = 64, cy = 64\<rparr>\<rparr>"

definition examplePaletteSysMem :: Resource where
  "examplePaletteSysMem =
     (newResource exampleEnv (examplePaletteData\<lparr>Pool := D3DDDIPOOL_SYSTEMMEM\<rparr>))
       \<lparr>m_handle := 2, m_formatInfo := \<lparr>bytesPerPixel = 1\<rparr>, m_formatConfig := D3DDDIFMT_P8,
        m_scaledSize := \<lparr>cx = 64, cy = 64\<rparr>,
        m_lockData := [newLockData\<lparr>data := 4096, pitch := 64, isSysMemUpToDate := True\<rparr>]\<rparr>"

definition examplePaletteWorld :: world where
  "examplePaletteWorld =
     \<lparr>resources = (\<lambda>h. if h = 1 then Some examplePaletteTexture
                        else if h = 2 then Some examplePaletteSysMem else None),
      wdev = exampleDev\<rparr>"

definition examplePaletteBlt :: D3DDDIARG_BLT where
  "examplePaletteBlt =
     newBlt\<lparr>hSrcResource := 2, SrcRect := \<lparr>r_left = 0, r_top = 0, r_right = 64, r_bottom = 64\<rparr>,
            hDstResource := 1, DstRect := \<lparr>r_left = 0, r_top = 0, r_right = 64, r_bottom = 64\<rparr>\<rparr>"

definition exampleMixedWorld :: world where
  "exampleMixedWorld =
     \<lparr>resources = (\<lambda>h. if h = 1 then Some examplePaletteTexture
                        else if h = 2 then Some exampleMsaaResource else None),
      wdev = exampleDev\<rparr>"

theorem bltViaCpu_declines_witness:
  "resources exampleMixedWorld 1 = Some examplePaletteTexture \<and>
   resources exampleMixedWorld 2 = Some exampleMsaaResource \<and>
   \<not> (Format (m_fixedData examplePaletteTexture) = Format (m_fixedData exampleMsaaResource) \<and>
       bytesPerPixel (m_formatInfo examplePaletteTexture) \<noteq> 0 \<and>
       (Format (m_fixedData examplePaletteTexture) = D3DDDIFMT_P8 \<or>
        m_isOversized examplePaletteTexture \<or> m_isOversized exampleMsaaResource)) \<and>
   bltViaCpu exampleEnv 1 examplePaletteBlt 2 exampleMixedWorld = Some (S_FALSE, exampleMixedWorld)"
proof -
  have h: "resources exampleMixedWorld 1 = Some examplePaletteTexture"
          "resources exampleMixedWorld 2 = Some exampleMsaaResource"
          "\<not> (Format (m_fixedData examplePaletteTexture) = Format (m_fixedData exampleMsaaResource) \<and>
              bytesPerPixel (m_formatInfo examplePaletteTexture) \<noteq> 0 \<and>
              (Format (m_fixedData examplePaletteTexture) = D3DDDIFMT_P8 \<or>
               m_isOversized examplePaletteTexture \<or> m_isOversized exampleMsaaResource))"
    by (simp_all add: exampleMixedWorld_def examplePaletteTexture_def exampleMsaaResource_def
          examplePaletteData_def exampleData_def newResource_def)
  show ?thesis using h bltViaCpu_declines[OF h, of exampleEnv examplePaletteBlt] by simp
qed

text \<open>
  The claim's "not palettized" fails: between the two \<^verbatim>\<open>P8\<close> resources, neither of them
  oversized, \<^verbatim>\<open>bltViaCpu\<close> locks both, copies with the CPU blitter and returns \<^verbatim>\<open>S_OK\<close>.
\<close>

theorem bltViaCpu_palettized_counterexample:
  "Format (m_fixedData examplePaletteTexture) = D3DDDIFMT_P8 \<and>
   Format (m_fixedData examplePaletteSysMem) = D3DDDIFMT_P8 \<and>
   \<not> m_isOversized examplePaletteTexture \<and> \<not> m_isOversized examplePaletteSysMem \<and>
   map_option fst (bltViaCpu exampleEnv 1 examplePaletteBlt 2 examplePaletteWorld) = Some S_OK \<and>
   map_option (calls \<circ> wdev \<circ> snd) (bltViaCpu exampleEnv 1 examplePaletteBlt 2 examplePaletteWorld) =
     Some [PfnLock (newLock\<lparr>l_hResource := 2, l_NotifyOnly := True\<rparr>),
           PfnLock (newLock\<lparr>l_hResource := 1, l_AreaValid := True,
                      l_Area := \<lparr>r_left = 0, r_top = 0, r_right = 64, r_bottom = 64\<rparr>\<rparr>),
           BlitterBlt 0 0 64 64 4096 64 64 64 1 False False,
           PfnUnlock \<lparr>u_hResource = 1, u_SubResourceIndex = 0, u_NotifyOnly = False\<rparr>,
           PfnUnlock \<lparr>u_hResource = 2, u_SubResourceIndex = 0, u_NotifyOnly = True\<rparr>]"
  by (simp add: bltViaCpu_def onResourceR_def lock_def unlock_def callDriver_def emit_def
        lockDataAt_def examplePaletteWorld_def examplePaletteTexture_def examplePaletteSysMem_def
        examplePaletteData_def exampleData_def examplePaletteBlt_def exampleEnv_def exampleDev_def
        newResource_def newLock_def newBlt_def newLockData_def noFlags_def noBltFlags_def
        emptyRect_def SUCCEEDED_def FAILED_def Let_def)

section \<open>Construction is all or nothing\<close>

text \<open>
  C7: the constructor gives either an error code and no resource, or a resource. A request
  with \<^verbatim>\<open>VertexBuffer\<close> and \<^verbatim>\<open>MightDrawFromLocked\<close> set and a pool other than system memory
  raises \<^verbatim>\<open>E_FAIL\<close> with the shared state untouched, so before any driver resource is
  created. When the driver's create call fails, the constructor raises the code that the
  call returned. A resource results only when neither happened.
\<close>

theorem Resource_ctor_all_or_nothing:
  "(VertexBuffer (Flags dat) \<and> MightDrawFromLocked (Flags dat) \<and> Pool dat \<noteq> D3DDDIPOOL_SYSTEMMEM \<longrightarrow>
      Resource_ctor e dat d = Some (Inl E_FAIL, d)) \<and>
   (\<not> (VertexBuffer (Flags dat) \<and> MightDrawFromLocked (Flags dat) \<and> Pool dat \<noteq> D3DDDIPOOL_SYSTEMMEM) \<and>
    Resource_ctor_fix e (newResource e dat) d = Some (r3, d1) \<and>
    FAILED (driver e (calls d1) (PfnCreateResource (m_fixedData r3))) \<longrightarrow>
      Resource_ctor e dat d =
        Some (Inl (driver e (calls d1) (PfnCreateResource (m_fixedData r3))),
              emit (PfnCreateResource (m_fixedData r3)) d1)) \<and>
   (Resource_ctor e dat d = Some (Inr r, d') \<longrightarrow>
      \<not> (VertexBuffer (Flags dat) \<and> MightDrawFromLocked (Flags dat) \<and> Pool dat \<noteq> D3DDDIPOOL_SYSTEMMEM) \<and>
      (\<exists>r3 d1. Resource_ctor_fix e (newResource e dat) d = Some (r3, d1) \<and>
         \<not> FAILED (driver e (calls d1) (PfnCreateResource (m_fixedData r3)))))"
proof (intro conjI impI)
  assume "VertexBuffer (Flags dat) \<and> MightDrawFromLocked (Flags dat) \<and> Pool dat \<noteq> D3DDDIPOOL_SYSTEMMEM"
  then show "Resource_ctor e dat d = Some (Inl E_FAIL, d)"
    by (auto simp: Resource_ctor_def newResource_def Let_def)
next
  assume a: "\<not> (VertexBuffer (Flags dat) \<and> MightDrawFromLocked (Flags dat) \<and> Pool dat \<noteq> D3DDDIPOOL_SYSTEMMEM) \<and>
    Resource_ctor_fix e (newResource e dat) d = Some (r3, d1) \<and>
    FAILED (driver e (calls d1) (PfnCreateResource (m_fixedData r3)))"
  have o: "m_origData (newResource e dat) = dat" by (simp add: newResource_def)
  show "Resource_ctor e dat d =
        Some (Inl (driver e (calls d1) (PfnCreateResource (m_fixedData r3))),
              emit (PfnCreateResource (m_fixedData r3)) d1)"
    using a unfolding Resource_ctor_def Let_def o
    by (auto simp: callDriver_def emit_def)
next
  assume a: "Resource_ctor e dat d = Some (Inr r, d')"
  have o: "m_origData (newResource e dat) = dat" by (simp add: newResource_def)
  show "\<not> (VertexBuffer (Flags dat) \<and> MightDrawFromLocked (Flags dat) \<and> Pool dat \<noteq> D3DDDIPOOL_SYSTEMMEM)"
    using a unfolding Resource_ctor_def Let_def o by (auto split: if_splits)
  show "\<exists>r3 d1. Resource_ctor_fix e (newResource e dat) d = Some (r3, d1) \<and>
         \<not> FAILED (driver e (calls d1) (PfnCreateResource (m_fixedData r3)))"
    using a unfolding Resource_ctor_def Let_def o
    by (auto simp: callDriver_def bind_eq_Some_conv split: if_splits prod.splits)
qed

text \<open>A device whose driver is out of memory when asked to create a resource.\<close>

definition exampleFailingEnv :: env where
  "exampleFailingEnv =
     exampleEnv\<lparr>driver := (\<lambda>_ c. case c of PfnCreateResource _ \<Rightarrow> E_OUTOFMEMORY | _ \<Rightarrow> S_OK)\<rparr>"

definition exampleVertexBufferData :: Resource_Data where
  "exampleVertexBufferData =
     exampleData\<lparr>Flags := noFlags\<lparr>VertexBuffer := True, MightDrawFromLocked := True\<rparr>\<rparr>"

lemma exampleData_fix:
  "Resource_ctor_fix exampleFailingEnv (newResource exampleFailingEnv exampleData) exampleDev =
     Some ((newResource exampleFailingEnv exampleData)
             \<lparr>m_formatInfo := \<lparr>bytesPerPixel = 4\<rparr>, m_formatConfig := D3DDDIFMT_X8R8G8B8,
              m_scaledSize := \<lparr>cx = 64, cy = 64\<rparr>\<rparr>, exampleDev)"
  by (simp add: Resource_ctor_fix_def fixResourceData_def newResource_def exampleData_def
        exampleFailingEnv_def exampleEnv_def exampleDev_def noFlags_def pSurfList_def
        exampleFormatInfo_def Let_def)

theorem Resource_ctor_all_or_nothing_witness:
  "Resource_ctor exampleEnv exampleVertexBufferData exampleDev = Some (Inl E_FAIL, exampleDev) \<and>
   Resource_ctor exampleFailingEnv exampleData exampleDev =
     Some (Inl E_OUTOFMEMORY, emit (PfnCreateResource exampleData) exampleDev)"
proof -
  have a: "VertexBuffer (Flags exampleVertexBufferData) \<and>
           MightDrawFromLocked (Flags exampleVertexBufferData) \<and>
           Pool exampleVertexBufferData \<noteq> D3DDDIPOOL_SYSTEMMEM"
    by (simp add: exampleVertexBufferData_def exampleData_def)
  have b: "\<not> (VertexBuffer (Flags exampleData) \<and> MightDrawFromLocked (Flags exampleData) \<and>
               Pool exampleData \<noteq> D3DDDIPOOL_SYSTEMMEM)"
    by (simp add: exampleData_def noFlags_def)
  have c: "FAILED (driver exampleFailingEnv (calls exampleDev) (PfnCreateResource exampleData))"
    by (simp add: exampleFailingEnv_def FAILED_def)
  have m: "m_fixedData ((newResource exampleFailingEnv exampleData)
             \<lparr>m_formatInfo := \<lparr>bytesPerPixel = 4\<rparr>, m_formatConfig := D3DDDIFMT_X8R8G8B8,
              m_scaledSize := \<lparr>cx = 64, cy = 64\<rparr>\<rparr>) = exampleData"
    by (simp add: newResource_def)
  have d: "driver exampleFailingEnv (calls exampleDev) (PfnCreateResource exampleData) = E_OUTOFMEMORY"
    by (simp add: exampleFailingEnv_def)
  have one: "Resource_ctor exampleEnv exampleVertexBufferData exampleDev = Some (Inl E_FAIL, exampleDev)"
    using Resource_ctor_all_or_nothing[of exampleVertexBufferData exampleEnv exampleDev,
            THEN conjunct1, THEN mp, OF a] .
  have two: "Resource_ctor exampleFailingEnv exampleData exampleDev =
        Some (Inl (driver exampleFailingEnv (calls exampleDev) (PfnCreateResource exampleData)),
              emit (PfnCreateResource exampleData) exampleDev)"
    using Resource_ctor_all_or_nothing[of exampleData exampleFailingEnv exampleDev _ exampleDev,
            THEN conjunct2, THEN conjunct1, THEN mp, OF conjI[OF b conjI[OF exampleData_fix]]]
      c unfolding m by blast
  show ?thesis using one two unfolding d by (rule conjI)
qed

section \<open>The presentation rectangle is centred\<close>

lemma sdiv_nonneg_eq: "0 \<le> (a::int) \<Longrightarrow> 0 < b \<Longrightarrow> a sdiv b = a div b"
  by (simp add: signed_divide_int_def sgn_if)

lemma sdiv2_bounds: "0 \<le> (a::int) \<Longrightarrow> 0 \<le> a sdiv 2 \<and> a sdiv 2 \<le> a"
  by (simp add: sdiv_nonneg_eq)

lemma scaled_extent_le:
  assumes "0 < (sh::int)" "0 \<le> dh" "0 \<le> sw" "dh * sw \<le> dw * sh"
  shows "0 \<le> (dh * sw) sdiv sh \<and> (dh * sw) sdiv sh \<le> dw"
proof -
  have e: "(dh * sw) sdiv sh = (dh * sw) div sh" using assms by (simp add: sdiv_nonneg_eq)
  have "(dh * sw) div sh \<le> (dw * sh) div sh" using assms by (intro zdiv_mono1) simp_all
  then have "(dh * sw) div sh \<le> dw" using assms by simp
  moreover have "0 \<le> (dh * sw) div sh" using assms by (simp add: pos_imp_zdiv_nonneg_iff)
  ultimately show ?thesis by (simp add: e)
qed

lemma setFullscreenMode_enter:
  assumes "IsRectEmpty (g_presentationRect d)" "setFullscreenMode e r True d = Some d'"
  shows "calculateScaledRect (primaryMonitorRect e) (realMonitorRect e) = Some (g_presentationRect d')"
  using assms
  by (auto simp: setFullscreenMode_def emit_def Let_def bind_eq_Some_conv split: if_splits)

lemma calculateScaledRect_wide:
  assumes "0 < sw" "sw < 2147483648" "0 < sh" "sh < 2147483648" "0 \<le> dw" "0 \<le> dh"
      and "dw * sh < 2147483648" "dh * sw < 2147483648"
      and "sw = r_right srcRect - r_left srcRect" "sh = r_bottom srcRect - r_top srcRect"
      and "dw = r_right dstRect - r_left dstRect" "dh = r_bottom dstRect - r_top dstRect"
      and "dw * sh > dh * sw" "w = (dh * sw) sdiv sh"
  shows "calculateScaledRect srcRect dstRect =
           Some \<lparr>r_left = (dw - w) sdiv 2, r_top = 0, r_right = w + (dw - w) sdiv 2, r_bottom = dh\<rparr>"
    and "0 \<le> w \<and> w \<le> dw" and "0 \<le> (dw - w) sdiv 2 \<and> (dw - w) sdiv 2 \<le> dw - w"
proof -
  have dwb: "dw < 2147483648"
  proof -
    have "dw * 1 \<le> dw * sh" using assms(3,5) by (intro mult_left_mono) simp_all
    then show ?thesis using assms(7) by simp
  qed
  have dhb: "dh < 2147483648"
  proof -
    have "dh * 1 \<le> dh * sw" using assms(1,6) by (intro mult_left_mono) simp_all
    then show ?thesis using assms(8) by simp
  qed
  have p: "0 \<le> dw * sh" "0 \<le> dh * sw" using assms(1,3,5,6) by simp_all
  show w: "0 \<le> w \<and> w \<le> dw"
    unfolding assms(14) using assms(1,3,5,6,13) by (intro scaled_extent_le) simp_all
  show b: "0 \<le> (dw - w) sdiv 2 \<and> (dw - w) sdiv 2 \<le> dw - w" using w by (intro sdiv2_bounds) simp
  have ip: "int32 (dw * sh) = dw * sh" "int32 (dh * sw) = dh * sw"
    by (rule int32_id; use p assms(7,8) in linarith)+
  have i: "int32 sw = sw" "int32 sh = sh" "int32 dw = dw" "int32 dh = dh"
          "int32 (dw - w) = dw - w" "int32 0 = 0" "(0::int) sdiv 2 = 0"
          "int32 ((dw - w) sdiv 2) = (dw - w) sdiv 2" "int32 (w + (dw - w) sdiv 2) = w + (dw - w) sdiv 2"
    using assms(1-6) dwb dhb w b by (simp_all add: int32_id)
  have q: "div32 (dh * sw) sh = Some w"
    using assms(3,8) p(2) by (simp add: div32_def assms(14))
  show "calculateScaledRect srcRect dstRect =
           Some \<lparr>r_left = (dw - w) sdiv 2, r_top = 0, r_right = w + (dw - w) sdiv 2, r_bottom = dh\<rparr>"
    using assms(13)
    by (simp add: calculateScaledRect_def Let_def OffsetRect_def assms(9-12)[symmetric] i ip q)
qed

lemma calculateScaledRect_tall:
  assumes "0 < sw" "sw < 2147483648" "0 < sh" "sh < 2147483648" "0 \<le> dw" "0 \<le> dh"
      and "dw * sh < 2147483648" "dh * sw < 2147483648"
      and "sw = r_right srcRect - r_left srcRect" "sh = r_bottom srcRect - r_top srcRect"
      and "dw = r_right dstRect - r_left dstRect" "dh = r_bottom dstRect - r_top dstRect"
      and "\<not> dw * sh > dh * sw" "h = (dw * sh) sdiv sw"
  shows "calculateScaledRect srcRect dstRect =
           Some \<lparr>r_left = 0, r_top = (dh - h) sdiv 2, r_right = dw, r_bottom = h + (dh - h) sdiv 2\<rparr>"
    and "0 \<le> h \<and> h \<le> dh" and "0 \<le> (dh - h) sdiv 2 \<and> (dh - h) sdiv 2 \<le> dh - h"
proof -
  have dwb: "dw < 2147483648"
  proof -
    have "dw * 1 \<le> dw * sh" using assms(3,5) by (intro mult_left_mono) simp_all
    then show ?thesis using assms(7) by simp
  qed
  have dhb: "dh < 2147483648"
  proof -
    have "dh * 1 \<le> dh * sw" using assms(1,6) by (intro mult_left_mono) simp_all
    then show ?thesis using assms(8) by simp
  qed
  have p: "0 \<le> dw * sh" "0 \<le> dh * sw" using assms(1,3,5,6) by simp_all
  show h: "0 \<le> h \<and> h \<le> dh"
    unfolding assms(14) using assms(1,3,5,6,13) by (intro scaled_extent_le) simp_all
  show b: "0 \<le> (dh - h) sdiv 2 \<and> (dh - h) sdiv 2 \<le> dh - h" using h by (intro sdiv2_bounds) simp
  have ip: "int32 (dw * sh) = dw * sh" "int32 (dh * sw) = dh * sw"
    by (rule int32_id; use p assms(7,8) in linarith)+
  have i: "int32 sw = sw" "int32 sh = sh" "int32 dw = dw" "int32 dh = dh"
          "int32 (dh - h) = dh - h" "int32 0 = 0" "(0::int) sdiv 2 = 0"
          "int32 ((dh - h) sdiv 2) = (dh - h) sdiv 2" "int32 (h + (dh - h) sdiv 2) = h + (dh - h) sdiv 2"
    using assms(1-6) dwb dhb h b by (simp_all add: int32_id)
  have q: "div32 (dw * sh) sw = Some h"
    using assms(1,7) p(1) by (simp add: div32_def assms(14))
  show "calculateScaledRect srcRect dstRect =
           Some \<lparr>r_left = 0, r_top = (dh - h) sdiv 2, r_right = dw, r_bottom = h + (dh - h) sdiv 2\<rparr>"
    using assms(13)
    by (simp add: calculateScaledRect_def Let_def OffsetRect_def assms(9-12)[symmetric] i ip q)
qed

text \<open>
  C9, as the code has it. On entering fullscreen mode the presentation rectangle is
  \<^verbatim>\<open>calculateScaledRect\<close> of the primary surface's and the real display's monitor
  rectangles, computed in 32-bit arithmetic. Take a source of positive width and height
  and a destination of non-negative width and height, such that the two products
  \<open>dstWidth * srcHeight\<close> and \<open>dstHeight * srcWidth\<close> are below \<open>2^31\<close>. Then the result keeps
  the source's aspect ratio under integer division: if
  \<open>dstWidth * srcHeight > dstHeight * srcWidth\<close> it has the height \<open>dstHeight\<close> and the width
  \<open>dstHeight * srcWidth / srcHeight\<close>, otherwise the width \<open>dstWidth\<close> and the height
  \<open>dstWidth * srcHeight / srcWidth\<close>. Its left and top are \<open>(dstWidth - width) / 2\<close> and
  \<open>(dstHeight - height) / 2\<close>, counted from the destination's own top-left corner: it lies
  within the destination's extent \<open>(0, 0, dstWidth, dstHeight)\<close>, not within the
  destination rectangle itself when that one does not start at the origin.
\<close>

theorem calculateScaledRect_centered:
  assumes "0 < rectWidth srcRect" "rectWidth srcRect < 2147483648"
      and "0 < rectHeight srcRect" "rectHeight srcRect < 2147483648"
      and "0 \<le> rectWidth dstRect" "0 \<le> rectHeight dstRect"
      and "rectWidth dstRect * rectHeight srcRect < 2147483648"
      and "rectHeight dstRect * rectWidth srcRect < 2147483648"
  shows "\<exists>rc. calculateScaledRect srcRect dstRect = Some rc \<and>
           rectWidth rc = (if rectWidth dstRect * rectHeight srcRect > rectHeight dstRect * rectWidth srcRect
                           then (rectHeight dstRect * rectWidth srcRect) sdiv rectHeight srcRect
                           else rectWidth dstRect) \<and>
           rectHeight rc = (if rectWidth dstRect * rectHeight srcRect > rectHeight dstRect * rectWidth srcRect
                            then rectHeight dstRect
                            else (rectWidth dstRect * rectHeight srcRect) sdiv rectWidth srcRect) \<and>
           r_left rc = (rectWidth dstRect - rectWidth rc) sdiv 2 \<and>
           r_top rc = (rectHeight dstRect - rectHeight rc) sdiv 2 \<and>
           rectWithin rc (rectExtent dstRect) \<and>
           (IsRectEmpty (g_presentationRect d) \<and> primaryMonitorRect e = srcRect \<and>
            realMonitorRect e = dstRect \<and> setFullscreenMode e r True d = Some d'
              \<longrightarrow> g_presentationRect d' = rc)"
proof -
  define sw where "sw = r_right srcRect - r_left srcRect"
  define sh where "sh = r_bottom srcRect - r_top srcRect"
  define dw where "dw = r_right dstRect - r_left dstRect"
  define dh where "dh = r_bottom dstRect - r_top dstRect"
  note dims = sw_def sh_def dw_def dh_def
  have pos: "0 < sw" "sw < 2147483648" "0 < sh" "sh < 2147483648" "0 \<le> dw" "0 \<le> dh"
            "dw * sh < 2147483648" "dh * sw < 2147483648"
    using assms by (simp_all add: dims rectWidth_def rectHeight_def)
  have fs: "\<And>rc. calculateScaledRect srcRect dstRect = Some rc \<Longrightarrow>
              IsRectEmpty (g_presentationRect d) \<and> primaryMonitorRect e = srcRect \<and>
              realMonitorRect e = dstRect \<and> setFullscreenMode e r True d = Some d'
                \<longrightarrow> g_presentationRect d' = rc"
    using setFullscreenMode_enter[of d e r d'] by auto
  show ?thesis
  proof (cases "dw * sh > dh * sw")
    case True
    define w where "w = (dh * sw) sdiv sh"
    note t = calculateScaledRect_wide[OF pos dims True w_def]
    show ?thesis using True pos t(2,3) fs[OF t(1)]
      by (simp add: t(1) rectWithin_def rectExtent_def rectWidth_def rectHeight_def dims[symmetric]
            w_def[symmetric])
  next
    case False
    define h where "h = (dw * sh) sdiv sw"
    note t = calculateScaledRect_tall[OF pos dims False h_def]
    show ?thesis using False pos t(2,3) fs[OF t(1)]
      by (simp add: t(1) rectWithin_def rectExtent_def rectWidth_def rectHeight_def dims[symmetric]
            h_def[symmetric])
  qed
qed

theorem calculateScaledRect_centered_witness:
  "0 < rectWidth (primaryMonitorRect exampleEnv) \<and> 0 < rectHeight (primaryMonitorRect exampleEnv) \<and>
   0 \<le> rectWidth (realMonitorRect exampleEnv) \<and> 0 \<le> rectHeight (realMonitorRect exampleEnv) \<and>
   rectWidth (realMonitorRect exampleEnv) * rectHeight (primaryMonitorRect exampleEnv) < 2147483648 \<and>
   rectHeight (realMonitorRect exampleEnv) * rectWidth (primaryMonitorRect exampleEnv) < 2147483648 \<and>
   (\<exists>rc. calculateScaledRect (primaryMonitorRect exampleEnv) (realMonitorRect exampleEnv) = Some rc \<and>
      rectWidth rc = 1440 \<and> rectHeight rc = 1080 \<and> r_left rc = 240 \<and> r_top rc = 0 \<and>
      rectWithin rc (rectExtent (realMonitorRect exampleEnv)))"
proof -
  let ?s = "primaryMonitorRect exampleEnv"
  let ?d = "realMonitorRect exampleEnv"
  have h: "0 < rectWidth ?s" "rectWidth ?s < 2147483648" "0 < rectHeight ?s"
    "rectHeight ?s < 2147483648" "0 \<le> rectWidth ?d" "0 \<le> rectHeight ?d"
    "rectWidth ?d * rectHeight ?s < 2147483648" "rectHeight ?d * rectWidth ?s < 2147483648"
    by (simp_all add: exampleEnv_def rectWidth_def rectHeight_def)
  from calculateScaledRect_centered[OF h] obtain rc where
    rc: "calculateScaledRect ?s ?d = Some rc"
        "rectWidth rc = (if rectWidth ?d * rectHeight ?s > rectHeight ?d * rectWidth ?s
                         then (rectHeight ?d * rectWidth ?s) sdiv rectHeight ?s
                         else rectWidth ?d)"
        "rectHeight rc = (if rectWidth ?d * rectHeight ?s > rectHeight ?d * rectWidth ?s
                          then rectHeight ?d
                          else (rectWidth ?d * rectHeight ?s) sdiv rectWidth ?s)"
        "r_left rc = (rectWidth ?d - rectWidth rc) sdiv 2"
        "r_top rc = (rectHeight ?d - rectHeight rc) sdiv 2"
        "rectWithin rc (rectExtent ?d)"
    by blast
  have w: "rectWidth rc = 1440" "rectHeight rc = 1080"
    using rc(2,3) by (simp_all add: exampleEnv_def rectWidth_def rectHeight_def signed_divide_int_def)
  have "r_left rc = 240" "r_top rc = 0"
    using rc(4,5) unfolding w
    by (simp_all add: exampleEnv_def rectWidth_def rectHeight_def signed_divide_int_def)
  with h rc(1,6) w show ?thesis by blast
qed

text \<open>
  With a 640 by 480 primary surface shown on a second monitor at \<open>(1920, 0, 3840, 1080)\<close>,
  the presentation rectangle is \<open>(240, 0, 1680, 1080)\<close>, which is not within the monitor's
  rectangle.
\<close>

theorem calculateScaledRect_within_counterexample:
  "calculateScaledRect (primaryMonitorRect exampleEnv) (realMonitorRect exampleEnv) =
     Some \<lparr>r_left = 240, r_top = 0, r_right = 1680, r_bottom = 1080\<rparr> \<and>
   \<not> rectWithin \<lparr>r_left = 240, r_top = 0, r_right = 1680, r_bottom = 1080\<rparr> (realMonitorRect exampleEnv)"
  by (simp add: calculateScaledRect_def exampleEnv_def Let_def OffsetRect_def signed_divide_int_def
        rectWithin_def int32_def div32_def)

text \<open>
  Where a product leaves the 32-bit range the result is neither centred nor within the
  destination: a 40000 by 30000 source in a 80000 by 60000 destination gives a rectangle
  of height \<open>-47374\<close>.
\<close>

lemma calculateScaledRect_overflow:
  "calculateScaledRect \<lparr>r_left = 0, r_top = 0, r_right = 40000, r_bottom = 30000\<rparr>
     \<lparr>r_left = 0, r_top = 0, r_right = 80000, r_bottom = 60000\<rparr> =
     Some \<lparr>r_left = 0, r_top = 53687, r_right = 80000, r_bottom = 6313\<rparr>"
  by (simp add: calculateScaledRect_def Let_def OffsetRect_def signed_divide_int_def int32_def
        div32_def)

section \<open>The downscale chain\<close>

text \<open>
  C8, as the code has it. The sizes are 32-bit values, and the loop computes
  \<open>2 * dstWidth\<close> and \<open>srcWidth + 1\<close>. Take a destination width and height that are positive
  and below \<open>2^30\<close>, and a source width and height below \<open>2^31 - 1\<close>. Then the downscale
  chain returns. A step replaces the source width and height by
  \<open>max dst ((src + 1) / 2)\<close>. If every request for a render target made on the run is
  answered with a surface, the source width and height returned are at most twice the
  destination's; and when the source is within that ratio at the start, nothing is asked
  of the repository or the blitter and the arguments come back as they were.
\<close>

theorem downscale_chain:
  assumes "dstSizeFits dstWidth" "dstSizeFits dstHeight"
      and "srcSizeFits srcWidth" "srcSizeFits srcHeight"
  shows "(\<exists>rt' w' h' d' ok.
            downscale e rt srcWidth srcHeight dstWidth dstHeight dryRun d = Some ((rt', w', h'), d') \<and>
            everyRequestSucceeds e rt srcWidth srcHeight dstWidth dstHeight dryRun d = Some ok \<and>
            (ok \<longrightarrow> w' \<le> 2 * dstWidth \<and> h' \<le> 2 * dstHeight)) \<and>
         (srcWidth \<le> 2 * dstWidth \<and> srcHeight \<le> 2 * dstHeight \<longrightarrow>
            downscale e rt srcWidth srcHeight dstWidth dstHeight dryRun d =
              Some ((rt, srcWidth, srcHeight), d)) \<and>
         ((srcWidth > 2 * dstWidth \<or> srcHeight > 2 * dstHeight) \<and>
          getNextRenderTarget e rt (max dstWidth ((srcWidth + 1) sdiv 2))
            (max dstHeight ((srcHeight + 1) sdiv 2)) d = (nextRt, d1) \<and>
          resource nextRt = Some nextRes \<longrightarrow>
            downscale e rt srcWidth srcHeight dstWidth dstHeight dryRun d =
              downscale e nextRes (max dstWidth ((srcWidth + 1) sdiv 2))
                (max dstHeight ((srcHeight + 1) sdiv 2)) dstWidth dstHeight dryRun
                (if \<not> dryRun
                 then emit (TextureBlt (ref_handle nextRes) 0
                              \<lparr>r_left = 0, r_top = 0, r_right = max dstWidth ((srcWidth + 1) sdiv 2),
                                r_bottom = max dstHeight ((srcHeight + 1) sdiv 2)\<rparr>
                              (ref_handle rt) 0
                              \<lparr>r_left = 0, r_top = 0, r_right = srcWidth, r_bottom = srcHeight\<rparr>
                              True False) d1
                 else d1))"
proof (intro conjI impI)
  have u: "int32 (2 * dstWidth) = 2 * dstWidth" "int32 (2 * dstHeight) = 2 * dstHeight"
          "int32 (srcWidth + 1) = srcWidth + 1" "int32 (srcHeight + 1) = srcHeight + 1"
    using assms by (simp_all add: dstSizeFits_def srcSizeFits_def int32_id)
  show "\<exists>rt' w' h' d' ok.
            downscale e rt srcWidth srcHeight dstWidth dstHeight dryRun d = Some ((rt', w', h'), d') \<and>
            everyRequestSucceeds e rt srcWidth srcHeight dstWidth dstHeight dryRun d = Some ok \<and>
            (ok \<longrightarrow> w' \<le> 2 * dstWidth \<and> h' \<le> 2 * dstHeight)"
    using assms by (rule downscale_total)
  {
    assume "srcWidth \<le> 2 * dstWidth \<and> srcHeight \<le> 2 * dstHeight"
    then show "downscale e rt srcWidth srcHeight dstWidth dstHeight dryRun d =
                Some ((rt, srcWidth, srcHeight), d)"
      by (subst downscale.simps) (simp add: u)
  }
  {
    assume a: "(srcWidth > 2 * dstWidth \<or> srcHeight > 2 * dstHeight) \<and>
            getNextRenderTarget e rt (max dstWidth ((srcWidth + 1) sdiv 2))
              (max dstHeight ((srcHeight + 1) sdiv 2)) d = (nextRt, d1) \<and>
            resource nextRt = Some nextRes"
    then show "downscale e rt srcWidth srcHeight dstWidth dstHeight dryRun d =
                downscale e nextRes (max dstWidth ((srcWidth + 1) sdiv 2))
                  (max dstHeight ((srcHeight + 1) sdiv 2)) dstWidth dstHeight dryRun
                  (if \<not> dryRun
                   then emit (TextureBlt (ref_handle nextRes) 0
                                \<lparr>r_left = 0, r_top = 0, r_right = max dstWidth ((srcWidth + 1) sdiv 2),
                                  r_bottom = max dstHeight ((srcHeight + 1) sdiv 2)\<rparr>
                                (ref_handle rt) 0
                                \<lparr>r_left = 0, r_top = 0, r_right = srcWidth, r_bottom = srcHeight\<rparr>
                                True False) d1
                   else d1)"
      by (subst downscale.simps) (simp add: u Let_def)
  }
qed

text \<open>A repository that always has two render targets to alternate between.\<close>

definition exampleRenderTarget :: "nat \<Rightarrow> ResourceRef" where
  "exampleRenderTarget k =
     \<lparr>ref_handle = 100 + k, ref_origData = exampleData, ref_fixedData = exampleData,
      ref_formatInfo = \<lparr>bytesPerPixel = 4\<rparr>, ref_lockResource = None\<rparr>"

definition exampleRepoEnv :: env where
  "exampleRepoEnv =
     exampleEnv\<lparr>repo := (\<lambda>_ q. case q of
        GetTempRenderTarget w h k \<Rightarrow> \<lparr>resource = Some (exampleRenderTarget k), width = nat w, height = nat h\<rparr>
      | _ \<Rightarrow> noSurface)\<rparr>"

definition exampleBlockedRepoEnv :: env where
  "exampleBlockedRepoEnv =
     exampleEnv\<lparr>repo := (\<lambda>hist q. case q of
        GetTempRenderTarget w h k \<Rightarrow>
          if hist = [] then \<lparr>resource = Some (exampleRenderTarget 1), width = nat w, height = nat h\<rparr>
          else noSurface
      | _ \<Rightarrow> noSurface)\<rparr>"

lemma exampleRepoEnv_step:
  "getNextRenderTarget exampleRepoEnv (exampleRenderTarget k) w h d =
     (\<lparr>resource = Some (exampleRenderTarget (if k = 0 then 1 else 0)), width = nat w, height = nat h\<rparr>,
      if k = 0 then d\<lparr>calls := calls d @ [Repo (GetTempRenderTarget w h 0), Repo (GetTempRenderTarget w h 1)]\<rparr>
      else d\<lparr>calls := calls d @ [Repo (GetTempRenderTarget w h 0)]\<rparr>)"
  by (simp add: getNextRenderTarget_def askRepo_def exampleRepoEnv_def exampleRenderTarget_def Let_def)

lemma exampleRepoEnv_succeeds:
  "everyRequestSucceeds exampleRepoEnv (exampleRenderTarget 0) 1000 300 100 100 True exampleDev = Some True"
  apply (subst everyRequestSucceeds.simps)
  apply (simp add: exampleRepoEnv_step int32_def signed_divide_int_def Let_def)
  apply (subst everyRequestSucceeds.simps)
  apply (simp add: exampleRepoEnv_step int32_def signed_divide_int_def Let_def)
  apply (subst everyRequestSucceeds.simps)
  apply (simp add: exampleRepoEnv_step int32_def signed_divide_int_def Let_def)
  apply (subst everyRequestSucceeds.simps)
  apply (simp add: exampleRepoEnv_step int32_def signed_divide_int_def Let_def)
  done

theorem downscale_chain_witness:
  "dstSizeFits 100 \<and> srcSizeFits 1000 \<and> srcSizeFits 300 \<and> srcSizeFits 150 \<and> srcSizeFits 200 \<and>
   everyRequestSucceeds exampleRepoEnv (exampleRenderTarget 0) 1000 300 100 100 True exampleDev = Some True \<and>
   (\<exists>rt' w' h' d'.
      downscale exampleRepoEnv (exampleRenderTarget 0) 1000 300 100 100 True exampleDev
        = Some ((rt', w', h'), d') \<and> w' \<le> 2 * 100 \<and> h' \<le> 2 * 100) \<and>
   downscale exampleRepoEnv (exampleRenderTarget 0) 150 200 100 100 True exampleDev =
     Some ((exampleRenderTarget 0, 150, 200), exampleDev) \<and>
   downscale exampleRepoEnv (exampleRenderTarget 0) 1000 300 100 100 True exampleDev =
     downscale exampleRepoEnv (exampleRenderTarget 1) 500 150 100 100 True
       (exampleDev\<lparr>calls := [Repo (GetTempRenderTarget 500 150 0), Repo (GetTempRenderTarget 500 150 1)]\<rparr>)"
proof -
  have p: "dstSizeFits 100" by (simp add: dstSizeFits_def)
  have q: "srcSizeFits 1000" "srcSizeFits 300" "srcSizeFits 150" "srcSizeFits 200"
    by (simp_all add: srcSizeFits_def)
  have w: "(150::int) \<le> 2 * 100 \<and> (200::int) \<le> 2 * 100" by simp
  have g: "((1000::int) > 2 * 100 \<or> (300::int) > 2 * 100) \<and>
           getNextRenderTarget exampleRepoEnv (exampleRenderTarget 0)
             (max 100 ((1000 + 1) sdiv 2)) (max 100 ((300 + 1) sdiv 2)) exampleDev =
             (\<lparr>resource = Some (exampleRenderTarget 1), width = 500, height = 150\<rparr>,
              exampleDev\<lparr>calls := [Repo (GetTempRenderTarget 500 150 0), Repo (GetTempRenderTarget 500 150 1)]\<rparr>) \<and>
           resource \<lparr>resource = Some (exampleRenderTarget 1), width = 500, height = 150\<rparr>
             = Some (exampleRenderTarget 1)"
    by (simp add: getNextRenderTarget_def askRepo_def exampleRepoEnv_def exampleRenderTarget_def
          exampleDev_def signed_divide_int_def Let_def)
  have m: "max 100 ((1000 + 1) sdiv 2) = (500::int)" "max 100 ((300 + 1) sdiv 2) = (150::int)"
    by (simp_all add: signed_divide_int_def)
  from downscale_chain[OF p p q(1,2), of exampleRepoEnv "exampleRenderTarget 0" True exampleDev,
         THEN conjunct1]
  obtain rt' w' h' d' ok where
    o: "downscale exampleRepoEnv (exampleRenderTarget 0) 1000 300 100 100 True exampleDev
          = Some ((rt', w', h'), d')"
       "everyRequestSucceeds exampleRepoEnv (exampleRenderTarget 0) 1000 300 100 100 True exampleDev
          = Some ok"
       "ok \<longrightarrow> w' \<le> 2 * 100 \<and> h' \<le> 2 * 100"
    by blast
  from o(2) have "ok" using exampleRepoEnv_succeeds by simp
  with o(1,3) have one: "\<exists>rt' w' h' d'.
      downscale exampleRepoEnv (exampleRenderTarget 0) 1000 300 100 100 True exampleDev
        = Some ((rt', w', h'), d') \<and> w' \<le> 2 * 100 \<and> h' \<le> 2 * 100"
    by blast
  from downscale_chain[OF p p q(3,4), of exampleRepoEnv "exampleRenderTarget 0" True exampleDev,
         THEN conjunct2, THEN conjunct1]
  have two: "downscale exampleRepoEnv (exampleRenderTarget 0) 150 200 100 100 True exampleDev =
     Some ((exampleRenderTarget 0, 150, 200), exampleDev)"
    using w by blast
  from downscale_chain[OF p p q(1,2), of exampleRepoEnv "exampleRenderTarget 0" True exampleDev
         "\<lparr>resource = Some (exampleRenderTarget 1), width = 500, height = 150\<rparr>"
         "exampleDev\<lparr>calls := [Repo (GetTempRenderTarget 500 150 0), Repo (GetTempRenderTarget 500 150 1)]\<rparr>"
         "exampleRenderTarget 1", THEN conjunct2, THEN conjunct2, THEN mp, OF g]
  have three: "downscale exampleRepoEnv (exampleRenderTarget 0) 1000 300 100 100 True exampleDev =
     downscale exampleRepoEnv (exampleRenderTarget 1) 500 150 100 100 True
       (exampleDev\<lparr>calls := [Repo (GetTempRenderTarget 500 150 0), Repo (GetTempRenderTarget 500 150 1)]\<rparr>)"
    unfolding m by simp
  show ?thesis using p q exampleRepoEnv_succeeds one two three by simp
qed

text \<open>
  With a destination of \<open>2^30\<close> by \<open>2^30\<close> the test \<open>2 * dstWidth\<close> overflows to \<open>-2^31\<close>. A 5 by
  5 source is within twice the destination, and yet a step runs: the repository is asked
  for a render target of the destination's size, the source is drawn onto it, and the
  source size returned is the destination's.
\<close>

theorem downscale_overflow_counterexample:
  "(5::int) \<le> 2 * 1073741824 \<and>
   downscale exampleBlockedRepoEnv (exampleRenderTarget 0) 5 5 1073741824 1073741824 False exampleDev =
     Some ((exampleRenderTarget 1, 1073741824, 1073741824),
           exampleDev\<lparr>calls :=
             [Repo (GetTempRenderTarget 1073741824 1073741824 0),
              TextureBlt 101 0 \<lparr>r_left = 0, r_top = 0, r_right = 1073741824, r_bottom = 1073741824\<rparr>
                100 0 \<lparr>r_left = 0, r_top = 0, r_right = 5, r_bottom = 5\<rparr> True False,
              Repo (GetTempRenderTarget 1073741824 1073741824 0)]\<rparr>)"
  apply (subst downscale.simps)
  apply (simp add: getNextRenderTarget_def askRepo_def emit_def exampleBlockedRepoEnv_def
           exampleRenderTarget_def exampleDev_def noSurface_def int32_def signed_divide_int_def Let_def)
  apply (subst downscale.simps)
  apply (simp add: getNextRenderTarget_def askRepo_def emit_def exampleBlockedRepoEnv_def
           exampleRenderTarget_def exampleDev_def noSurface_def int32_def signed_divide_int_def Let_def)
  done

section \<open>Reasoning about calls in the option monad\<close>

text \<open>
  What a call establishes when it returns: \<open>ensures m P\<close> holds when \<open>m\<close> does not return, and
  when it returns a value with \<open>P\<close>.
\<close>

definition ensures :: "'a option \<Rightarrow> ('a \<Rightarrow> bool) \<Rightarrow> bool" where
  "ensures m P = (case m of None \<Rightarrow> True | Some y \<Rightarrow> P y)"


lemma ensuresI: "(\<And>y. m = Some y \<Longrightarrow> P y) \<Longrightarrow> ensures m P"
  by (cases m) (simp_all add: ensures_def)


















lemma Resource_ctor_Inr:
  assumes "Resource_ctor e dat d = Some (Inr r, d')"
  obtains r3 d1 d2 h r5 d3 where
    "Resource_ctor_fix e (newResource e dat) d = Some (r3, d1)"
    "updateConfig e (r3\<lparr>m_fixedData := (m_fixedData r3)\<lparr>hResource := h\<rparr>, m_handle := h\<rparr>, d2) = Some (r5, d3)"
    "initLockData e (r5, d3) = Some (r, d')"
  using assms
  by (auto simp: Resource_ctor_def Let_def bind_eq_Some_conv callDriver_def split: if_splits prod.splits)

section \<open>Writing leaves one representation valid\<close>

datatype representation = SysMem | VidMem | Msaa | MsaaResolved

text \<open>Exactly the flag of one representation is set.\<close>

definition onlyValid :: "representation \<Rightarrow> LockData \<Rightarrow> bool" where
  "onlyValid rep l =
     (isSysMemUpToDate l = (rep = SysMem) \<and> isVidMemUpToDate l = (rep = VidMem) \<and>
      isMsaaUpToDate l = (rep = Msaa) \<and> isMsaaResolvedUpToDate l = (rep = MsaaResolved))"








section \<open>Representations that exist\<close>

text \<open>
  The representations a resource has: a system-memory one when it has a lock resource or
  is itself in the system-memory pool, a video-memory one when it is not in the
  system-memory pool, and the multisampled and the resolved one by their surfaces.
\<close>

definition representationExists :: "Resource \<Rightarrow> representation \<Rightarrow> bool" where
  "representationExists r rep =
     (case rep of
        SysMem \<Rightarrow> m_lockResource r \<noteq> None \<or> Pool (m_fixedData r) = D3DDDIPOOL_SYSTEMMEM
      | VidMem \<Rightarrow> Pool (m_fixedData r) \<noteq> D3DDDIPOOL_SYSTEMMEM
      | Msaa \<Rightarrow> resource (m_msaaSurface r) \<noteq> None
      | MsaaResolved \<Rightarrow> resource (m_msaaResolvedSurface r) \<noteq> None)"

definition validFlag :: "representation \<Rightarrow> LockData \<Rightarrow> bool" where
  "validFlag rep l =
     (case rep of
        SysMem \<Rightarrow> isSysMemUpToDate l
      | VidMem \<Rightarrow> isVidMemUpToDate l
      | Msaa \<Rightarrow> isMsaaUpToDate l
      | MsaaResolved \<Rightarrow> isMsaaResolvedUpToDate l)"

text \<open>Among the representations that exist, exactly the flag of one is set.\<close>

definition onlyValidExisting :: "Resource \<Rightarrow> representation \<Rightarrow> LockData \<Rightarrow> bool" where
  "onlyValidExisting r rep l =
     list_all (\<lambda>rep'. representationExists r rep' \<longrightarrow> validFlag rep' l = (rep' = rep))
       [SysMem, VidMem, Msaa, MsaaResolved]"


lemma onlyValid_existing: "onlyValid rep l \<Longrightarrow> onlyValidExisting r rep l"
  by (cases rep) (simp_all add: onlyValid_def onlyValidExisting_def validFlag_def)












lemmas example_defs =
  exampleEnv_def exampleDev_def exampleData_def exampleFormatInfo_def newResource_def
  newLockData_def noFlags_def noSurface_def emptyRect_def

lemmas ctor_defs =
  Resource_ctor_def Resource_ctor_fix_def fixResourceData_def updateConfig_def initLockData_def
  createLockResource_def createSysMemResource_def getMultisampleConfig_def getFormatConfig_def
  getScaledSize_def hasTypeFlagBesidesRenderTarget_def SurfCount_def resize_def pSurfList_def
  callDriver_def emit_def FAILED_def SUCCEEDED_def Let_def





section \<open>Oversized system-memory resources\<close>

lemma updateConfig_sysmem:
  "Pool (m_fixedData r) = D3DDDIPOOL_SYSTEMMEM \<Longrightarrow> updateConfig e (r, d) = Some (r, d)"
  by (simp add: updateConfig_def)

text \<open>The fixed creation data of a clamped request.\<close>

definition clampedData :: "env \<Rightarrow> dev \<Rightarrow> Resource_Data \<Rightarrow> D3DDDI_SURFACEINFO \<Rightarrow> Resource_Data" where
  "clampedData e d dat si =
     (if fst (g_msaaOverride d) \<noteq> D3DDDIMULTISAMPLE_NONE
      then dat\<lparr>MultisampleType := fst (g_msaaOverride d), MultisampleQuality := snd (g_msaaOverride d)\<rparr>
      else dat)
     \<lparr>surfaceData := [si\<lparr>Width := min (Width si) (dwMaxTextureWidth e),
                          Height := min (Height si) (dwMaxTextureHeight e)\<rparr>]\<rparr>"

lemma fixResourceData_clamps:
  assumes "Pool dat = D3DDDIPOOL_SYSTEMMEM" "surfaceData dat = [si]" "Depth si = 0"
      and "bytesPerPixel (getFormatInfo e (Format dat)) \<noteq> 0"
      and "\<not> MatchGdiPrimary (Flags dat)" "g_formatOverride d = D3DDDIFMT_UNKNOWN"
  shows "fixResourceData e d (newResource e dat) =
           (newResource e dat)
             \<lparr>m_fixedData := clampedData e d dat si,
              m_isOversized := (Width si > dwMaxTextureWidth e \<or> Height si > dwMaxTextureHeight e)\<rparr>"
  using assms
  by (auto simp: fixResourceData_def newResource_def clampedData_def Let_def min_def)

lemma clampedData_fields:
  "Pool (clampedData e d dat si) = Pool dat"
  "Format (clampedData e d dat si) = Format dat"
  "Flags (clampedData e d dat si) = Flags dat"
  "surfaceData (clampedData e d dat si) =
     [si\<lparr>Width := min (Width si) (dwMaxTextureWidth e), Height := min (Height si) (dwMaxTextureHeight e)\<rparr>]"
  by (simp_all add: clampedData_def)

lemma Resource_ctor_clamped:
  assumes "Pool dat = D3DDDIPOOL_SYSTEMMEM" "surfaceData dat = [si]" "Depth si = 0"
      and "bytesPerPixel (getFormatInfo e (Format dat)) \<noteq> 0"
      and "\<not> MatchGdiPrimary (Flags dat)" "g_formatOverride d = D3DDDIFMT_UNKNOWN"
      and "Resource_ctor e dat d = Some (Inr r, d')"
  shows "surfaceData (m_fixedData r) =
           [si\<lparr>Width := min (Width si) (dwMaxTextureWidth e),
                Height := min (Height si) (dwMaxTextureHeight e)\<rparr>]"
    and "m_isOversized r = (Width si > dwMaxTextureWidth e \<or> Height si > dwMaxTextureHeight e)"
    and "m_lockResource r = None"
    and "m_lockData r = [newLockData\<lparr>data := pSysMem si, pitch := SysMemPitch si, isSysMemUpToDate := True\<rparr>]"
    and "m_formatInfo r = getFormatInfo e (Format dat)"
proof -
  define fd where "fd = clampedData e d dat si"
  define r3 where "r3 = (newResource e dat)
             \<lparr>m_fixedData := fd,
              m_isOversized := (Width si > dwMaxTextureWidth e \<or> Height si > dwMaxTextureHeight e),
              m_formatInfo := getFormatInfo e (Format dat), m_formatConfig := Format dat,
              m_scaledSize := \<lparr>cx = int (min (Width si) (dwMaxTextureWidth e)),
                                cy = int (min (Height si) (dwMaxTextureHeight e))\<rparr>\<rparr>"
  have o: "m_origData (newResource e dat) = dat" by (simp add: newResource_def)
  have fx: "Resource_ctor_fix e (newResource e dat) d = Some (r3, d)"
    using assms(5)
    by (simp add: Resource_ctor_fix_def o fixResourceData_clamps[OF assms(1-6)] clampedData_fields
          pSurfList_def Let_def r3_def fd_def)
  from assms(7) obtain r3' d1 d2 h r5 d3 where
    c: "Resource_ctor_fix e (newResource e dat) d = Some (r3', d1)"
       "updateConfig e (r3'\<lparr>m_fixedData := (m_fixedData r3')\<lparr>hResource := h\<rparr>, m_handle := h\<rparr>, d2) = Some (r5, d3)"
       "initLockData e (r5, d3) = Some (r, d')"
    by (rule Resource_ctor_Inr)
  define r4 where "r4 = r3\<lparr>m_fixedData := (m_fixedData r3)\<lparr>hResource := h\<rparr>, m_handle := h\<rparr>"
  have p4: "Pool (m_fixedData r4) = D3DDDIPOOL_SYSTEMMEM"
    using assms(1) by (simp add: r4_def r3_def fd_def clampedData_fields)
  have b4: "bytesPerPixel (m_formatInfo r4) \<noteq> 0"
    using assms(4) by (simp add: r4_def r3_def)
  from c(1) fx have "r3' = r3" by simp
  with c(2) have "r5 = r4" "d3 = d2"
    using updateConfig_sysmem[OF p4, of e d2] by (simp_all add: r4_def)
  with c(3) have "r = r4\<lparr>m_lockData :=
        [newLockData\<lparr>data := pSysMem si, pitch := SysMemPitch si, isSysMemUpToDate := True\<rparr>]\<rparr>"
    using p4 b4 assms(2)
    by (auto simp: initLockData_def r4_def r3_def newResource_def SurfCount_def resize_def)
  then have r: "m_fixedData r = fd\<lparr>hResource := h\<rparr>" "m_isOversized r = m_isOversized r3"
    "m_lockResource r = m_lockResource r3"
    "m_lockData r = [newLockData\<lparr>data := pSysMem si, pitch := SysMemPitch si, isSysMemUpToDate := True\<rparr>]"
    "m_formatInfo r = m_formatInfo r3"
    by (simp_all add: r4_def r3_def)
  show "surfaceData (m_fixedData r) =
           [si\<lparr>Width := min (Width si) (dwMaxTextureWidth e),
                Height := min (Height si) (dwMaxTextureHeight e)\<rparr>]"
    using r(1) by (simp add: fd_def clampedData_fields)
  show "m_isOversized r = (Width si > dwMaxTextureWidth e \<or> Height si > dwMaxTextureHeight e)"
    using r(2) by (simp add: r3_def)
  show "m_lockResource r = None"
    using r(3) by (simp add: r3_def newResource_def)
  show "m_lockData r = [newLockData\<lparr>data := pSysMem si, pitch := SysMemPitch si, isSysMemUpToDate := True\<rparr>]"
    by (rule r(4))
  show "m_formatInfo r = getFormatInfo e (Format dat)"
    using r(5) by (simp add: r3_def)
qed

lemma lock_oversized:
  assumes "m_isOversized r"
  shows "lock e lk (r, d) =
           (if MultisampleType (m_fixedData r) \<noteq> D3DDDIMULTISAMPLE_NONE then Some (E_FAIL, lk, r, d)
            else if hSrcResource (setBltSrc e newBlt) \<noteq> 0 then Some (E_ABORT, lk, r, d)
            else bltLock e lk (r, d))"
  using assms by (simp add: lock_def)

lemma bltLock_sysmem:
  assumes "m_lockResource r = None"
      and "m_lockData r = [l]"
  shows "bltLock e lk (r, d) =
           (if l_SubResourceIndex lk = 0
            then Some (S_OK,
                       lk\<lparr>pSurfData := int (data l) +
                              (if l_AreaValid lk
                               then r_top (l_Area lk) * int (pitch l) +
                                    r_left (l_Area lk) * int (bytesPerPixel (m_formatInfo r))
                               else 0),
                          Pitch := pitch l\<rparr>, r, d)
            else None)"
  using assms by (simp add: bltLock_def lockDataAt_def Let_def)

text \<open>
  C6: take a creation request in the system-memory pool with exactly one subresource
  \<^verbatim>\<open>si\<close>, zero \<^verbatim>\<open>Depth\<close> and a format of nonzero bytes per pixel, that is not flagged
  \<^verbatim>\<open>MatchGdiPrimary\<close> and is made while no format override is active, and let construction
  succeed with resource \<^verbatim>\<open>r\<close>. Then the fixed \<^verbatim>\<open>Width\<close> and \<^verbatim>\<open>Height\<close> are the requested ones
  clamped to \<^verbatim>\<open>dwMaxTextureWidth\<close> and \<^verbatim>\<open>dwMaxTextureHeight\<close>, and the oversized flag is set
  exactly when one of them exceeded its maximum. \<^verbatim>\<open>lock\<close> on the oversized resource returns
  \<^verbatim>\<open>E_FAIL\<close> when the fixed data is multisampled, \<^verbatim>\<open>E_ABORT\<close> when \<^verbatim>\<open>DDraw::setBltSrc\<close>
  reports a pending blit source, and is \<^verbatim>\<open>bltLock\<close> otherwise; \<^verbatim>\<open>bltLock\<close> on subresource 0
  returns \<^verbatim>\<open>S_OK\<close> with the caller's system-memory pointer and pitch and changes neither
  the resource nor the shared state, so the driver's lock is never called.
\<close>

theorem oversized_clamped_and_locked:
  assumes "Pool dat = D3DDDIPOOL_SYSTEMMEM" "surfaceData dat = [si]" "Depth si = 0"
      and "bytesPerPixel (getFormatInfo e (Format dat)) \<noteq> 0"
      and "\<not> MatchGdiPrimary (Flags dat)" "g_formatOverride d = D3DDDIFMT_UNKNOWN"
      and "Resource_ctor e dat d = Some (Inr r, d')"
  shows "surfaceData (m_fixedData r) =
           [si\<lparr>Width := min (Width si) (dwMaxTextureWidth e),
                Height := min (Height si) (dwMaxTextureHeight e)\<rparr>] \<and>
         (m_isOversized r \<longleftrightarrow>
            Width si > dwMaxTextureWidth e \<or> Height si > dwMaxTextureHeight e) \<and>
         (m_isOversized r \<longrightarrow>
            lock e lk (r, d2) =
              (if MultisampleType (m_fixedData r) \<noteq> D3DDDIMULTISAMPLE_NONE
               then Some (E_FAIL, lk, r, d2)
               else if hSrcResource (setBltSrc e newBlt) \<noteq> 0 then Some (E_ABORT, lk, r, d2)
               else bltLock e lk (r, d2))) \<and>
         (l_SubResourceIndex lk = 0 \<longrightarrow>
            bltLock e lk (r, d2) =
              Some (S_OK,
                    lk\<lparr>pSurfData := int (pSysMem si) +
                           (if l_AreaValid lk
                            then r_top (l_Area lk) * int (SysMemPitch si) +
                                 r_left (l_Area lk) *
                                   int (bytesPerPixel (getFormatInfo e (Format dat)))
                            else 0),
                       Pitch := SysMemPitch si\<rparr>, r, d2))"
proof -
  note c = Resource_ctor_clamped[OF assms]
  have "l_SubResourceIndex lk = 0 \<longrightarrow>
            bltLock e lk (r, d2) =
              Some (S_OK,
                    lk\<lparr>pSurfData := int (pSysMem si) +
                           (if l_AreaValid lk
                            then r_top (l_Area lk) * int (SysMemPitch si) +
                                 r_left (l_Area lk) *
                                   int (bytesPerPixel (getFormatInfo e (Format dat)))
                            else 0),
                       Pitch := SysMemPitch si\<rparr>, r, d2)"
    by (simp add: bltLock_sysmem[OF c(3) c(4)] c(5) newLockData_def)
  then show ?thesis
    using c(1) c(2) lock_oversized[of r e lk d2] by simp
qed

definition exampleOversizedData :: Resource_Data where
  "exampleOversizedData =
     exampleData\<lparr>Pool := D3DDDIPOOL_SYSTEMMEM,
       surfaceData := [\<lparr>Width = 9000, Height = 9000, Depth = 0, pSysMem = 4096, SysMemPitch = 36000\<rparr>]\<rparr>"

definition exampleOversizedResource :: "Resource_Data \<Rightarrow> Resource" where
  "exampleOversizedResource dat =
     (newResource exampleEnv dat)
       \<lparr>m_handle := 1,
        m_fixedData := dat\<lparr>surfaceData :=
            [\<lparr>Width = 8192, Height = 8192, Depth = 0, pSysMem = 4096, SysMemPitch = 36000\<rparr>],
          hResource := 1\<rparr>,
        m_formatInfo := \<lparr>bytesPerPixel = 4\<rparr>,
        m_lockData := [newLockData\<lparr>data := 4096, pitch := 36000, isSysMemUpToDate := True\<rparr>],
        m_formatConfig := D3DDDIFMT_X8R8G8B8, m_scaledSize := \<lparr>cx = 8192, cy = 8192\<rparr>,
        m_isOversized := True\<rparr>"

definition exampleCreated :: dev where
  "exampleCreated =
     exampleDev\<lparr>calls := [PfnCreateResource (exampleOversizedData\<lparr>surfaceData :=
        [\<lparr>Width = 8192, Height = 8192, Depth = 0, pSysMem = 4096, SysMemPitch = 36000\<rparr>]\<rparr>)]\<rparr>"

lemma exampleOversized_constructed:
  "Resource_ctor exampleEnv exampleOversizedData exampleDev =
     Some (Inr (exampleOversizedResource exampleOversizedData), exampleCreated)"
  by (simp add: ctor_defs example_defs exampleOversizedData_def exampleOversizedResource_def
        exampleCreated_def)

theorem oversized_clamped_and_locked_witness:
  "Resource_ctor exampleEnv exampleOversizedData exampleDev =
     Some (Inr (exampleOversizedResource exampleOversizedData), exampleCreated) \<and>
   surfaceData (m_fixedData (exampleOversizedResource exampleOversizedData)) =
     [\<lparr>Width = 8192, Height = 8192, Depth = 0, pSysMem = 4096, SysMemPitch = 36000\<rparr>] \<and>
   m_isOversized (exampleOversizedResource exampleOversizedData) \<and>
   lock exampleEnv newLock (exampleOversizedResource exampleOversizedData, exampleCreated) =
     Some (S_OK, newLock\<lparr>pSurfData := 4096, Pitch := 36000\<rparr>,
           exampleOversizedResource exampleOversizedData, exampleCreated)"
proof -
  have h: "Pool exampleOversizedData = D3DDDIPOOL_SYSTEMMEM"
    "surfaceData exampleOversizedData =
       [\<lparr>Width = 9000, Height = 9000, Depth = 0, pSysMem = 4096, SysMemPitch = 36000\<rparr>]"
    "Depth \<lparr>Width = 9000, Height = 9000, Depth = 0, pSysMem = 4096, SysMemPitch = 36000\<rparr> = 0"
    "bytesPerPixel (getFormatInfo exampleEnv (Format exampleOversizedData)) \<noteq> 0"
    "\<not> MatchGdiPrimary (Flags exampleOversizedData)"
    "g_formatOverride exampleDev = D3DDDIFMT_UNKNOWN"
    by (simp_all add: exampleOversizedData_def example_defs)
  note t = oversized_clamped_and_locked[OF h exampleOversized_constructed,
             of newLock exampleCreated]
  have m: "MultisampleType (m_fixedData (exampleOversizedResource exampleOversizedData)) =
             D3DDDIMULTISAMPLE_NONE"
    "hSrcResource (setBltSrc exampleEnv newBlt) = 0"
    "l_SubResourceIndex newLock = 0" "\<not> l_AreaValid newLock"
    by (simp_all add: exampleOversizedResource_def exampleOversizedData_def example_defs
          newBlt_def newLock_def)
  have o: "m_isOversized (exampleOversizedResource exampleOversizedData)"
    by (simp add: exampleOversizedResource_def)
  from t have "lock exampleEnv newLock (exampleOversizedResource exampleOversizedData, exampleCreated) =
     Some (S_OK, newLock\<lparr>pSurfData := 4096, Pitch := 36000\<rparr>,
           exampleOversizedResource exampleOversizedData, exampleCreated)"
    using m o by simp
  moreover from t have "surfaceData (m_fixedData (exampleOversizedResource exampleOversizedData)) =
     [\<lparr>Width = 8192, Height = 8192, Depth = 0, pSysMem = 4096, SysMemPitch = 36000\<rparr>]"
    by (simp add: exampleEnv_def)
  ultimately show ?thesis
    using o exampleOversized_constructed by simp
qed

text \<open>
  The request of the witness, multisampled: the resource is constructed oversized, and
  \<^verbatim>\<open>lock\<close> on it returns \<^verbatim>\<open>E_FAIL\<close> where \<^verbatim>\<open>bltLock\<close> returns \<^verbatim>\<open>S_OK\<close> with the pointer.
\<close>

lemma exampleOversizedMsaa_constructed:
  "Resource_ctor exampleEnv (exampleOversizedData\<lparr>MultisampleType := 2\<rparr>) exampleDev =
     Some (Inr (exampleOversizedResource (exampleOversizedData\<lparr>MultisampleType := 2\<rparr>)),
           exampleCreated\<lparr>calls := [PfnCreateResource (exampleOversizedData\<lparr>MultisampleType := 2,
             surfaceData :=
               [\<lparr>Width = 8192, Height = 8192, Depth = 0, pSysMem = 4096, SysMemPitch = 36000\<rparr>]\<rparr>)]\<rparr>)"
  by (simp add: ctor_defs example_defs exampleOversizedData_def exampleOversizedResource_def
        exampleCreated_def)

theorem oversized_lock_counterexample:
  "Resource_ctor exampleEnv (exampleOversizedData\<lparr>MultisampleType := 2\<rparr>) exampleDev =
     Some (Inr (exampleOversizedResource (exampleOversizedData\<lparr>MultisampleType := 2\<rparr>)),
           exampleCreated\<lparr>calls := [PfnCreateResource (exampleOversizedData\<lparr>MultisampleType := 2,
             surfaceData :=
               [\<lparr>Width = 8192, Height = 8192, Depth = 0, pSysMem = 4096, SysMemPitch = 36000\<rparr>]\<rparr>)]\<rparr>) \<and>
   m_isOversized (exampleOversizedResource (exampleOversizedData\<lparr>MultisampleType := 2\<rparr>)) \<and>
   lock exampleEnv newLock
     (exampleOversizedResource (exampleOversizedData\<lparr>MultisampleType := 2\<rparr>), exampleDev) =
     Some (E_FAIL, newLock,
           exampleOversizedResource (exampleOversizedData\<lparr>MultisampleType := 2\<rparr>), exampleDev) \<and>
   bltLock exampleEnv newLock
     (exampleOversizedResource (exampleOversizedData\<lparr>MultisampleType := 2\<rparr>), exampleDev) =
     Some (S_OK, newLock\<lparr>pSurfData := 4096, Pitch := 36000\<rparr>,
           exampleOversizedResource (exampleOversizedData\<lparr>MultisampleType := 2\<rparr>), exampleDev)"
proof -
  have "lock exampleEnv newLock
     (exampleOversizedResource (exampleOversizedData\<lparr>MultisampleType := 2\<rparr>), exampleDev) =
     Some (E_FAIL, newLock,
           exampleOversizedResource (exampleOversizedData\<lparr>MultisampleType := 2\<rparr>), exampleDev)"
    by (simp add: lock_def exampleOversizedResource_def)
  moreover have "bltLock exampleEnv newLock
     (exampleOversizedResource (exampleOversizedData\<lparr>MultisampleType := 2\<rparr>), exampleDev) =
     Some (S_OK, newLock\<lparr>pSurfData := 4096, Pitch := 36000\<rparr>,
           exampleOversizedResource (exampleOversizedData\<lparr>MultisampleType := 2\<rparr>), exampleDev)"
    by (simp add: bltLock_def lockDataAt_def exampleOversizedResource_def newResource_def
          newLock_def newLockData_def Let_def)
  moreover have "m_isOversized (exampleOversizedResource (exampleOversizedData\<lparr>MultisampleType := 2\<rparr>))"
    by (simp add: exampleOversizedResource_def)
  ultimately show ?thesis
    using exampleOversizedMsaa_constructed by simp
qed

section \<open>Invariant I1: every subresource has a valid representation\<close>

definition hasValidFlag :: "LockData \<Rightarrow> bool" where
  "hasValidFlag l =
     (isSysMemUpToDate l \<or> isVidMemUpToDate l \<or> isMsaaUpToDate l \<or> isMsaaResolvedUpToDate l)"

definition I1 :: "Resource \<Rightarrow> bool" where
  "I1 r = list_all hasValidFlag (m_lockData r)"

lemma I1_lockData: "m_lockData r' = m_lockData r \<Longrightarrow> I1 r' = I1 r"
  by (simp add: I1_def)

lemma list_all_update: "list_all P xs \<Longrightarrow> P x \<Longrightarrow> list_all P (xs[i := x])"
  by (induction xs arbitrary: i) (auto split: nat.splits)

lemma I1_loaded:
  assumes "loaded i r r'" "I1 r"
  shows "I1 r'"
proof -
  from assms(1) obtain l' where
    l: "i < length (m_lockData r)" "r' = r\<lparr>m_lockData := (m_lockData r)[i := l']\<rparr>"
       "flagsGrow (m_lockData r ! i) l'"
    unfolding loaded_def by blast
  from assms(2) l(1) have "hasValidFlag (m_lockData r ! i)"
    by (simp add: I1_def list_all_length)
  with l(3) have "hasValidFlag l'" by (auto simp: hasValidFlag_def flagsGrow_def)
  with assms(2) show ?thesis unfolding l(2) I1_def by (simp add: list_all_update)
qed


lemma I1_clear_mark:
  assumes "clearUpToDateFlags i r = Some r1" "setLockData i g r1 = Some r2" "I1 r"
      and "\<And>l. hasValidFlag (g l)"
  shows "I1 r2"
  using assms by (auto simp: clearUpToDateFlags_def setLockData_Some I1_def list_all_update)



lemma loadMsaaResource_loaded:
  assumes "loadMsaaResource e i (r, d) = Some (r', d')"
  shows "loaded i r r'"
proof -
  from assms obtain l where l: "lockDataAt r i = Some l"
    by (auto simp: loadMsaaResource_def bind_eq_Some_conv)
  then have len: "i < length (m_lockData r)" by (simp add: lockDataAt_Some)
  show ?thesis
  proof (cases "isMsaaUpToDate l")
    case True
    with assms l have "r' = r" by (simp add: loadMsaaResource_def)
    then show ?thesis using len by (simp add: loaded_refl)
  next
    case False
    have "\<exists>r2. loaded i r r2 \<and> setLockData i (\<lambda>l. l\<lparr>isMsaaUpToDate := True\<rparr>) r2 = Some r'"
    proof (cases "resource (m_msaaResolvedSurface r)")
      case None
      with assms l False obtain r1 d1 where
        "loadVidMemResource e i (r, d) = Some (r1, d1)"
        "setLockData i (\<lambda>l. l\<lparr>isMsaaUpToDate := True\<rparr>) r1 = Some r'"
        by (auto simp: loadMsaaResource_def bind_eq_Some_conv)
      then show ?thesis using loadVidMemResource_loaded by blast
    next
      case (Some a)
      with assms l False obtain r1 d1 where
        "loadMsaaResolvedResource e i (r, d) = Some (r1, d1)"
        "setLockData i (\<lambda>l. l\<lparr>isMsaaUpToDate := True\<rparr>) r1 = Some r'"
        by (auto simp: loadMsaaResource_def bind_eq_Some_conv split: if_splits option.splits)
      then show ?thesis using loadMsaaResolvedResource_loaded by blast
    qed
    then show ?thesis using loaded_setFlag(4) loaded_trans by blast
  qed
qed



lemma hasValidFlag_mark:
  "hasValidFlag (l\<lparr>isSysMemUpToDate := True\<rparr>)" "hasValidFlag (l\<lparr>isVidMemUpToDate := True\<rparr>)"
  "hasValidFlag (l\<lparr>isMsaaUpToDate := True\<rparr>)" "hasValidFlag (l\<lparr>isMsaaResolvedUpToDate := True\<rparr>)"
  by (simp_all add: hasValidFlag_def)



lemma I1_prepareForGpuWrite:
  assumes "prepareForGpuWrite e i (r, d) = Some (r', d')" "I1 r"
  shows "I1 r'"
proof (cases "m_lockResource r \<noteq> None \<or> resource (m_msaaResolvedSurface r) \<noteq> None")
  case False
  with assms show ?thesis by (simp add: prepareForGpuWrite_def)
next
  case True
  with assms(1) have
    "\<exists>r1 r2 g. loaded i r r1 \<and> clearUpToDateFlags i r1 = Some r2 \<and> setLockData i g r2 = Some r' \<and>
        (\<forall>l. hasValidFlag (g l))"
    using loadMsaaResource_loaded[of e i r d] loadMsaaResolvedResource_loaded[of e i r d]
      loadVidMemResource_loaded[of e i r d] hasValidFlag_mark
    by (auto simp: prepareForGpuWrite_def bind_eq_Some_conv split: if_splits) blast+
  then obtain r1 r2 g where
    c: "loaded i r r1" "clearUpToDateFlags i r1 = Some r2" "setLockData i g r2 = Some r'"
       "\<And>l. hasValidFlag (g l)"
    by blast
  have "I1 r1" using I1_loaded[OF c(1) assms(2)] .
  then show ?thesis by (rule I1_clear_mark[OF c(2) c(3)]) (rule c(4))
qed








section \<open>Reconfiguration\<close>









section \<open>The invariant over the resources of a device\<close>




























end
